(* ===== verification/IK_Prelude.thy ===== *)
theory IK_Prelude
  imports Complex_Main
begin

text \<open>
  Shared vocabulary of the development.

  \<^item> \<open>float\<close>: the C++ types \<open>float\<close> and \<open>double\<close> of \<open>src/IKTest.cpp\<close>, idealised as
    the real numbers. Rounding, overflow to infinity and NaN are not modelled; every
    theorem of the development is a statement about the exact arithmetic the program
    approximates.
  \<^item> \<open>for_loop\<close>: the counted loop \<open>for (int i = 0; i < n; i++) body\<close> as a fold over
    \<open>[0..<n]\<close>, with the unfolding rules, an invariant rule, and the two array idioms of
    the program (fill \<open>a[i] = f i\<close>, and in-place update \<open>a[i] = g i a[i]\<close>) related to
    \<open>map\<close>.
  \<^item> the fact collections the component theories add to: \<open>glm_defs\<close> (the GLM
    primitives, componentwise), \<open>ik_defs\<close> (the statements of the frame), \<open>ik_frame\<close>
    (which variables a statement leaves alone) and \<open>ik_wf\<close> (well-formedness kept by a
    statement).
  \<^item> a few facts on \<open>sqrt\<close> and squares used to decide the convergence guard.
\<close>

named_theorems glm_defs "definitions of the GLM primitives, to be unfolded componentwise"
named_theorems ik_defs "definitions of the statements of one frame"
named_theorems ik_frame "variables a statement of the frame leaves unchanged"
named_theorems ik_wf "well-formedness facts kept by the statements of the frame"

type_synonym float = real

subsection \<open>Counted loops\<close>

definition for_loop :: "nat \<Rightarrow> (nat \<Rightarrow> 's \<Rightarrow> 's) \<Rightarrow> 's \<Rightarrow> 's" where
  "for_loop n body s = fold body [0..<n] s"

lemma for_loop_0 [simp]: "for_loop 0 body s = s"
  by (simp add: for_loop_def)

lemma for_loop_Suc [simp]: "for_loop (Suc n) body s = body n (for_loop n body s)"
  by (simp add: for_loop_def)

lemma for_loop_numeral [simp]:
  "for_loop (numeral k) body s = body (pred_numeral k) (for_loop (pred_numeral k) body s)"
  by (simp add: numeral_eq_Suc)

lemma for_loop_add: "for_loop (m + n) body s = for_loop n (\<lambda>i. body (m + i)) (for_loop m body s)"
  by (induction n) simp_all

text \<open>Invariant rule: \<open>P i\<close> holds before iteration \<open>i\<close> and \<open>P n\<close> on exit.\<close>

lemma for_loop_invariant:
  assumes "P 0 s" and "\<And>i t. i < n \<Longrightarrow> P i t \<Longrightarrow> P (Suc i) (body i t)"
  shows "P n (for_loop n body s)"
proof -
  have "k \<le> n \<Longrightarrow> P k (for_loop k body s)" for k
    by (induction k) (simp_all add: assms)
  then show ?thesis by simp
qed

text \<open>A property every iteration keeps holds on exit.\<close>

lemma for_loop_preserves:
  assumes "Q s" and "\<And>i t. i < n \<Longrightarrow> Q t \<Longrightarrow> Q (body i t)"
  shows "Q (for_loop n body s)"
  using assms by (rule for_loop_invariant [where P = "\<lambda>_. Q"])

text \<open>Two bodies that agree below the bound give the same loop.\<close>

lemma for_loop_cong:
  assumes "\<And>i t. i < n \<Longrightarrow> body i t = body' i t"
  shows "for_loop n body s = for_loop n body' s"
proof -
  have "k \<le> n \<Longrightarrow> for_loop k body s = for_loop k body' s" for k
    by (induction k) (simp_all add: assms)
  then show ?thesis by simp
qed

subsection \<open>Array idioms\<close>

text \<open>
  \<open>for (i = 0; i < n; i++) a[i] = f i\<close> overwrites the first \<open>n\<close> cells whatever they
  held, so the initial contents of an uninitialised array do not matter.
\<close>

lemma length_array_fill [simp]:
  "length (for_loop n (\<lambda>i a. a[i := f i a]) a) = length a"
  by (induction n) simp_all

lemma array_fill_take_drop:
  "n \<le> length a \<Longrightarrow>
   for_loop n (\<lambda>i a. a[i := f i]) a = map f [0..<n] @ drop n a"
proof (induction n)
  case 0
  then show ?case by simp
next
  case (Suc n)
  then have "for_loop (Suc n) (\<lambda>i a. a[i := f i]) a = (map f [0..<n] @ drop n a)[n := f n]"
    by simp
  also have "\<dots> = map f [0..<n] @ (drop n a)[0 := f n]"
    by (simp add: list_update_append)
  also have "(drop n a)[0 := f n] = f n # drop (Suc n) a"
    using Suc.prems by (cases "drop n a") (auto simp: drop_Suc drop_tl)
  finally show ?case by simp
qed

lemma array_fill_eq_map:
  "length a = n \<Longrightarrow> for_loop n (\<lambda>i a. a[i := f i]) a = map f [0..<n]"
  by (simp add: array_fill_take_drop)

text \<open>
  \<open>for (i = 0; i < n; i++) a[i] = g i a[i]\<close> reads each cell once, before it is
  written, so all new values are computed from the old array.
\<close>

lemma array_update_take_drop:
  "n \<le> length a \<Longrightarrow>
   for_loop n (\<lambda>i b. b[i := g i (b ! i)]) a = map (\<lambda>i. g i (a ! i)) [0..<n] @ drop n a"
proof (induction n)
  case 0
  then show ?case by simp
next
  case (Suc n)
  let ?p = "map (\<lambda>i. g i (a ! i)) [0..<n]"
  from Suc have eq: "for_loop n (\<lambda>i b. b[i := g i (b ! i)]) a = ?p @ drop n a"
    by simp
  have nth: "(?p @ drop n a) ! n = a ! n"
    using Suc.prems by (simp add: nth_append)
  have "(?p @ drop n a)[n := g n (a ! n)] = ?p @ (drop n a)[0 := g n (a ! n)]"
    by (simp add: list_update_append)
  also have "(drop n a)[0 := g n (a ! n)] = g n (a ! n) # drop (Suc n) a"
    using Suc.prems by (cases "drop n a") (auto simp: drop_Suc drop_tl)
  finally show ?case by (simp add: eq nth)
qed

lemma array_update_eq_map:
  "length a = n \<Longrightarrow>
   for_loop n (\<lambda>i b. b[i := g i (b ! i)]) a = map (\<lambda>i. g i (a ! i)) [0..<n]"
  by (simp add: array_update_take_drop)

lemma upt_5: "[0..<5] = [0, 1, 2, 3, 4]"
  by (simp add: upt_rec)

lemma lt_5_cases: "i < (5::nat) \<longleftrightarrow> i = 0 \<or> i = 1 \<or> i = 2 \<or> i = 3 \<or> i = 4"
  by arith

lemma list_len_5:
  "length xs = 5 \<longleftrightarrow> (\<exists>a b c d e. xs = [a, b, c, d, e])"
  by (auto simp: length_Suc_conv eval_nat_numeral)

subsection \<open>Square roots and squares\<close>

lemma sqrt_gt_iff_sq: "0 \<le> e \<Longrightarrow> e < sqrt x \<longleftrightarrow> e\<^sup>2 < x"
  by (metis abs_of_nonneg real_sqrt_abs real_sqrt_less_iff)

lemma sqrt_le_iff_sq: "0 \<le> e \<Longrightarrow> sqrt x \<le> e \<longleftrightarrow> x \<le> e\<^sup>2"
  using sqrt_gt_iff_sq [of e x] by auto

lemma sum3_squares_eq_0_iff [simp]:
  "a * a + b * b + c * c = 0 \<longleftrightarrow> a = 0 \<and> b = 0 \<and> c = (0::real)"
proof
  assume h: "a * a + b * b + c * c = 0"
  have "0 \<le> a * a" "0 \<le> b * b" "0 \<le> c * c" by simp_all
  with h have "a * a = 0" "b * b = 0" "c * c = 0" by linarith+
  then show "a = 0 \<and> b = 0 \<and> c = 0" by simp
qed simp

end
