(* ===== verification/Glm.thy ===== *)
theory Glm
  imports IK_Prelude
begin

text \<open>
  The part of the GLM mathematics library that \<open>src/IKTest.cpp\<close> calls (GLM is included
  by the program, its code is not part of the repository). The definitions follow
  GLM's documented semantics and its column-major layout:

  \<^item> \<open>vec3\<close>, \<open>vec4\<close>: \<open>glm::vec3\<close>, \<open>glm::vec4\<close> with their componentwise \<open>+\<close>, \<open>-\<close>
    and multiplication by a scalar (instances of \<open>real_vector\<close>, so that the library's
    \<open>algebra_simps\<close> and \<open>scaleR\<close> lemmas apply);
  \<^item> \<open>mat4\<close>: \<open>glm::mat4\<close> as four columns; \<open>m[3]\<close> is \<open>col3 m\<close>, the translation
    column. \<open>*\<close> is the matrix product and \<open>1\<close> the identity \<open>glm::mat4(1.0f)\<close>
    (an instance of \<open>monoid_mult\<close>). The program also writes \<open>glm::mat4()\<close> and relies
    on it being the identity, which holds for the GLM releases before 0.9.9 that
    initialise in the default constructor; the model follows the program;
  \<^item> \<open>glm_translate\<close>, \<open>glm_scale\<close>, \<open>glm_rotate_m\<close> and \<open>glm_rotate\<close> (angle in
    radians, Rodrigues' form over the normalised axis), \<open>glm_ortho\<close>, \<open>glm_lookAt\<close>,
    \<open>glm_cross\<close>, \<open>glm_dot\<close>, \<open>glm_length\<close>, \<open>glm_normalize\<close>;
  \<^item> \<open>mat_vec\<close>: matrix times column vector, \<open>vec3_of\<close>: the conversion \<open>vec3(v4)\<close>,
    \<open>point4\<close>: a point in homogeneous coordinates.

  The lemmas give each primitive componentwise (collected in \<open>glm_defs\<close>), the algebra
  of the cross and dot products, and the products of the transforms the skeleton uses.
  Division by zero (a zero-length axis in \<open>glm_normalize\<close>) is 0 here and NaN in the
  program; no theorem applies \<open>glm_normalize\<close> to the zero vector.
\<close>

subsection \<open>Vectors\<close>

datatype vec3 = Vec3 (vx: float) (vy: float) (vz: float)

datatype vec4 = Vec4 (v4x: float) (v4y: float) (v4z: float) (v4w: float)

lemma vec3_eq_iff: "a = b \<longleftrightarrow> vx a = vx b \<and> vy a = vy b \<and> vz a = vz b"
  by (auto intro: vec3.expand)

lemma vec4_eq_iff:
  "a = b \<longleftrightarrow> v4x a = v4x b \<and> v4y a = v4y b \<and> v4z a = v4z b \<and> v4w a = v4w b"
  by (auto intro: vec4.expand)

instantiation vec3 :: real_vector
begin

definition zero_vec3 :: vec3 where
  "zero_vec3 = Vec3 0 0 0"

definition plus_vec3 :: "vec3 \<Rightarrow> vec3 \<Rightarrow> vec3" where
  "plus_vec3 a b = Vec3 (vx a + vx b) (vy a + vy b) (vz a + vz b)"

definition minus_vec3 :: "vec3 \<Rightarrow> vec3 \<Rightarrow> vec3" where
  "minus_vec3 a b = Vec3 (vx a - vx b) (vy a - vy b) (vz a - vz b)"

definition uminus_vec3 :: "vec3 \<Rightarrow> vec3" where
  "uminus_vec3 a = Vec3 (- vx a) (- vy a) (- vz a)"

definition scaleR_vec3 :: "real \<Rightarrow> vec3 \<Rightarrow> vec3" where
  "scaleR_vec3 k a = Vec3 (k * vx a) (k * vy a) (k * vz a)"

instance
  by standard
    (simp_all add: vec3_eq_iff zero_vec3_def plus_vec3_def minus_vec3_def uminus_vec3_def
      scaleR_vec3_def algebra_simps)

end

instantiation vec4 :: real_vector
begin

definition zero_vec4 :: vec4 where
  "zero_vec4 = Vec4 0 0 0 0"

definition plus_vec4 :: "vec4 \<Rightarrow> vec4 \<Rightarrow> vec4" where
  "plus_vec4 a b = Vec4 (v4x a + v4x b) (v4y a + v4y b) (v4z a + v4z b) (v4w a + v4w b)"

definition minus_vec4 :: "vec4 \<Rightarrow> vec4 \<Rightarrow> vec4" where
  "minus_vec4 a b = Vec4 (v4x a - v4x b) (v4y a - v4y b) (v4z a - v4z b) (v4w a - v4w b)"

definition uminus_vec4 :: "vec4 \<Rightarrow> vec4" where
  "uminus_vec4 a = Vec4 (- v4x a) (- v4y a) (- v4z a) (- v4w a)"

definition scaleR_vec4 :: "real \<Rightarrow> vec4 \<Rightarrow> vec4" where
  "scaleR_vec4 k a = Vec4 (k * v4x a) (k * v4y a) (k * v4z a) (k * v4w a)"

instance
  by standard
    (simp_all add: vec4_eq_iff zero_vec4_def plus_vec4_def minus_vec4_def uminus_vec4_def
      scaleR_vec4_def algebra_simps)

end

lemma vec3_sel [simp]:
  "vx 0 = 0" "vy 0 = 0" "vz 0 = 0"
  "vx (a + b) = vx a + vx b" "vy (a + b) = vy a + vy b" "vz (a + b) = vz a + vz b"
  "vx (a - b) = vx a - vx b" "vy (a - b) = vy a - vy b" "vz (a - b) = vz a - vz b"
  "vx (- a) = - vx a" "vy (- a) = - vy a" "vz (- a) = - vz a"
  "vx (k *\<^sub>R a) = k * vx a" "vy (k *\<^sub>R a) = k * vy a" "vz (k *\<^sub>R a) = k * vz a"
  by (simp_all add: zero_vec3_def plus_vec3_def minus_vec3_def uminus_vec3_def scaleR_vec3_def)

lemma vec4_sel [simp]:
  "v4x 0 = 0" "v4y 0 = 0" "v4z 0 = 0" "v4w 0 = 0"
  "v4x (p + q) = v4x p + v4x q" "v4y (p + q) = v4y p + v4y q"
  "v4z (p + q) = v4z p + v4z q" "v4w (p + q) = v4w p + v4w q"
  "v4x (p - q) = v4x p - v4x q" "v4y (p - q) = v4y p - v4y q"
  "v4z (p - q) = v4z p - v4z q" "v4w (p - q) = v4w p - v4w q"
  "v4x (- p) = - v4x p" "v4y (- p) = - v4y p" "v4z (- p) = - v4z p" "v4w (- p) = - v4w p"
  "v4x (k *\<^sub>R p) = k * v4x p" "v4y (k *\<^sub>R p) = k * v4y p"
  "v4z (k *\<^sub>R p) = k * v4z p" "v4w (k *\<^sub>R p) = k * v4w p"
  by (simp_all add: zero_vec4_def plus_vec4_def minus_vec4_def uminus_vec4_def scaleR_vec4_def)

lemma Vec3_arith [simp]:
  "Vec3 a b c + Vec3 d e f = Vec3 (a + d) (b + e) (c + f)"
  "Vec3 a b c - Vec3 d e f = Vec3 (a - d) (b - e) (c - f)"
  "- Vec3 a b c = Vec3 (- a) (- b) (- c)"
  "k *\<^sub>R Vec3 a b c = Vec3 (k * a) (k * b) (k * c)"
  "Vec3 a b c = 0 \<longleftrightarrow> a = 0 \<and> b = 0 \<and> c = 0"
  by (simp_all add: vec3_eq_iff)

lemma Vec4_arith [simp]:
  "Vec4 a b c d + Vec4 e f g h = Vec4 (a + e) (b + f) (c + g) (d + h)"
  "Vec4 a b c d - Vec4 e f g h = Vec4 (a - e) (b - f) (c - g) (d - h)"
  "k *\<^sub>R Vec4 a b c d = Vec4 (k * a) (k * b) (k * c) (k * d)"
  by (simp_all add: vec4_eq_iff)

definition vec3_of :: "vec4 \<Rightarrow> vec3" where
  "vec3_of p = Vec3 (v4x p) (v4y p) (v4z p)"

definition point4 :: "vec3 \<Rightarrow> vec4" where
  "point4 v = Vec4 (vx v) (vy v) (vz v) 1"

lemma vec3_of_sel [simp]:
  "vx (vec3_of p) = v4x p" "vy (vec3_of p) = v4y p" "vz (vec3_of p) = v4z p"
  by (simp_all add: vec3_of_def)

lemma point4_sel [simp]:
  "v4x (point4 v) = vx v" "v4y (point4 v) = vy v" "v4z (point4 v) = vz v" "v4w (point4 v) = 1"
  by (simp_all add: point4_def)

lemma vec3_of_point4 [simp]: "vec3_of (point4 v) = v"
  by (simp add: vec3_eq_iff)

subsection \<open>Dot product, cross product, length\<close>

definition glm_dot :: "vec3 \<Rightarrow> vec3 \<Rightarrow> float" where
  "glm_dot a b = vx a * vx b + vy a * vy b + vz a * vz b"

definition glm_cross :: "vec3 \<Rightarrow> vec3 \<Rightarrow> vec3" where
  "glm_cross a b =
     Vec3 (vy a * vz b - vy b * vz a) (vz a * vx b - vz b * vx a) (vx a * vy b - vx b * vy a)"

definition glm_length :: "vec3 \<Rightarrow> float" where
  "glm_length v = sqrt (glm_dot v v)"

definition glm_normalize :: "vec3 \<Rightarrow> vec3" where
  "glm_normalize v = (1 / sqrt (glm_dot v v)) *\<^sub>R v"

lemmas [glm_defs] = glm_dot_def glm_cross_def glm_length_def glm_normalize_def

lemma glm_cross_sel [simp]:
  "vx (glm_cross a b) = vy a * vz b - vy b * vz a"
  "vy (glm_cross a b) = vz a * vx b - vz b * vx a"
  "vz (glm_cross a b) = vx a * vy b - vx b * vy a"
  by (simp_all add: glm_cross_def)

lemma glm_dot_commute: "glm_dot a b = glm_dot b a"
  by (simp add: glm_dot_def mult.commute)

lemma glm_dot_add_left: "glm_dot (a + b) c = glm_dot a c + glm_dot b c"
  by (simp add: glm_dot_def algebra_simps)

lemma glm_dot_add_right: "glm_dot a (b + c) = glm_dot a b + glm_dot a c"
  by (simp add: glm_dot_def algebra_simps)

lemma glm_dot_diff_left: "glm_dot (a - b) c = glm_dot a c - glm_dot b c"
  by (simp add: glm_dot_def algebra_simps)

lemma glm_dot_diff_right: "glm_dot a (b - c) = glm_dot a b - glm_dot a c"
  by (simp add: glm_dot_def algebra_simps)

lemma glm_dot_scale_left [simp]: "glm_dot (k *\<^sub>R a) b = k * glm_dot a b"
  by (simp add: glm_dot_def algebra_simps)

lemma glm_dot_scale_right [simp]: "glm_dot a (k *\<^sub>R b) = k * glm_dot a b"
  by (simp add: glm_dot_def algebra_simps)

lemma glm_dot_minus_left [simp]: "glm_dot (- a) b = - glm_dot a b"
  using glm_dot_scale_left [of "- 1" a b] by simp

lemma glm_dot_minus_right [simp]: "glm_dot a (- b) = - glm_dot a b"
  using glm_dot_scale_right [of a "- 1" b] by simp

lemma glm_dot_zero [simp]: "glm_dot 0 a = 0" "glm_dot a 0 = 0"
  by (simp_all add: glm_dot_def)

lemma glm_dot_self_nonneg [simp]: "0 \<le> glm_dot a a"
  by (simp add: glm_dot_def)

lemma glm_dot_self_eq_0_iff [simp]: "glm_dot a a = 0 \<longleftrightarrow> a = 0"
  by (simp add: glm_dot_def vec3_eq_iff)

lemma glm_cross_zero [simp]: "glm_cross a 0 = 0" "glm_cross 0 a = 0" "glm_cross a a = 0"
  by (simp_all add: vec3_eq_iff)

lemma glm_cross_anticommute: "glm_cross a b = - glm_cross b a"
  by (simp add: vec3_eq_iff)

text \<open>The cross product is orthogonal to both of its operands.\<close>

lemma glm_dot_cross_right [simp]: "glm_dot (glm_cross a b) b = 0"
  by (simp add: glm_dot_def algebra_simps)

lemma glm_dot_cross_left [simp]: "glm_dot (glm_cross a b) a = 0"
  by (simp add: glm_dot_def algebra_simps)

text \<open>Lagrange's identity, and the Cauchy-Schwarz inequality it gives.\<close>

lemma glm_lagrange:
  "glm_dot (glm_cross a b) (glm_cross a b) = glm_dot a a * glm_dot b b - (glm_dot a b)\<^sup>2"
  by (simp add: glm_dot_def power2_eq_square algebra_simps)

lemma glm_cauchy_schwarz: "(glm_dot a b)\<^sup>2 \<le> glm_dot a a * glm_dot b b"
  using glm_dot_self_nonneg [of "glm_cross a b"] by (simp add: glm_lagrange)

lemma glm_length_nonneg [simp]: "0 \<le> glm_length v"
  by (simp add: glm_length_def)

lemma glm_length_eq_0_iff [simp]: "glm_length v = 0 \<longleftrightarrow> v = 0"
  by (simp add: glm_length_def)

lemma glm_length_zero [simp]: "glm_length 0 = 0"
  by simp

lemma glm_length_sq: "(glm_length v)\<^sup>2 = glm_dot v v"
  by (simp add: glm_length_def)

lemma glm_length_minus: "glm_length (a - b) = glm_length (b - a)"
  by (simp add: glm_length_def glm_dot_def power2_commute flip: power2_eq_square)

lemma glm_length_scale: "glm_length (k *\<^sub>R v) = \<bar>k\<bar> * glm_length v"
proof -
  have "glm_dot (k *\<^sub>R v) (k *\<^sub>R v) = k\<^sup>2 * glm_dot v v"
    by (simp add: power2_eq_square)
  then show ?thesis
    by (simp add: glm_length_def real_sqrt_mult)
qed

lemma glm_length_gt_iff: "0 \<le> e \<Longrightarrow> e < glm_length v \<longleftrightarrow> e\<^sup>2 < glm_dot v v"
  by (simp add: glm_length_def sqrt_gt_iff_sq)

lemma glm_length_le_iff: "0 \<le> e \<Longrightarrow> glm_length v \<le> e \<longleftrightarrow> glm_dot v v \<le> e\<^sup>2"
  by (simp add: glm_length_def sqrt_le_iff_sq)

lemma glm_dot_le_length: "glm_dot a b \<le> glm_length a * glm_length b"
proof -
  have "\<bar>glm_dot a b\<bar> \<le> sqrt (glm_dot a a * glm_dot b b)"
    using glm_cauchy_schwarz [of a b] by (metis real_sqrt_abs real_sqrt_le_iff)
  then show ?thesis
    by (simp add: glm_length_def real_sqrt_mult)
qed

lemma glm_length_triangle: "glm_length (a + b) \<le> glm_length a + glm_length b"
proof -
  have "glm_dot (a + b) (a + b) = glm_dot a a + 2 * glm_dot a b + glm_dot b b"
    by (simp add: glm_dot_def algebra_simps)
  also have "\<dots> \<le> (glm_length a)\<^sup>2 + 2 * (glm_length a * glm_length b) + (glm_length b)\<^sup>2"
    using glm_dot_le_length [of a b] by (simp add: glm_length_sq)
  also have "\<dots> = (glm_length a + glm_length b)\<^sup>2"
    by (simp add: power2_eq_square algebra_simps)
  finally have "sqrt (glm_dot (a + b) (a + b)) \<le> sqrt ((glm_length a + glm_length b)\<^sup>2)"
    by (simp only: real_sqrt_le_iff)
  then show ?thesis
    by (simp add: glm_length_def [of "a + b"])
qed

subsection \<open>Matrices\<close>

datatype mat4 = Mat4 (col0: vec4) (col1: vec4) (col2: vec4) (col3: vec4)

lemma mat4_eq_iff:
  "m = n \<longleftrightarrow> col0 m = col0 n \<and> col1 m = col1 n \<and> col2 m = col2 n \<and> col3 m = col3 n"
  by (auto intro: mat4.expand)

definition mat_vec :: "mat4 \<Rightarrow> vec4 \<Rightarrow> vec4" where
  "mat_vec m p = v4x p *\<^sub>R col0 m + v4y p *\<^sub>R col1 m + v4z p *\<^sub>R col2 m + v4w p *\<^sub>R col3 m"

instantiation mat4 :: monoid_mult
begin

definition one_mat4 :: mat4 where
  "one_mat4 = Mat4 (Vec4 1 0 0 0) (Vec4 0 1 0 0) (Vec4 0 0 1 0) (Vec4 0 0 0 1)"

definition times_mat4 :: "mat4 \<Rightarrow> mat4 \<Rightarrow> mat4" where
  "times_mat4 a b =
     Mat4 (mat_vec a (col0 b)) (mat_vec a (col1 b)) (mat_vec a (col2 b)) (mat_vec a (col3 b))"

instance
proof
  fix a b c :: mat4
  show "a * b * c = a * (b * c)"
    by (simp add: times_mat4_def mat_vec_def vec4_eq_iff algebra_simps)
  show "1 * a = a"
    by (simp add: times_mat4_def one_mat4_def mat_vec_def mat4_eq_iff vec4_eq_iff)
  show "a * 1 = a"
    by (simp add: times_mat4_def one_mat4_def mat_vec_def mat4_eq_iff vec4_eq_iff)
qed

end

lemmas [glm_defs] = times_mat4_def one_mat4_def mat_vec_def

text \<open>
  Products of matrices stay products under \<open>simp\<close>; a proof that compares matrices
  entry by entry asks for it with \<open>mat4_cw\<close>.
\<close>

lemma mat4_mult_sel:
  "col0 (a * b) = mat_vec a (col0 b)" "col1 (a * b) = mat_vec a (col1 b)"
  "col2 (a * b) = mat_vec a (col2 b)" "col3 (a * b) = mat_vec a (col3 b)"
  by (simp_all add: times_mat4_def)

lemmas mat4_cw = mat4_eq_iff mat4_mult_sel mat_vec_def vec4_eq_iff

lemma mat4_one_sel [simp]:
  "col0 1 = Vec4 1 0 0 0" "col1 1 = Vec4 0 1 0 0" "col2 1 = Vec4 0 0 1 0" "col3 1 = Vec4 0 0 0 1"
  by (simp_all add: one_mat4_def)

lemma mat_vec_one [simp]: "mat_vec 1 p = p"
  by (simp add: mat_vec_def vec4_eq_iff)

lemma mat_vec_mult: "mat_vec (a * b) p = mat_vec a (mat_vec b p)"
  by (simp add: mat4_cw algebra_simps)

lemma mat_vec_unit [simp]:
  "mat_vec m (Vec4 1 0 0 0) = col0 m" "mat_vec m (Vec4 0 1 0 0) = col1 m"
  "mat_vec m (Vec4 0 0 1 0) = col2 m" "mat_vec m (Vec4 0 0 0 1) = col3 m"
  by (simp_all add: mat_vec_def vec4_eq_iff)

subsection \<open>Transforms\<close>

definition glm_translate :: "mat4 \<Rightarrow> vec3 \<Rightarrow> mat4" where
  "glm_translate m v =
     Mat4 (col0 m) (col1 m) (col2 m)
       (vx v *\<^sub>R col0 m + vy v *\<^sub>R col1 m + vz v *\<^sub>R col2 m + col3 m)"

definition glm_scale :: "mat4 \<Rightarrow> vec3 \<Rightarrow> mat4" where
  "glm_scale m v = Mat4 (vx v *\<^sub>R col0 m) (vy v *\<^sub>R col1 m) (vz v *\<^sub>R col2 m) (col3 m)"

definition glm_rotate_m :: "mat4 \<Rightarrow> float \<Rightarrow> vec3 \<Rightarrow> mat4" where
  "glm_rotate_m m angle v =
     (let c = cos angle; s = sin angle;
          axis = glm_normalize v;
          temp = (1 - c) *\<^sub>R axis
      in Mat4
        ((c + vx temp * vx axis) *\<^sub>R col0 m + (vx temp * vy axis + s * vz axis) *\<^sub>R col1 m
           + (vx temp * vz axis - s * vy axis) *\<^sub>R col2 m)
        ((vy temp * vx axis - s * vz axis) *\<^sub>R col0 m + (c + vy temp * vy axis) *\<^sub>R col1 m
           + (vy temp * vz axis + s * vx axis) *\<^sub>R col2 m)
        ((vz temp * vx axis + s * vy axis) *\<^sub>R col0 m + (vz temp * vy axis - s * vx axis) *\<^sub>R col1 m
           + (c + vz temp * vz axis) *\<^sub>R col2 m)
        (col3 m))"

definition glm_rotate :: "float \<Rightarrow> vec3 \<Rightarrow> mat4" where
  "glm_rotate angle v = glm_rotate_m 1 angle v"

definition glm_ortho :: "float \<Rightarrow> float \<Rightarrow> float \<Rightarrow> float \<Rightarrow> float \<Rightarrow> float \<Rightarrow> mat4" where
  "glm_ortho lft rgt btm tp zNear zFar =
     Mat4 (Vec4 (2 / (rgt - lft)) 0 0 0)
          (Vec4 0 (2 / (tp - btm)) 0 0)
          (Vec4 0 0 (- (2 / (zFar - zNear))) 0)
          (Vec4 (- ((rgt + lft) / (rgt - lft))) (- ((tp + btm) / (tp - btm)))
                (- ((zFar + zNear) / (zFar - zNear))) 1)"

definition glm_lookAt :: "vec3 \<Rightarrow> vec3 \<Rightarrow> vec3 \<Rightarrow> mat4" where
  "glm_lookAt eye center up =
     (let f = glm_normalize (center - eye);
          s = glm_normalize (glm_cross f up);
          u = glm_cross s f
      in Mat4 (Vec4 (vx s) (vx u) (- vx f) 0)
              (Vec4 (vy s) (vy u) (- vy f) 0)
              (Vec4 (vz s) (vz u) (- vz f) 0)
              (Vec4 (- glm_dot s eye) (- glm_dot u eye) (glm_dot f eye) 1))"

lemmas [glm_defs] =
  glm_translate_def glm_scale_def glm_rotate_m_def glm_rotate_def glm_ortho_def glm_lookAt_def

lemma glm_translate_sel [simp]:
  "col0 (glm_translate m v) = col0 m" "col1 (glm_translate m v) = col1 m"
  "col2 (glm_translate m v) = col2 m"
  "col3 (glm_translate m v) = vx v *\<^sub>R col0 m + vy v *\<^sub>R col1 m + vz v *\<^sub>R col2 m + col3 m"
  by (simp_all add: glm_translate_def)

lemma glm_scale_sel [simp]:
  "col0 (glm_scale m v) = vx v *\<^sub>R col0 m" "col1 (glm_scale m v) = vy v *\<^sub>R col1 m"
  "col2 (glm_scale m v) = vz v *\<^sub>R col2 m" "col3 (glm_scale m v) = col3 m"
  by (simp_all add: glm_scale_def)

text \<open>
  GLM post-multiplies: \<open>translate(m, v)\<close> is \<open>m\<close> times the translation by \<open>v\<close>, and
  likewise for \<open>scale\<close> and \<open>rotate\<close>.
\<close>

lemma glm_translate_mult: "glm_translate m v = m * glm_translate 1 v"
  by (simp add: mat4_cw)

lemma glm_scale_mult: "glm_scale m v = m * glm_scale 1 v"
  by (simp add: mat4_cw)

lemma glm_rotate_m_mult: "glm_rotate_m m a v = m * glm_rotate a v"
  by (simp add: glm_rotate_def glm_rotate_m_def Let_def mat4_cw)

lemma glm_translate_zero [simp]: "glm_translate m 0 = m"
  by (simp add: mat4_cw)

lemma glm_scale_ones [simp]: "glm_scale m (Vec3 1 1 1) = m"
  by (simp add: mat4_cw)

lemma glm_translate_point [simp]:
  "mat_vec (glm_translate 1 v) (point4 p) = point4 (p + v)"
  by (simp add: mat_vec_def vec4_eq_iff)

lemma glm_scale_point [simp]:
  "mat_vec (glm_scale 1 v) (point4 p) = point4 (Vec3 (vx v * vx p) (vy v * vy p) (vz v * vz p))"
  by (simp add: mat_vec_def vec4_eq_iff)

lemma glm_scale_scale:
  "glm_scale 1 a * glm_scale 1 b = glm_scale 1 (Vec3 (vx a * vx b) (vy a * vy b) (vz a * vz b))"
  by (simp add: mat4_cw)

text \<open>A scaling by non-zero factors is undone by the scaling with the reciprocals.\<close>

lemma glm_scale_inverse:
  assumes "a \<noteq> 0" "b \<noteq> 0" "c \<noteq> 0"
  shows "glm_scale 1 (Vec3 a b c) * glm_scale 1 (Vec3 (1 / a) (1 / b) (1 / c)) = 1"
  using assms by (simp add: glm_scale_scale)

text \<open>
  The translation column \<open>m[3]\<close> of a product: a scaling or a rotation on the right
  leaves it alone, a translation on the right moves it.
\<close>

lemma col3_mult_scale [simp]: "col3 (m * glm_scale 1 v) = col3 m"
  by (simp add: mat4_cw)

lemma col3_mult_rotate [simp]: "col3 (m * glm_rotate a v) = col3 m"
  by (simp add: glm_rotate_def glm_rotate_m_def Let_def mat4_cw)

lemma col3_mult_translate: "col3 (m * glm_translate 1 v) = mat_vec m (point4 v)"
  by (simp add: mat4_cw)

lemma col3_translate [simp]: "col3 (glm_translate 1 v) = point4 v"
  by (simp add: vec4_eq_iff)

end
