(* ===== verification/Scene.thy ===== *)
theory Scene
  imports Glm
begin

text \<open>
  The fixed scene of \<open>main\<close> in \<open>src/IKTest.cpp\<close>: the orthographic camera
  (\<open>Projection\<close>, \<open>View\<close>), the vertex and colour data of the one mesh the program draws
  (a bone of unit length along the x axis, as four triangles), and the window size the
  mouse coordinates refer to. The lemmas compute the camera in closed form: it maps the
  world square \<open>[-60, 60] \<times> [-60, 60]\<close> of the plane \<open>z = 0\<close> onto the whole viewport.
\<close>

subsection \<open>Window and camera\<close>

definition window_width :: float where
  "window_width = 1024"

definition window_height :: float where
  "window_height = 768"

definition Projection :: mat4 where
  "Projection = glm_ortho (- 60) 60 (- 60) 60 0 120"

definition View :: mat4 where
  "View = glm_lookAt (Vec3 0 0 100) (Vec3 0 0 0) (Vec3 0 1 0)"

lemmas scene_defs = Projection_def View_def window_width_def window_height_def

lemma Projection_eq:
  "Projection =
     Mat4 (Vec4 (1 / 60) 0 0 0) (Vec4 0 (1 / 60) 0 0) (Vec4 0 0 (- (1 / 60)) 0) (Vec4 0 0 (- 1) 1)"
  by (simp add: Projection_def glm_ortho_def)

lemma sqrt_10000: "sqrt 10000 = 100"
  by (rule real_sqrt_unique) simp_all

lemma View_eq: "View = glm_translate 1 (Vec3 0 0 (- 100))"
  by (simp add: View_def glm_lookAt_def glm_normalize_def glm_dot_def Let_def sqrt_10000
      mat4_cw)

lemma Projection_View_eq:
  "Projection * View =
     Mat4 (Vec4 (1 / 60) 0 0 0) (Vec4 0 (1 / 60) 0 0) (Vec4 0 0 (- (1 / 60)) 0) (Vec4 0 0 (2 / 3) 1)"
  by (simp add: Projection_eq View_eq mat4_cw)

text \<open>Normalised device coordinates of a world point: the camera only rescales.\<close>

lemma camera_point:
  "mat_vec (Projection * View) (point4 v) = Vec4 (vx v / 60) (vy v / 60) (2 / 3 - vz v / 60) 1"
  by (simp add: Projection_View_eq mat_vec_def vec4_eq_iff)

subsection \<open>The bone mesh\<close>

definition g_vertex_buffer_data :: "float list" where
  "g_vertex_buffer_data =
     [0, 0, 0,
      3 / 10, 3 / 10, 0,
      3 / 10, 0, 0,
      3 / 10, 0, 0,
      3 / 10, 3 / 10, 0,
      1, 0, 0,
      0, 0, 0,
      3 / 10, - (3 / 10), 0,
      3 / 10, 0, 0,
      3 / 10, 0, 0,
      3 / 10, - (3 / 10), 0,
      1, 0, 0]"

definition g_color_buffer_data :: "float list" where
  "g_color_buffer_data =
     [1, 0, 0,
      1, 0, 0,
      1, 0, 0,
      1, 1, 1,
      1, 1, 1,
      1, 1, 1,
      1, 1, 1,
      1, 1, 1,
      1, 1, 1,
      1, 0, 0,
      1, 0, 0,
      1, 0, 0]"

text \<open>\<open>glVertexAttribPointer\<close> with size 3: attribute \<open>k\<close> is the \<open>k\<close>-th triple.\<close>

definition vertex_at :: "float list \<Rightarrow> nat \<Rightarrow> vec3" where
  "vertex_at buf k = Vec3 (buf ! (3 * k)) (buf ! (3 * k + 1)) (buf ! (3 * k + 2))"

definition mesh_vertices :: "vec3 list" where
  "mesh_vertices = map (vertex_at g_vertex_buffer_data) [0..<12]"

lemma length_buffers [simp]:
  "length g_vertex_buffer_data = 36" "length g_color_buffer_data = 36"
  by (simp_all add: g_vertex_buffer_data_def g_color_buffer_data_def)

lemma upt_12: "[0..<12] = [0, 1, 2, 3, 4, 5, 6, 7, 8, 9, 10, 11]"
  by (simp add: upt_rec)

lemma mesh_vertices_eq:
  "mesh_vertices =
     [Vec3 0 0 0, Vec3 (3 / 10) (3 / 10) 0, Vec3 (3 / 10) 0 0,
      Vec3 (3 / 10) 0 0, Vec3 (3 / 10) (3 / 10) 0, Vec3 1 0 0,
      Vec3 0 0 0, Vec3 (3 / 10) (- (3 / 10)) 0, Vec3 (3 / 10) 0 0,
      Vec3 (3 / 10) 0 0, Vec3 (3 / 10) (- (3 / 10)) 0, Vec3 1 0 0]"
  by (simp add: mesh_vertices_def upt_12 vertex_at_def g_vertex_buffer_data_def)

text \<open>
  The mesh lies in the plane \<open>z = 0\<close>, starts at the origin and ends at \<open>(1, 0, 0)\<close>:
  a model matrix draws a bone from the image of the origin to the image of \<open>(1, 0, 0)\<close>.
\<close>

lemma mesh_extent:
  "v \<in> set mesh_vertices \<Longrightarrow> 0 \<le> vx v \<and> vx v \<le> 1 \<and> \<bar>vy v\<bar> \<le> 3 / 10 \<and> vz v = 0"
  by (auto simp: mesh_vertices_eq)

lemma mesh_ends: "Vec3 0 0 0 \<in> set mesh_vertices" "Vec3 1 0 0 \<in> set mesh_vertices"
  by (simp_all add: mesh_vertices_eq)

end
