(* ===== verification/Skeleton.thy ===== *)
theory Skeleton
  imports Scene
begin

text \<open>
  The skeleton's configuration and the variables of \<open>main\<close> in \<open>src/IKTest.cpp\<close>.

  \<^item> \<open>lengths\<close>, \<open>numBones\<close>, \<open>rotAxis\<close>, \<open>step\<close>, \<open>threshold\<close>: the constants of the
    chain and of the solver, with the values the program gives them.
  \<^item> \<open>ik_state\<close>: one field per variable of \<open>main\<close> that a statement of the frame loop
    reads after another has written it, under the variable's own name (\<open>trans\<close> is
    \<open>trans_m\<close>, since \<open>trans\<close> is a constant of HOL). Two fields stand for the effects
    on the outside: \<open>drawn\<close>, the \<open>MVP\<close> matrices the bone mesh has been drawn with
    since the last \<open>glClear\<close>, and \<open>printed\<close>, the lines written to the console.
  \<^item> \<open>init_state\<close>: the variables as they are when the frame loop is entered.
    \<open>vec3 positions[5]\<close> holds what GLM's default constructor gives it, the zero
    vector (in the GLM releases the program is written for); the frame overwrites it
    before it reads it (\<open>Forward_Kinematics\<close>).
  \<^item> \<open>wf_state\<close>: the shape the arrays must have for every index the frame uses to be
    in range, and \<open>wf_lengths\<close>: the condition on the link lengths (five of them,
    none zero) under which the frame's divisions are those of the program.
\<close>

subsection \<open>Configuration\<close>

definition lengths :: "float list" where
  "lengths = [7, 27 / 2, 11, 7 / 2, 4]"

definition numBones :: nat where
  "numBones = 5"

definition rotAxis :: vec3 where
  "rotAxis = Vec3 0 0 1"

definition step :: float where
  "step = 1 / 100000"

definition threshold :: float where
  "threshold = 1 / 100000"

lemmas config_defs = lengths_def numBones_def rotAxis_def step_def threshold_def

lemma threshold_pos [simp]: "0 < threshold" "0 \<le> threshold"
  by (simp_all add: threshold_def)

lemma step_pos [simp]: "0 < step" "0 \<le> step"
  by (simp_all add: step_def)

text \<open>The guard of the solver, decided without square roots.\<close>

lemma threshold_less_iff: "threshold < glm_length v \<longleftrightarrow> 1 / 10000000000 < glm_dot v v"
  using glm_length_gt_iff [of threshold v] by (simp add: threshold_def power2_eq_square)

lemma threshold_ge_iff: "glm_length v \<le> threshold \<longleftrightarrow> glm_dot v v \<le> 1 / 10000000000"
  using threshold_less_iff [of v] by auto

definition wf_lengths :: "float list \<Rightarrow> bool" where
  "wf_lengths ls \<longleftrightarrow> length ls = 5 \<and> list_all (\<lambda>l. l \<noteq> 0) ls"

lemma wf_lengths_lengths [simp, ik_wf]: "wf_lengths lengths"
  by (simp add: wf_lengths_def lengths_def)

lemma wf_lengths_length: "wf_lengths ls \<Longrightarrow> length ls = 5"
  by (simp add: wf_lengths_def)

lemma wf_lengths_nth: "wf_lengths ls \<Longrightarrow> i < 5 \<Longrightarrow> ls ! i \<noteq> 0"
  by (simp add: wf_lengths_def list_all_length)

subsection \<open>Program state\<close>

datatype print_event = Print_W float float | Print_P4 float float | Print_EE float float

record ik_state =
  targetSet :: bool
  targetX :: float
  targetY :: float
  worldTargetX :: float
  worldTargetY :: float
  Model :: mat4
  MVP :: mat4
  positions :: "vec3 list"
  theta :: "float list"
  scale :: mat4
  rot :: mat4
  trans_m :: mat4
  endEffect :: vec3
  drawn :: "mat4 list"
  printed :: "print_event list"

definition init_state :: ik_state where
  "init_state =
     \<lparr>targetSet = False, targetX = 0, targetY = 0,
      worldTargetX = 0, worldTargetY = 0,
      Model = 1, MVP = Projection * View * 1,
      positions = replicate 5 0,
      theta = [0, 0, 0, 0, 0],
      scale = 1, rot = 1, trans_m = 1,
      endEffect = 0,
      drawn = [], printed = []\<rparr>"

definition wf_state :: "ik_state \<Rightarrow> bool" where
  "wf_state s \<longleftrightarrow> length (theta s) = numBones \<and> length (positions s) = numBones"

lemma wf_state_init [simp, ik_wf]: "wf_state init_state"
  by (simp add: wf_state_def init_state_def numBones_def)

lemma wf_stateD:
  "wf_state s \<Longrightarrow> length (theta s) = 5" "wf_state s \<Longrightarrow> length (positions s) = 5"
  by (simp_all add: wf_state_def numBones_def)

lemma init_state_sel [simp]:
  "targetSet init_state = False" "theta init_state = [0, 0, 0, 0, 0]"
  "worldTargetX init_state = 0" "worldTargetY init_state = 0"
  "targetX init_state = 0" "targetY init_state = 0"
  "drawn init_state = []" "printed init_state = []"
  by (simp_all add: init_state_def)

text \<open>The target as the solver reads it: \<open>vec3(worldTargetX, worldTargetY, 0.0f)\<close>.\<close>

definition target :: "ik_state \<Rightarrow> vec3" where
  "target s = Vec3 (worldTargetX s) (worldTargetY s) 0"

lemma target_sel [simp]:
  "vx (target s) = worldTargetX s" "vy (target s) = worldTargetY s" "vz (target s) = 0"
  by (simp_all add: target_def)

end
