(* ===== verification/Input.thy ===== *)
theory Input
  imports Skeleton
begin

text \<open>
  The inputs of one frame and the statement that turns a mouse click into the target
  (lines 167-182 of \<open>src/IKTest.cpp\<close>).

  \<^item> \<open>frame_input\<close>: what the frame reads from outside: the state of the left mouse
    button and the cursor position (\<open>glfwGetMouseButton\<close>, \<open>glfwGetCursorPos\<close>), the
    two conditions that end the loop (\<open>glfwGetKey\<close> for escape,
    \<open>glfwWindowShouldClose\<close>), and \<open>dtheta_init\<close>, the contents of the array
    \<open>float dtheta[5]\<close> at its declaration, which the program does not initialise;
  \<^item> \<open>poll_target\<close>: on a pressed button, store the cursor position, mark the target
    as set, convert to world coordinates and print them;
  \<^item> \<open>world_x\<close>, \<open>world_y\<close>: the conversion from window to world coordinates.

  The lemmas show that the conversion maps the window onto the world square
  \<open>[-60, 60] \<times> [-60, 60]\<close> that the camera shows, with the window's y axis flipped.
\<close>

record frame_input =
  mouse_pressed :: bool
  cursor_x :: float
  cursor_y :: float
  esc_pressed :: bool
  window_should_close :: bool
  dtheta_init :: "float list"

definition wf_input :: "frame_input \<Rightarrow> bool" where
  "wf_input inp \<longleftrightarrow> length (dtheta_init inp) = 5"

definition world_x :: "float \<Rightarrow> float" where
  "world_x tx = (tx / 1024 - 1 / 2) * 120"

definition world_y :: "float \<Rightarrow> float" where
  "world_y ty = (- ty / 768 + 1 / 2) * 120"

definition poll_target :: "frame_input \<Rightarrow> ik_state \<Rightarrow> ik_state" where
  "poll_target inp s =
     (if mouse_pressed inp then
        (let s1 = s\<lparr>targetX := cursor_x inp\<rparr>;
             s2 = s1\<lparr>targetY := cursor_y inp\<rparr>;
             s3 = s2\<lparr>targetSet := True\<rparr>;
             s4 = s3\<lparr>worldTargetX := world_x (targetX s3)\<rparr>;
             s5 = s4\<lparr>worldTargetY := world_y (targetY s4)\<rparr>
         in s5\<lparr>printed := printed s5 @ [Print_W (worldTargetX s5) (worldTargetY s5)]\<rparr>)
      else s)"

lemmas [ik_defs] = poll_target_def world_x_def world_y_def

lemma poll_target_sel [simp, ik_frame]:
  "theta (poll_target inp s) = theta s" "positions (poll_target inp s) = positions s"
  "Model (poll_target inp s) = Model s" "MVP (poll_target inp s) = MVP s"
  "scale (poll_target inp s) = scale s" "rot (poll_target inp s) = rot s"
  "trans_m (poll_target inp s) = trans_m s" "endEffect (poll_target inp s) = endEffect s"
  "drawn (poll_target inp s) = drawn s"
  by (simp_all add: poll_target_def Let_def)

lemma wf_state_poll_target [simp, ik_wf]: "wf_state (poll_target inp s) = wf_state s"
  by (simp add: wf_state_def)

lemma poll_target_idle [simp]: "\<not> mouse_pressed inp \<Longrightarrow> poll_target inp s = s"
  by (simp add: poll_target_def)

lemma poll_target_click:
  "mouse_pressed inp \<Longrightarrow>
   targetSet (poll_target inp s) \<and>
   targetX (poll_target inp s) = cursor_x inp \<and> targetY (poll_target inp s) = cursor_y inp \<and>
   worldTargetX (poll_target inp s) = world_x (cursor_x inp) \<and>
   worldTargetY (poll_target inp s) = world_y (cursor_y inp) \<and>
   printed (poll_target inp s) = printed s @ [Print_W (world_x (cursor_x inp)) (world_y (cursor_y inp))]"
  by (simp add: poll_target_def Let_def)

text \<open>Once set, the target stays set.\<close>

lemma targetSet_poll_target: "targetSet (poll_target inp s) \<longleftrightarrow> mouse_pressed inp \<or> targetSet s"
  by (simp add: poll_target_def Let_def)

subsection \<open>Window to world\<close>

lemma world_x_range: "0 \<le> tx \<Longrightarrow> tx \<le> window_width \<Longrightarrow> - 60 \<le> world_x tx \<and> world_x tx \<le> 60"
  by (simp add: world_x_def window_width_def)

lemma world_y_range: "0 \<le> ty \<Longrightarrow> ty \<le> window_height \<Longrightarrow> - 60 \<le> world_y ty \<and> world_y ty \<le> 60"
  by (simp add: world_y_def window_height_def)

lemma world_centre [simp]:
  "world_x (window_width / 2) = 0" "world_y (window_height / 2) = 0"
  by (simp_all add: world_x_def world_y_def window_width_def window_height_def)

lemma world_x_mono: "tx \<le> tx' \<Longrightarrow> world_x tx \<le> world_x tx'"
  by (simp add: world_x_def)

lemma world_y_antimono: "ty \<le> ty' \<Longrightarrow> world_y ty' \<le> world_y ty"
  by (simp add: world_y_def)

subsection \<open>Two inputs for the examples\<close>

text \<open>
  \<open>idle\<close>: a frame in which nothing is pressed; \<open>click x y\<close>: a frame in which the
  left button is down with the cursor at \<open>(x, y)\<close>. The uninitialised array holds
  arbitrary numbers.
\<close>

definition idle :: frame_input where
  "idle = \<lparr>mouse_pressed = False, cursor_x = 0, cursor_y = 0, esc_pressed = False,
            window_should_close = False, dtheta_init = [1, 2, 3, 4, 5]\<rparr>"

definition click :: "float \<Rightarrow> float \<Rightarrow> frame_input" where
  "click x y = \<lparr>mouse_pressed = True, cursor_x = x, cursor_y = y, esc_pressed = False,
            window_should_close = False, dtheta_init = [5, 4, 3, 2, 1]\<rparr>"

lemma idle_sel [simp]:
  "\<not> mouse_pressed idle" "\<not> esc_pressed idle" "\<not> window_should_close idle" "wf_input idle"
  "dtheta_init idle = [1, 2, 3, 4, 5]"
  by (simp_all add: idle_def wf_input_def)

lemma click_sel [simp]:
  "mouse_pressed (click x y)" "cursor_x (click x y) = x" "cursor_y (click x y) = y"
  "\<not> esc_pressed (click x y)" "\<not> window_should_close (click x y)" "wf_input (click x y)"
  "dtheta_init (click x y) = [5, 4, 3, 2, 1]"
  by (simp_all add: click_def wf_input_def)

text \<open>Two cursor positions used in examples: the middle of the top edge, and a point on
  the horizontal axis through the middle of the window.\<close>

lemma world_top_middle [simp]: "world_x 512 = 0" "world_y 0 = 60"
  by (simp_all add: world_x_def world_y_def)

lemma world_axis_click [simp]: "world_x 768 = 30" "world_y 384 = 0"
  by (simp_all add: world_x_def world_y_def)

subsection \<open>Properties of the target selection\<close>

text \<open>
  C32. A click inside the window sets a target inside the world square the camera
  shows: both world coordinates lie between -60 and 60, and the target is marked as
  set.
\<close>

theorem click_lands_in_view:
  assumes "mouse_pressed inp"
    and "0 \<le> cursor_x inp" "cursor_x inp \<le> window_width"
    and "0 \<le> cursor_y inp" "cursor_y inp \<le> window_height"
  shows "targetSet (poll_target inp s) \<and>
         - 60 \<le> worldTargetX (poll_target inp s) \<and> worldTargetX (poll_target inp s) \<le> 60 \<and>
         - 60 \<le> worldTargetY (poll_target inp s) \<and> worldTargetY (poll_target inp s) \<le> 60"
  using assms world_x_range [of "cursor_x inp"] world_y_range [of "cursor_y inp"]
  by (simp add: poll_target_click)

theorem click_lands_in_view_witness:
  "mouse_pressed (click 1024 0) \<and> 0 \<le> cursor_x (click 1024 0) \<and>
   cursor_x (click 1024 0) \<le> window_width \<and> 0 \<le> cursor_y (click 1024 0) \<and>
   cursor_y (click 1024 0) \<le> window_height \<and>
   targetSet (poll_target (click 1024 0) init_state) \<and>
   worldTargetX (poll_target (click 1024 0) init_state) = 60 \<and>
   worldTargetY (poll_target (click 1024 0) init_state) = 60"
  using click_lands_in_view [of "click 1024 0" init_state]
  by (simp add: window_width_def window_height_def poll_target_click world_x_def world_y_def)

end
