(* ===== verification/Render.thy ===== *)
theory Render
  imports Skeleton
begin

text \<open>
  What the program draws, as far as the solver's output is concerned.

  \<^item> \<open>draw_mesh\<close>: the block of OpenGL calls that occurs twice in \<open>src/IKTest.cpp\<close>
    (lines 205-240 and 277-312): it uploads \<open>MVP\<close> to the shader and draws the bone
    mesh with it. The model records the matrix in \<open>drawn\<close>; the calls pass no other
    data that varies.
  \<^item> \<open>clear_screen\<close>: \<open>glClear\<close> at the start of a frame (line 161).
  \<^item> \<open>frame_locals\<close>: the declarations at lines 186-192, executed every frame.
  \<^item> \<open>draw_target\<close>: the target marker (lines 196-243), drawn only once a target has
    been set. It is the bone mesh, stretched in y and shifted so that the middle of
    its axis lies on the target.

  \<open>ndc\<close> gives the normalised device coordinates at which a point of the mesh
  appears when the mesh is drawn with a given matrix. The lemmas show where the marker
  is drawn.
\<close>

definition draw_mesh :: "ik_state \<Rightarrow> ik_state" where
  "draw_mesh s = s\<lparr>drawn := drawn s @ [MVP s]\<rparr>"

definition clear_screen :: "ik_state \<Rightarrow> ik_state" where
  "clear_screen s = s\<lparr>drawn := []\<rparr>"

definition frame_locals :: "ik_state \<Rightarrow> ik_state" where
  "frame_locals s =
     (let s1 = s\<lparr>scale := 1, rot := 1\<rparr>;
          s2 = s1\<lparr>trans_m := glm_translate 1 (Vec3 0 0 0)\<rparr>;
          s3 = s2\<lparr>Model := 1\<rparr>
      in s3\<lparr>MVP := Projection * View * Model s3\<rparr>)"

definition draw_target :: "ik_state \<Rightarrow> ik_state" where
  "draw_target s =
     (if targetSet s then
        (let s1 = s\<lparr>scale := glm_scale 1 (Vec3 1 (10 / 6) 1)\<rparr>;
             s2 = s1\<lparr>trans_m := glm_translate 1 (Vec3 (worldTargetX s1 - 1 / 2) (worldTargetY s1) 0)\<rparr>;
             s3 = s2\<lparr>Model := trans_m s2 * scale s2\<rparr>;
             s4 = s3\<lparr>MVP := Projection * View * Model s3\<rparr>
         in draw_mesh s4)
      else s)"

definition ndc :: "mat4 \<Rightarrow> vec3 \<Rightarrow> vec3" where
  "ndc m v = (1 / v4w (mat_vec m (point4 v))) *\<^sub>R vec3_of (mat_vec m (point4 v))"

lemmas [ik_defs] = draw_mesh_def clear_screen_def frame_locals_def draw_target_def

subsection \<open>Frame lemmas: what drawing leaves alone\<close>

lemma draw_mesh_sel [simp, ik_frame]:
  "theta (draw_mesh s) = theta s" "positions (draw_mesh s) = positions s"
  "Model (draw_mesh s) = Model s" "MVP (draw_mesh s) = MVP s"
  "targetSet (draw_mesh s) = targetSet s"
  "targetX (draw_mesh s) = targetX s" "targetY (draw_mesh s) = targetY s"
  "worldTargetX (draw_mesh s) = worldTargetX s" "worldTargetY (draw_mesh s) = worldTargetY s"
  "scale (draw_mesh s) = scale s" "rot (draw_mesh s) = rot s" "trans_m (draw_mesh s) = trans_m s"
  "endEffect (draw_mesh s) = endEffect s" "printed (draw_mesh s) = printed s"
  "drawn (draw_mesh s) = drawn s @ [MVP s]"
  by (simp_all add: draw_mesh_def)

lemma clear_screen_sel [simp, ik_frame]:
  "theta (clear_screen s) = theta s" "positions (clear_screen s) = positions s"
  "Model (clear_screen s) = Model s" "MVP (clear_screen s) = MVP s"
  "targetSet (clear_screen s) = targetSet s"
  "targetX (clear_screen s) = targetX s" "targetY (clear_screen s) = targetY s"
  "worldTargetX (clear_screen s) = worldTargetX s" "worldTargetY (clear_screen s) = worldTargetY s"
  "scale (clear_screen s) = scale s" "rot (clear_screen s) = rot s"
  "trans_m (clear_screen s) = trans_m s"
  "endEffect (clear_screen s) = endEffect s" "printed (clear_screen s) = printed s"
  "drawn (clear_screen s) = []"
  by (simp_all add: clear_screen_def)

lemma frame_locals_sel [simp, ik_frame]:
  "theta (frame_locals s) = theta s" "positions (frame_locals s) = positions s"
  "targetSet (frame_locals s) = targetSet s"
  "targetX (frame_locals s) = targetX s" "targetY (frame_locals s) = targetY s"
  "worldTargetX (frame_locals s) = worldTargetX s" "worldTargetY (frame_locals s) = worldTargetY s"
  "endEffect (frame_locals s) = endEffect s" "printed (frame_locals s) = printed s"
  "drawn (frame_locals s) = drawn s"
  "Model (frame_locals s) = 1" "MVP (frame_locals s) = Projection * View"
  "scale (frame_locals s) = 1" "rot (frame_locals s) = 1" "trans_m (frame_locals s) = 1"
  by (simp_all add: frame_locals_def Let_def flip: zero_vec3_def)

lemma draw_target_sel [simp, ik_frame]:
  "theta (draw_target s) = theta s" "positions (draw_target s) = positions s"
  "targetSet (draw_target s) = targetSet s"
  "targetX (draw_target s) = targetX s" "targetY (draw_target s) = targetY s"
  "worldTargetX (draw_target s) = worldTargetX s" "worldTargetY (draw_target s) = worldTargetY s"
  "endEffect (draw_target s) = endEffect s" "printed (draw_target s) = printed s"
  by (simp_all add: draw_target_def Let_def)

lemma wf_state_render [simp, ik_wf]:
  "wf_state (draw_mesh s) = wf_state s" "wf_state (clear_screen s) = wf_state s"
  "wf_state (frame_locals s) = wf_state s" "wf_state (draw_target s) = wf_state s"
  by (simp_all add: wf_state_def)

subsection \<open>Where the marker is drawn\<close>

lemma draw_target_unset [simp]: "\<not> targetSet s \<Longrightarrow> draw_target s = s"
  by (simp add: draw_target_def)

lemma drawn_draw_target:
  "drawn (draw_target s) =
     (if targetSet s
      then drawn s @ [Projection * View *
             (glm_translate 1 (Vec3 (worldTargetX s - 1 / 2) (worldTargetY s) 0) *
              glm_scale 1 (Vec3 1 (10 / 6) 1))]
      else drawn s)"
  by (simp add: draw_target_def Let_def)

lemma ndc_camera: "ndc (Projection * View) v = Vec3 (vx v / 60) (vy v / 60) (2 / 3 - vz v / 60)"
  by (simp add: ndc_def camera_point vec3_eq_iff)

lemma point4_vec3_of: "v4w q = 1 \<Longrightarrow> point4 (vec3_of q) = q"
  by (simp add: vec4_eq_iff)

lemma ndc_camera_model:
  assumes "v4w (mat_vec m (point4 v)) = 1"
  shows "ndc (Projection * View * m) v = ndc (Projection * View) (vec3_of (mat_vec m (point4 v)))"
proof -
  let ?q = "mat_vec m (point4 v)"
  have "mat_vec (Projection * View * m) (point4 v) = mat_vec (Projection * View) ?q"
    by (rule mat_vec_mult)
  also have "\<dots> = mat_vec (Projection * View) (point4 (vec3_of ?q))"
    using assms by (simp add: point4_vec3_of)
  finally show ?thesis
    by (simp add: ndc_def)
qed

subsection \<open>Properties of the marker\<close>

text \<open>
  C34. The marker is drawn only once a target has been set. Without a target
  \<open>draw_target\<close> changes nothing; with one it issues exactly one draw call, with the
  mesh's axis running from \<open>(worldTargetX - 1/2, worldTargetY)\<close> to
  \<open>(worldTargetX + 1/2, worldTargetY)\<close>.
\<close>

theorem draw_target_only_when_set:
  "(if targetSet s
    then drawn (draw_target s) = drawn s @ [MVP (draw_target s)] \<and>
         MVP (draw_target s) = Projection * View * Model (draw_target s) \<and>
         mat_vec (Model (draw_target s)) (point4 0) =
           point4 (Vec3 (worldTargetX s - 1 / 2) (worldTargetY s) 0) \<and>
         mat_vec (Model (draw_target s)) (point4 (Vec3 1 0 0)) =
           point4 (Vec3 (worldTargetX s + 1 / 2) (worldTargetY s) 0)
    else draw_target s = s)"
  by (simp add: draw_target_def Let_def draw_mesh_def mat4_cw)

end
