(* ===== verification/Planar_Chain.thy ===== *)
theory Planar_Chain
  imports Glm
begin

text \<open>
  The abstract specification of the chain: what forward kinematics has to compute,
  stated without matrices.

  \<^item> \<open>heading th i\<close>: the direction of bone \<open>i\<close>, the sum of the joint angles
    \<open>th ! 0, \<dots>, th ! i\<close>;
  \<^item> \<open>bone_dir a\<close>: the unit vector of direction \<open>a\<close> in the plane \<open>z = 0\<close>;
  \<^item> \<open>joint_pos ls th i\<close>: the position of joint \<open>i\<close>; joint 0 is the base at the
    origin, and joint \<open>i + 1\<close> lies \<open>ls ! i\<close> along bone \<open>i\<close> from joint \<open>i\<close>. For a
    chain of \<open>n\<close> bones \<open>joint_pos ls th n\<close> is the end effector;
  \<^item> \<open>rigid a p\<close>: the homogeneous matrix of the rotation by \<open>a\<close> about the z axis
    followed by the translation by \<open>p\<close>: the frame of a bone.

  The lemmas are the geometry of the specification: the transforms the program
  composes are rigid motions and compose as such; links keep their lengths in every
  pose; the chain stays in the plane and within its reach; the rest pose is the
  straight chain along the x axis.
\<close>

subsection \<open>Headings and joint positions\<close>

definition heading :: "float list \<Rightarrow> nat \<Rightarrow> float" where
  "heading th i = sum_list (take (Suc i) th)"

definition bone_dir :: "float \<Rightarrow> vec3" where
  "bone_dir a = Vec3 (cos a) (sin a) 0"

primrec joint_pos :: "float list \<Rightarrow> float list \<Rightarrow> nat \<Rightarrow> vec3" where
  "joint_pos ls th 0 = 0"
| "joint_pos ls th (Suc i) = joint_pos ls th i + ls ! i *\<^sub>R bone_dir (heading th i)"

definition reach :: "float list \<Rightarrow> nat \<Rightarrow> float" where
  "reach ls i = sum_list (map abs (take i ls))"

lemma heading_0: "th \<noteq> [] \<Longrightarrow> heading th 0 = th ! 0"
  by (cases th) (simp_all add: heading_def)

lemma heading_Suc: "Suc i < length th \<Longrightarrow> heading th (Suc i) = heading th i + th ! Suc i"
  by (simp add: heading_def take_Suc_conv_app_nth [of "Suc i"])

lemma heading_replicate_0 [simp]: "heading (replicate n 0) i = 0"
  by (simp add: heading_def take_replicate sum_list_replicate)

lemma bone_dir_sel [simp]:
  "vx (bone_dir a) = cos a" "vy (bone_dir a) = sin a" "vz (bone_dir a) = 0"
  by (simp_all add: bone_dir_def)

lemma bone_dir_0 [simp]: "bone_dir 0 = Vec3 1 0 0"
  by (simp add: bone_dir_def)

lemma glm_dot_bone_dir [simp]: "glm_dot (bone_dir a) (bone_dir a) = 1"
  by (simp add: glm_dot_def flip: power2_eq_square)

lemma glm_length_bone_dir [simp]: "glm_length (bone_dir a) = 1"
  by (simp add: glm_length_def)

lemma reach_0 [simp]: "reach ls 0 = 0"
  by (simp add: reach_def)

lemma reach_Suc: "i < length ls \<Longrightarrow> reach ls (Suc i) = reach ls i + \<bar>ls ! i\<bar>"
  by (simp add: reach_def take_Suc_conv_app_nth)

lemma reach_nonneg [simp]: "0 \<le> reach ls i"
  by (auto simp: reach_def intro!: sum_list_nonneg)

subsection \<open>Geometry of the specification\<close>

text \<open>The chain lies in the plane \<open>z = 0\<close>.\<close>

lemma joint_pos_planar [simp]: "vz (joint_pos ls th i) = 0"
  by (induction i) simp_all

text \<open>Links are rigid: consecutive joints are exactly one link length apart.\<close>

lemma joint_pos_link_length:
  "glm_length (joint_pos ls th (Suc i) - joint_pos ls th i) = \<bar>ls ! i\<bar>"
  by (simp add: glm_length_scale)

text \<open>No joint is farther from the base than the links before it are long.\<close>

lemma joint_pos_within_reach: "i \<le> length ls \<Longrightarrow> glm_length (joint_pos ls th i) \<le> reach ls i"
proof (induction i)
  case 0
  then show ?case by simp
next
  case (Suc i)
  have "glm_length (joint_pos ls th (Suc i))
      \<le> glm_length (joint_pos ls th i) + glm_length (ls ! i *\<^sub>R bone_dir (heading th i))"
    by (simp add: glm_length_triangle)
  also have "\<dots> \<le> reach ls i + \<bar>ls ! i\<bar>"
    using Suc by (simp add: glm_length_scale)
  finally show ?case
    using Suc.prems by (simp add: reach_Suc)
qed

text \<open>The rest pose is the straight chain along the positive x axis.\<close>

lemma joint_pos_rest:
  "i \<le> length ls \<Longrightarrow> joint_pos ls (replicate n 0) i = Vec3 (sum_list (take i ls)) 0 0"
  by (induction i) (simp_all add: take_Suc_conv_app_nth zero_vec3_def)

subsection \<open>Rigid motions of the plane\<close>

definition rigid :: "float \<Rightarrow> vec3 \<Rightarrow> mat4" where
  "rigid a p =
     Mat4 (Vec4 (cos a) (sin a) 0 0) (Vec4 (- sin a) (cos a) 0 0) (Vec4 0 0 1 0) (point4 p)"

definition rot_z :: "float \<Rightarrow> vec3 \<Rightarrow> vec3" where
  "rot_z a v = Vec3 (cos a * vx v - sin a * vy v) (sin a * vx v + cos a * vy v) (vz v)"

lemma rigid_sel [simp]:
  "col0 (rigid a p) = Vec4 (cos a) (sin a) 0 0" "col1 (rigid a p) = Vec4 (- sin a) (cos a) 0 0"
  "col2 (rigid a p) = Vec4 0 0 1 0" "col3 (rigid a p) = point4 p"
  by (simp_all add: rigid_def)

lemma rot_z_sel [simp]:
  "vx (rot_z a v) = cos a * vx v - sin a * vy v"
  "vy (rot_z a v) = sin a * vx v + cos a * vy v"
  "vz (rot_z a v) = vz v"
  by (simp_all add: rot_z_def)

lemma rigid_0_0 [simp]: "rigid 0 0 = 1"
  by (simp add: mat4_cw)

lemma rigid_point: "mat_vec (rigid a p) (point4 v) = point4 (p + rot_z a v)"
  by (simp add: mat_vec_def vec4_eq_iff)

text \<open>Rigid motions compose: angles add, and the second offset is turned by the first angle.\<close>

lemma rigid_mult: "rigid a p * rigid b q = rigid (a + b) (p + rot_z a q)"
  by (simp add: mat4_cw cos_add sin_add algebra_simps)

lemma rot_z_x_axis: "rot_z a (Vec3 l 0 0) = l *\<^sub>R bone_dir a"
  by (simp add: vec3_eq_iff)

lemma rot_z_0 [simp]: "rot_z a 0 = 0"
  by (simp add: vec3_eq_iff)

text \<open>The two transforms of the skeleton are rigid motions.\<close>

lemma glm_translate_rigid: "glm_translate 1 v = rigid 0 v"
  by (simp add: mat4_cw)

lemma glm_rotate_z_rigid: "glm_rotate a (Vec3 0 0 1) = rigid a 0"
  by (simp add: glm_rotate_def glm_rotate_m_def glm_normalize_def glm_dot_def Let_def
      mat4_cw)

text \<open>
  A bone's frame, stretched along x to the bone's length: its translation column is
  not affected by the stretch, and it maps the tip of the unit mesh to the next joint.
\<close>

lemma col3_rigid_scale: "col3 (rigid a p * glm_scale 1 v) = point4 p"
  by simp

lemma rigid_scale_tip:
  "mat_vec (rigid a p * glm_scale 1 (Vec3 l h 1)) (point4 (Vec3 1 0 0)) = point4 (p + l *\<^sub>R bone_dir a)"
  by (simp add: mat4_cw)

end
