(* ===== verification/Forward_Kinematics.thy ===== *)
theory Forward_Kinematics
  imports Render Planar_Chain
begin

text \<open>
  The Chain Model of the specification: the walk over the bones in
  \<open>src/IKTest.cpp\<close>, lines 246-331.

  \<^item> \<open>bone_reset\<close> (lines 246-248): the running transform starts as the identity;
  \<^item> \<open>bone_body ls i\<close> (lines 253-314): one iteration. For \<open>i > 0\<close> it first undoes
    the stretch that was applied for drawing bone \<open>i - 1\<close> and sets the translation
    along that bone; then it composes translation, rotation by \<open>theta[i]\<close> and the
    stretch of bone \<open>i\<close> onto \<open>Model\<close>, records the joint position \<open>Model[3]\<close>, and
    draws the bone;
  \<^item> \<open>bone_loop ls n\<close> (lines 251-316): the loop over \<open>i = 0, \<dots>, n - 1\<close>;
  \<^item> \<open>end_effector ls\<close> (lines 318-331): the same composition once more for the tip
    of the last bone, with the indices \<open>4\<close> the program writes, and the two \<open>printf\<close>;
  \<^item> \<open>forward_kinematics\<close>: the three in sequence.
  The link lengths are a parameter \<open>ls\<close>, so that the theorems hold for every chain of
  five non-zero links; the program runs them at \<open>lengths\<close>.

  \<open>bone_frame ls th k\<close> is the model matrix bone \<open>k\<close> is to be drawn with, in terms of
  the specification of \<open>Planar_Chain\<close>, and \<open>fk_inv\<close> the loop invariant. The theorems:
  the loop records \<open>joint_pos\<close> for every joint and the end effector is
  \<open>joint_pos ls th 5\<close> (refinement of the specification); every bone is drawn from its
  joint to the next; the loop writes all of \<open>positions\<close> and reads none of it.
\<close>

subsection \<open>The statements\<close>

definition bone_reset :: "ik_state \<Rightarrow> ik_state" where
  "bone_reset s =
     (let s1 = s\<lparr>Model := 1\<rparr>;
          s2 = s1\<lparr>trans_m := glm_translate 1 (Vec3 0 0 0)\<rparr>
      in s2\<lparr>scale := glm_scale 1 (Vec3 1 1 1)\<rparr>)"

definition bone_body :: "float list \<Rightarrow> nat \<Rightarrow> ik_state \<Rightarrow> ik_state" where
  "bone_body ls i s =
     (let s1 = (if i > 0
                then (let t = s\<lparr>scale := glm_scale 1 (Vec3 (1 / ls ! (i - 1)) (1 / 2) 1)\<rparr>
                      in t\<lparr>Model := Model t * scale t\<rparr>)
                else s);
          s2 = (if i > 0 then s1\<lparr>trans_m := glm_translate 1 (Vec3 (ls ! (i - 1)) 0 0)\<rparr> else s1);
          s3 = s2\<lparr>rot := glm_rotate (theta s2 ! i) rotAxis\<rparr>;
          s4 = s3\<lparr>scale := glm_scale 1 (Vec3 (ls ! i) 2 1)\<rparr>;
          s5 = s4\<lparr>Model := Model s4 * trans_m s4 * rot s4 * scale s4\<rparr>;
          s6 = s5\<lparr>positions := (positions s5)[i := vec3_of (col3 (Model s5))]\<rparr>;
          s7 = s6\<lparr>MVP := Projection * View * Model s6\<rparr>
      in draw_mesh s7)"

definition bone_loop :: "float list \<Rightarrow> nat \<Rightarrow> ik_state \<Rightarrow> ik_state" where
  "bone_loop ls n s = for_loop n (bone_body ls) s"

definition end_effector :: "float list \<Rightarrow> ik_state \<Rightarrow> ik_state" where
  "end_effector ls s =
     (let s1 = s\<lparr>scale := glm_scale 1 (Vec3 (1 / ls ! 4) (1 / 2) 1)\<rparr>;
          s2 = s1\<lparr>Model := Model s1 * scale s1\<rparr>;
          s3 = s2\<lparr>trans_m := glm_translate 1 (Vec3 (ls ! 4) 0 0)\<rparr>;
          s4 = s3\<lparr>rot := glm_rotate (theta s3 ! 4) rotAxis\<rparr>;
          s5 = s4\<lparr>scale := glm_scale 1 (Vec3 (ls ! 4) 2 1)\<rparr>;
          s6 = s5\<lparr>Model := Model s5 * trans_m s5 * rot s5 * scale s5\<rparr>;
          s7 = s6\<lparr>endEffect := vec3_of (col3 (Model s6))\<rparr>
      in s7\<lparr>printed := printed s7 @
            [Print_P4 (vx (positions s7 ! 4)) (vy (positions s7 ! 4)),
             Print_EE (vx (endEffect s7)) (vy (endEffect s7))]\<rparr>)"

definition forward_kinematics :: "float list \<Rightarrow> nat \<Rightarrow> ik_state \<Rightarrow> ik_state" where
  "forward_kinematics ls n s = end_effector ls (bone_loop ls n (bone_reset s))"

lemmas [ik_defs] = bone_reset_def bone_body_def bone_loop_def end_effector_def
  forward_kinematics_def

subsection \<open>The specification of a bone's model matrix, and the loop invariant\<close>

definition bone_frame :: "float list \<Rightarrow> float list \<Rightarrow> nat \<Rightarrow> mat4" where
  "bone_frame ls th k =
     rigid (heading th k) (joint_pos ls th k) * glm_scale 1 (Vec3 (ls ! k) 2 1)"

fun fk_inv :: "float list \<Rightarrow> float list \<Rightarrow> nat \<Rightarrow> ik_state \<Rightarrow> bool" where
  "fk_inv ls th 0 s \<longleftrightarrow> theta s = th \<and> Model s = 1 \<and> trans_m s = 1"
| "fk_inv ls th (Suc k) s \<longleftrightarrow>
     theta s = th \<and> Model s = bone_frame ls th k \<and>
     take (Suc k) (positions s) = map (joint_pos ls th) [0..<Suc k]"

declare fk_inv.simps [simp del]

subsection \<open>Frame lemmas\<close>

lemma bone_reset_sel [simp, ik_frame]:
  "theta (bone_reset s) = theta s" "positions (bone_reset s) = positions s"
  "targetSet (bone_reset s) = targetSet s"
  "targetX (bone_reset s) = targetX s" "targetY (bone_reset s) = targetY s"
  "worldTargetX (bone_reset s) = worldTargetX s" "worldTargetY (bone_reset s) = worldTargetY s"
  "endEffect (bone_reset s) = endEffect s" "printed (bone_reset s) = printed s"
  "drawn (bone_reset s) = drawn s" "MVP (bone_reset s) = MVP s" "rot (bone_reset s) = rot s"
  "Model (bone_reset s) = 1" "trans_m (bone_reset s) = 1" "scale (bone_reset s) = 1"
  by (simp_all add: bone_reset_def Let_def flip: zero_vec3_def)

lemma bone_body_sel [simp, ik_frame]:
  "theta (bone_body ls i s) = theta s"
  "targetSet (bone_body ls i s) = targetSet s"
  "targetX (bone_body ls i s) = targetX s" "targetY (bone_body ls i s) = targetY s"
  "worldTargetX (bone_body ls i s) = worldTargetX s"
  "worldTargetY (bone_body ls i s) = worldTargetY s"
  "endEffect (bone_body ls i s) = endEffect s" "printed (bone_body ls i s) = printed s"
  "length (positions (bone_body ls i s)) = length (positions s)"
  by (simp_all add: bone_body_def Let_def)

lemma bone_loop_sel [simp, ik_frame]:
  "theta (bone_loop ls n s) = theta s"
  "targetSet (bone_loop ls n s) = targetSet s"
  "targetX (bone_loop ls n s) = targetX s" "targetY (bone_loop ls n s) = targetY s"
  "worldTargetX (bone_loop ls n s) = worldTargetX s"
  "worldTargetY (bone_loop ls n s) = worldTargetY s"
  "endEffect (bone_loop ls n s) = endEffect s" "printed (bone_loop ls n s) = printed s"
  "length (positions (bone_loop ls n s)) = length (positions s)"
  by (induction n) (simp_all add: bone_loop_def)

lemma end_effector_sel [simp, ik_frame]:
  "theta (end_effector ls s) = theta s" "positions (end_effector ls s) = positions s"
  "targetSet (end_effector ls s) = targetSet s"
  "targetX (end_effector ls s) = targetX s" "targetY (end_effector ls s) = targetY s"
  "worldTargetX (end_effector ls s) = worldTargetX s"
  "worldTargetY (end_effector ls s) = worldTargetY s"
  "drawn (end_effector ls s) = drawn s" "MVP (end_effector ls s) = MVP s"
  by (simp_all add: end_effector_def Let_def)

lemma forward_kinematics_sel [simp, ik_frame]:
  "theta (forward_kinematics ls n s) = theta s"
  "targetSet (forward_kinematics ls n s) = targetSet s"
  "targetX (forward_kinematics ls n s) = targetX s"
  "targetY (forward_kinematics ls n s) = targetY s"
  "worldTargetX (forward_kinematics ls n s) = worldTargetX s"
  "worldTargetY (forward_kinematics ls n s) = worldTargetY s"
  "length (positions (forward_kinematics ls n s)) = length (positions s)"
  by (simp_all add: forward_kinematics_def)

lemma wf_state_fk [simp, ik_wf]:
  "wf_state (bone_reset s) = wf_state s" "wf_state (bone_body ls i s) = wf_state s"
  "wf_state (bone_loop ls n s) = wf_state s" "wf_state (end_effector ls s) = wf_state s"
  "wf_state (forward_kinematics ls n s) = wf_state s"
  by (simp_all add: wf_state_def)

subsection \<open>What one iteration computes\<close>

lemma Model_bone_body_0:
  "Model (bone_body ls 0 s) =
     Model s * trans_m s * glm_rotate (theta s ! 0) rotAxis * glm_scale 1 (Vec3 (ls ! 0) 2 1)"
  by (simp add: bone_body_def Let_def)

lemma Model_bone_body_Suc:
  "Model (bone_body ls (Suc k) s) =
     Model s * glm_scale 1 (Vec3 (1 / ls ! k) (1 / 2) 1) * glm_translate 1 (Vec3 (ls ! k) 0 0) *
       glm_rotate (theta s ! Suc k) rotAxis * glm_scale 1 (Vec3 (ls ! Suc k) 2 1)"
  by (simp add: bone_body_def Let_def)

lemma positions_bone_body:
  "positions (bone_body ls i s) = (positions s)[i := vec3_of (col3 (Model (bone_body ls i s)))]"
  by (simp add: bone_body_def Let_def)

lemma drawn_bone_body:
  "drawn (bone_body ls i s) = drawn s @ [Projection * View * Model (bone_body ls i s)]"
  by (simp add: bone_body_def Let_def)

lemma MVP_bone_body: "MVP (bone_body ls i s) = Projection * View * Model (bone_body ls i s)"
  by (simp add: bone_body_def Let_def)

subsection \<open>The algebra of one step\<close>

lemma bone_frame_unscale:
  "l \<noteq> 0 \<Longrightarrow> m * glm_scale 1 (Vec3 l 2 1) * glm_scale 1 (Vec3 (1 / l) (1 / 2) 1) = m"
  using glm_scale_inverse [of l 2 1] by (simp add: mult.assoc)

lemma rigid_translate_rotate:
  "rigid a p * glm_translate 1 (Vec3 l 0 0) * glm_rotate b rotAxis =
   rigid (a + b) (p + l *\<^sub>R bone_dir a)"
  by (simp add: rotAxis_def glm_translate_rigid glm_rotate_z_rigid rigid_mult rot_z_x_axis)

lemma bone_frame_step:
  assumes "ls ! k \<noteq> 0" "Suc k < length th"
  shows "bone_frame ls th k * glm_scale 1 (Vec3 (1 / ls ! k) (1 / 2) 1) *
           glm_translate 1 (Vec3 (ls ! k) 0 0) * glm_rotate (th ! Suc k) rotAxis *
           glm_scale 1 (Vec3 (ls ! Suc k) 2 1) = bone_frame ls th (Suc k)"
  using assms
  by (simp add: bone_frame_def bone_frame_unscale rigid_translate_rotate heading_Suc)

lemma col3_bone_frame [simp]: "col3 (bone_frame ls th k) = point4 (joint_pos ls th k)"
  by (simp add: bone_frame_def)

lemma take_Suc_update: "i < length xs \<Longrightarrow> take (Suc i) (xs[i := v]) = take i xs @ [v]"
  by (simp add: take_Suc_conv_app_nth)

subsection \<open>The invariant\<close>


lemma bone_body_first:
  assumes "fk_inv ls th 0 s" "th \<noteq> []" "0 < length (positions s)"
  shows "fk_inv ls th (Suc 0) (bone_body ls 0 s)"
proof -
  have "Model (bone_body ls 0 s) = bone_frame ls th 0"
    using assms
    by (simp add: fk_inv.simps Model_bone_body_0 bone_frame_def rotAxis_def glm_rotate_z_rigid
        heading_0)
  then show ?thesis
    using assms by (simp add: fk_inv.simps positions_bone_body take_Suc_update)
qed

lemma bone_body_next:
  assumes "fk_inv ls th (Suc k) s" "ls ! k \<noteq> 0" "Suc k < length th" "Suc k < length (positions s)"
  shows "fk_inv ls th (Suc (Suc k)) (bone_body ls (Suc k) s)"
proof -
  have "Model (bone_body ls (Suc k) s) = bone_frame ls th (Suc k)"
    using assms by (simp add: fk_inv.simps Model_bone_body_Suc bone_frame_step)
  then show ?thesis
    using assms by (simp add: fk_inv.simps positions_bone_body take_Suc_update [of "Suc k"])
qed

lemma bone_body_fk_inv:
  assumes "fk_inv ls th i s" "wf_lengths ls" "length th = 5" "length (positions s) = 5" "i < 5"
  shows "fk_inv ls th (Suc i) (bone_body ls i s)"
proof (cases i)
  case 0
  with assms show ?thesis by (auto intro!: bone_body_first)
next
  case (Suc k)
  with assms show ?thesis by (auto intro!: bone_body_next simp: wf_lengths_nth)
qed

lemma bone_loop_fk_inv:
  assumes "wf_lengths ls" "wf_state s" "n \<le> 5"
  shows "fk_inv ls (theta s) n (bone_loop ls n (bone_reset s))"
  unfolding bone_loop_def
proof (rule for_loop_invariant [where P = "\<lambda>i t. fk_inv ls (theta s) i t \<and> length (positions t) = 5"
      and n = n, THEN conjunct1])
  show "fk_inv ls (theta s) 0 (bone_reset s) \<and> length (positions (bone_reset s)) = 5"
    using assms by (simp add: fk_inv.simps wf_stateD)
next
  fix i t
  assume "i < n" "fk_inv ls (theta s) i t \<and> length (positions t) = 5"
  with assms show "fk_inv ls (theta s) (Suc i) (bone_body ls i t) \<and> length (positions (bone_body ls i t)) = 5"
    by (simp add: bone_body_fk_inv wf_stateD)
qed

lemma bone_loop_positions:
  assumes "wf_lengths ls" "wf_state s"
  shows "positions (bone_loop ls 5 (bone_reset s)) = map (joint_pos ls (theta s)) [0..<5]"
proof -
  have "fk_inv ls (theta s) 5 (bone_loop ls 5 (bone_reset s))"
    using assms by (simp add: bone_loop_fk_inv)
  moreover have "length (positions (bone_loop ls 5 (bone_reset s))) = 5"
    using assms by (simp add: wf_stateD)
  ultimately show ?thesis
    by (simp add: fk_inv.simps eval_nat_numeral del: upt_Suc)
qed


lemma Model_bone_loop:
  assumes "wf_lengths ls" "wf_state s" "n < 5"
  shows "Model (bone_loop ls (Suc n) (bone_reset s)) = bone_frame ls (theta s) n"
  using bone_loop_fk_inv [OF assms(1,2), of "Suc n"] assms(3) by (simp add: fk_inv.simps)

lemma bone_loop_drawn:
  assumes "wf_lengths ls" "wf_state s" "n \<le> 5"
  shows "drawn (bone_loop ls n (bone_reset s)) =
         drawn s @ map (\<lambda>k. Projection * View * bone_frame ls (theta s) k) [0..<n]"
  using assms(3)
proof (induction n)
  case 0
  then show ?case by (simp add: bone_loop_def)
next
  case (Suc n)
  have "drawn (bone_loop ls (Suc n) (bone_reset s)) =
        drawn (bone_loop ls n (bone_reset s)) @ [Projection * View * Model (bone_loop ls (Suc n) (bone_reset s))]"
    by (simp add: bone_loop_def drawn_bone_body)
  with Suc assms(1,2) show ?case
    by (simp add: Model_bone_loop)
qed

lemma bone_frame_ends:
  "mat_vec (bone_frame ls th k) (point4 0) = point4 (joint_pos ls th k)"
  "mat_vec (bone_frame ls th k) (point4 (Vec3 1 0 0)) = point4 (joint_pos ls th (Suc k))"
  by (simp_all add: bone_frame_def rigid_scale_tip) (simp add: mat4_cw)

lemma Model_end_effector:
  "Model (end_effector ls s) =
     Model s * glm_scale 1 (Vec3 (1 / ls ! 4) (1 / 2) 1) * glm_translate 1 (Vec3 (ls ! 4) 0 0) *
       glm_rotate (theta s ! 4) rotAxis * glm_scale 1 (Vec3 (ls ! 4) 2 1)"
  by (simp add: end_effector_def Let_def)

lemma endEffect_end_effector:
  "endEffect (end_effector ls s) = vec3_of (col3 (Model (end_effector ls s)))"
  by (simp add: end_effector_def Let_def)

lemma printed_end_effector:
  "printed (end_effector ls s) = printed s @
     [Print_P4 (vx (positions s ! 4)) (vy (positions s ! 4)),
      Print_EE (vx (endEffect (end_effector ls s))) (vy (endEffect (end_effector ls s)))]"
  by (simp add: end_effector_def Let_def)

lemma end_effector_tip:
  assumes "ls ! 4 \<noteq> 0" "Model s = bone_frame ls th 4"
  shows "endEffect (end_effector ls s) = joint_pos ls th 5"
proof -
  have "col3 (Model (end_effector ls s)) =
        col3 (rigid (heading th 4) (joint_pos ls th 4) * glm_translate 1 (Vec3 (ls ! 4) 0 0))"
    using assms by (simp add: Model_end_effector bone_frame_def bone_frame_unscale)
  also have "\<dots> = point4 (joint_pos ls th 4 + ls ! 4 *\<^sub>R bone_dir (heading th 4))"
    by (simp add: col3_mult_translate rigid_point rot_z_x_axis)
  finally show ?thesis
    by (simp add: endEffect_end_effector eval_nat_numeral)
qed

lemma forward_kinematics_positions:
  assumes "wf_lengths ls" "wf_state s"
  shows "positions (forward_kinematics ls 5 s) = map (joint_pos ls (theta s)) [0..<5]"
  using assms by (simp add: forward_kinematics_def bone_loop_positions)

lemma forward_kinematics_endEffect:
  assumes "wf_lengths ls" "wf_state s"
  shows "endEffect (forward_kinematics ls 5 s) = joint_pos ls (theta s) 5"
proof -
  have "Model (bone_loop ls 5 (bone_reset s)) = bone_frame ls (theta s) 4"
    using Model_bone_loop [OF assms, of 4] by (simp add: eval_nat_numeral)
  with assms(1) show ?thesis
    by (simp add: forward_kinematics_def end_effector_tip wf_lengths_nth)
qed

lemma forward_kinematics_drawn:
  assumes "wf_lengths ls" "wf_state s"
  shows "drawn (forward_kinematics ls 5 s) =
         drawn s @ map (\<lambda>k. Projection * View * bone_frame ls (theta s) k) [0..<5]"
  using bone_loop_drawn [OF assms, of 5] by (simp add: forward_kinematics_def)

lemma ndc_bone_frame:
  "ndc (Projection * View * bone_frame ls th k) 0 = ndc (Projection * View) (joint_pos ls th k)"
  "ndc (Projection * View * bone_frame ls th k) (Vec3 1 0 0) =
   ndc (Projection * View) (joint_pos ls th (Suc k))"
  by (simp_all add: ndc_camera_model bone_frame_ends del: joint_pos.simps)

lemma reach_all: "length ls = n \<Longrightarrow> reach ls n = sum_list (map abs ls)"
  by (simp add: reach_def)

subsection \<open>Forward kinematics implements the chain specification\<close>

text \<open>
  C2. Refinement. For every chain of five non-zero links and every vector of five joint
  angles, the bone loop records in \<open>positions\<close> exactly the joint positions of the
  planar chain specification, and the end effector the program computes is the tip of
  the last bone.
\<close>

theorem fk_refines_joint_pos:
  assumes "wf_lengths ls" "wf_state s"
  shows "positions (forward_kinematics ls numBones s) = map (joint_pos ls (theta s)) [0..<numBones] \<and>
         endEffect (forward_kinematics ls numBones s) = joint_pos ls (theta s) numBones"
  using assms
  by (simp add: numBones_def forward_kinematics_positions forward_kinematics_endEffect)

definition bent_pose :: ik_state where
  "bent_pose = init_state\<lparr>theta := [pi / 2, - (pi / 2), 0, 0, 0]\<rparr>"

lemma wf_state_bent_pose [simp]: "wf_state bent_pose"
  by (simp add: bent_pose_def wf_state_def numBones_def init_state_def)

lemma theta_bent_pose [simp]: "theta bent_pose = [pi / 2, - (pi / 2), 0, 0, 0]"
  by (simp add: bent_pose_def)

lemma bent_pose_sel [simp]:
  "drawn bent_pose = []" "\<not> targetSet bent_pose" "target bent_pose = Vec3 0 0 0"
  by (simp_all add: bent_pose_def target_def)

lemma heading_bent_pose:
  "heading [pi / 2, - (pi / 2), 0, 0, 0] 0 = pi / 2"
  "heading [pi / 2, - (pi / 2), 0, 0, 0] (Suc 0) = 0"
  "heading [pi / 2, - (pi / 2), 0, 0, 0] (Suc (Suc 0)) = 0"
  "heading [pi / 2, - (pi / 2), 0, 0, 0] (Suc (Suc (Suc 0))) = 0"
  "heading [pi / 2, - (pi / 2), 0, 0, 0] (Suc (Suc (Suc (Suc 0)))) = 0"
  by (simp_all add: heading_def)

lemma joint_pos_bent_pose:
  "map (joint_pos lengths [pi / 2, - (pi / 2), 0, 0, 0]) [0..<5] =
     [Vec3 0 0 0, Vec3 0 7 0, Vec3 (27 / 2) 7 0, Vec3 (49 / 2) 7 0, Vec3 28 7 0]"
  "joint_pos lengths [pi / 2, - (pi / 2), 0, 0, 0] 5 = Vec3 32 7 0"
  by (simp_all add: upt_5 eval_nat_numeral lengths_def bone_dir_def
      heading_bent_pose zero_vec3_def)

lemma joint_pos_init_state:
  "map (joint_pos lengths [0, 0, 0, 0, 0]) [0..<5] =
     [Vec3 0 0 0, Vec3 7 0 0, Vec3 (41 / 2) 0 0, Vec3 (63 / 2) 0 0, Vec3 35 0 0]"
  "joint_pos lengths [0, 0, 0, 0, 0] 5 = Vec3 39 0 0"
  by (simp_all add: upt_5 eval_nat_numeral lengths_def bone_dir_def heading_def zero_vec3_def)

lemma fk_bent_pose:
  "positions (forward_kinematics lengths numBones bent_pose) =
     [Vec3 0 0 0, Vec3 0 7 0, Vec3 (27 / 2) 7 0, Vec3 (49 / 2) 7 0, Vec3 28 7 0]"
  "endEffect (forward_kinematics lengths numBones bent_pose) = Vec3 32 7 0"
  by (simp_all add: numBones_def forward_kinematics_positions forward_kinematics_endEffect
      joint_pos_bent_pose)

lemma fk_init_state:
  "positions (forward_kinematics lengths numBones init_state) =
     [Vec3 0 0 0, Vec3 7 0 0, Vec3 (41 / 2) 0 0, Vec3 (63 / 2) 0 0, Vec3 35 0 0]"
  "endEffect (forward_kinematics lengths numBones init_state) = Vec3 39 0 0"
  by (simp_all add: numBones_def forward_kinematics_positions forward_kinematics_endEffect
      joint_pos_init_state)

theorem fk_refines_joint_pos_witness:
  "wf_lengths lengths \<and> wf_state bent_pose \<and>
   positions (forward_kinematics lengths numBones bent_pose) =
     [Vec3 0 0 0, Vec3 0 7 0, Vec3 (27 / 2) 7 0, Vec3 (49 / 2) 7 0, Vec3 28 7 0] \<and>
   endEffect (forward_kinematics lengths numBones bent_pose) = Vec3 32 7 0"
  using fk_refines_joint_pos [of lengths bent_pose] by (simp add: fk_bent_pose)

text \<open>
  C26. Forward-kinematics identity. With all joint angles zero, joint \<open>i\<close> lies on the
  x axis at the sum of the lengths of the links before it, and the end effector at the
  sum of all lengths.
\<close>

theorem fk_rest_pose:
  assumes "wf_lengths ls" "wf_state s" "theta s = replicate numBones 0"
  shows "positions (forward_kinematics ls numBones s) =
           map (\<lambda>i. Vec3 (sum_list (take i ls)) 0 0) [0..<numBones] \<and>
         endEffect (forward_kinematics ls numBones s) = Vec3 (sum_list ls) 0 0"
  using assms
  by (simp add: numBones_def forward_kinematics_positions forward_kinematics_endEffect
      joint_pos_rest wf_lengths_length del: joint_pos.simps upt_Suc replicate.simps)

theorem fk_rest_pose_witness:
  "wf_lengths lengths \<and> wf_state init_state \<and> theta init_state = replicate numBones 0 \<and>
   positions (forward_kinematics lengths numBones init_state) =
     [Vec3 0 0 0, Vec3 7 0 0, Vec3 (41 / 2) 0 0, Vec3 (63 / 2) 0 0, Vec3 35 0 0] \<and>
   endEffect (forward_kinematics lengths numBones init_state) = Vec3 39 0 0"
  using fk_rest_pose [of lengths init_state]
  by (simp add: fk_init_state) (simp add: numBones_def eval_nat_numeral)

text \<open>
  C27. Links are rigid. In every pose the recorded positions of consecutive joints are
  exactly one link length apart, and the end effector is one link length from the
  last joint.
\<close>

theorem fk_links_rigid:
  assumes "wf_lengths ls" "wf_state s" "i < 4"
  shows "glm_length (positions (forward_kinematics ls numBones s) ! Suc i -
                     positions (forward_kinematics ls numBones s) ! i) = \<bar>ls ! i\<bar> \<and>
         glm_length (endEffect (forward_kinematics ls numBones s) -
                     positions (forward_kinematics ls numBones s) ! 4) = \<bar>ls ! 4\<bar>"
proof -
  have "glm_length (joint_pos ls (theta s) 5 - joint_pos ls (theta s) 4) = \<bar>ls ! 4\<bar>"
    using joint_pos_link_length [of ls "theta s" 4] by (simp add: eval_nat_numeral)
  with assms show ?thesis
    by (simp add: numBones_def forward_kinematics_positions forward_kinematics_endEffect
        joint_pos_link_length del: joint_pos.simps upt_Suc)
qed

theorem fk_links_rigid_witness:
  "wf_lengths lengths \<and> wf_state bent_pose \<and> (1::nat) < 4 \<and>
   glm_length (positions (forward_kinematics lengths numBones bent_pose) ! Suc 1 -
               positions (forward_kinematics lengths numBones bent_pose) ! 1) = 27 / 2 \<and>
   glm_length (endEffect (forward_kinematics lengths numBones bent_pose) -
               positions (forward_kinematics lengths numBones bent_pose) ! 4) = 4"
proof -
  have "\<bar>lengths ! Suc 0\<bar> = 27 / 2" "\<bar>lengths ! 4\<bar> = 4"
    by (simp_all add: lengths_def)
  with fk_links_rigid [of lengths bent_pose 1] show ?thesis
    by simp
qed

text \<open>
  C28. Reach. In every pose the end effector is no farther from the base than the sum
  of the link lengths.
\<close>

theorem fk_within_reach:
  assumes "wf_lengths ls" "wf_state s"
  shows "glm_length (endEffect (forward_kinematics ls numBones s)) \<le> sum_list (map abs ls)"
  using assms joint_pos_within_reach [of 5 ls "theta s"]
  by (simp add: numBones_def forward_kinematics_endEffect wf_lengths_length reach_all
      del: joint_pos.simps)

theorem fk_within_reach_witness:
  "wf_lengths lengths \<and> wf_state bent_pose \<and>
   glm_length (endEffect (forward_kinematics lengths numBones bent_pose)) \<le> 39"
proof -
  have "sum_list (map abs lengths) = 39"
    by (simp add: lengths_def)
  with fk_within_reach [of lengths bent_pose] show ?thesis
    by simp
qed

text \<open>
  C29. Every bone is drawn from its joint to the next. The \<open>k\<close>-th matrix the bone loop
  draws the mesh with sends the mesh's origin to the screen position of joint \<open>k\<close>
  and the mesh's tip \<open>(1, 0, 0)\<close> to the screen position of joint \<open>k + 1\<close>.
\<close>

theorem fk_draws_bones:
  assumes "wf_lengths ls" "wf_state s" "k < numBones"
  shows "ndc (drawn (forward_kinematics ls numBones s) ! (length (drawn s) + k)) 0 =
           ndc (Projection * View) (joint_pos ls (theta s) k) \<and>
         ndc (drawn (forward_kinematics ls numBones s) ! (length (drawn s) + k)) (Vec3 1 0 0) =
           ndc (Projection * View) (joint_pos ls (theta s) (Suc k))"
  using assms
  by (simp add: numBones_def forward_kinematics_drawn ndc_bone_frame
      del: joint_pos.simps upt_Suc)

theorem fk_draws_bones_witness:
  "wf_lengths lengths \<and> wf_state bent_pose \<and> 1 < numBones \<and>
   ndc (drawn (forward_kinematics lengths numBones bent_pose) ! (length (drawn bent_pose) + 1)) 0 =
     Vec3 0 (7 / 60) (2 / 3) \<and>
   ndc (drawn (forward_kinematics lengths numBones bent_pose) ! (length (drawn bent_pose) + 1))
       (Vec3 1 0 0) = Vec3 (9 / 40) (7 / 60) (2 / 3)"
proof -
  have e: "joint_pos lengths (theta bent_pose) 1 = Vec3 0 7 0"
    "joint_pos lengths (theta bent_pose) (Suc 1) = Vec3 (27 / 2) 7 0"
    by (simp_all add: lengths_def bone_dir_def heading_bent_pose zero_vec3_def)
  from fk_draws_bones [of lengths bent_pose 1] show ?thesis
    unfolding e ndc_camera by (simp add: numBones_def)
qed

end
