(* ===== verification/IK_Step.thy ===== *)
theory IK_Step
  imports Forward_Kinematics
begin

text \<open>
  The Jacobian Estimator and the Gradient Stepper of the specification:
  \<open>src/IKTest.cpp\<close>, lines 332-351.

  \<^item> \<open>jac_loop\<close> (lines 337-339): \<open>jac[i] = cross(rotAxis, endEffect - positions[i])\<close>;
  \<^item> \<open>dtheta_loop\<close> (lines 343-345): \<open>dtheta[i] = dot(jac[i], V)\<close>;
  \<^item> \<open>theta_loop\<close> (lines 348-350): \<open>theta[i] += dtheta[i] * step\<close>;
  \<^item> \<open>ik_update\<close> (lines 332-351): the guard on the distance to the target and the
    three loops. Its argument \<open>d0\<close> is the content of the uninitialised array
    \<open>dtheta\<close>; \<open>jac\<close> starts as GLM's default constructor leaves it.
  The three loops are index loops over arrays, modelled as such.

  \<open>jacobian_col\<close> and \<open>jt_step\<close> are the reference definitions: the column of the
  geometric Jacobian for a revolute joint about \<open>rotAxis\<close>, and the
  Jacobian-transpose update of all angles from one geometry. The theorems: the loops
  compute the reference update, whatever \<open>dtheta\<close> held (equivalence); a Jacobian
  column is orthogonal to its lever arm and zero for a zero lever arm; within the
  threshold nothing changes; only \<open>theta\<close> changes; a pose in which every lever arm
  is parallel to the error is a fixed point.
\<close>

subsection \<open>The statements\<close>

definition jac_loop :: "nat \<Rightarrow> vec3 \<Rightarrow> vec3 list \<Rightarrow> vec3 list \<Rightarrow> vec3 list" where
  "jac_loop n ee ps jac = for_loop n (\<lambda>i jac. jac[i := glm_cross rotAxis (ee - ps ! i)]) jac"

definition dtheta_loop :: "nat \<Rightarrow> vec3 list \<Rightarrow> vec3 \<Rightarrow> float list \<Rightarrow> float list" where
  "dtheta_loop n jac V dtheta = for_loop n (\<lambda>i dtheta. dtheta[i := glm_dot (jac ! i) V]) dtheta"

definition theta_loop :: "nat \<Rightarrow> float list \<Rightarrow> float list \<Rightarrow> float list" where
  "theta_loop n dtheta th = for_loop n (\<lambda>i th. th[i := th ! i + dtheta ! i * step]) th"

definition ik_update :: "nat \<Rightarrow> float list \<Rightarrow> ik_state \<Rightarrow> ik_state" where
  "ik_update n d0 s =
     (if glm_length (endEffect s - target s) > threshold then
        (let jac = jac_loop n (endEffect s) (positions s) (replicate 5 0);
             V = target s - endEffect s;
             dtheta = dtheta_loop n jac V d0
         in s\<lparr>theta := theta_loop n dtheta (theta s)\<rparr>)
      else s)"

lemmas [ik_defs] = jac_loop_def dtheta_loop_def theta_loop_def ik_update_def

subsection \<open>Reference definitions\<close>

definition jacobian_col :: "vec3 \<Rightarrow> vec3 \<Rightarrow> vec3" where
  "jacobian_col ee p = glm_cross rotAxis (ee - p)"

definition jt_step :: "vec3 \<Rightarrow> vec3 \<Rightarrow> vec3 list \<Rightarrow> float list \<Rightarrow> float list" where
  "jt_step tgt ee ps th =
     map (\<lambda>i. th ! i + glm_dot (jacobian_col ee (ps ! i)) (tgt - ee) * step) [0..<length th]"

subsection \<open>The loops compute the reference definitions\<close>

lemma length_loops [simp]:
  "length (jac_loop n ee ps jac) = length jac"
  "length (dtheta_loop n jac V d) = length d"
  "length (theta_loop n d th) = length th"
  by (simp_all add: jac_loop_def dtheta_loop_def theta_loop_def)

lemma jac_loop_eq_map:
  "length jac = n \<Longrightarrow> jac_loop n ee ps jac = map (\<lambda>i. jacobian_col ee (ps ! i)) [0..<n]"
  by (simp add: jac_loop_def jacobian_col_def array_fill_eq_map)

lemma dtheta_loop_eq_map:
  "length d = n \<Longrightarrow> dtheta_loop n jac V d = map (\<lambda>i. glm_dot (jac ! i) V) [0..<n]"
  by (simp add: dtheta_loop_def array_fill_eq_map)

lemma theta_loop_eq_map:
  "length th = n \<Longrightarrow> theta_loop n d th = map (\<lambda>i. th ! i + d ! i * step) [0..<n]"
  using array_update_eq_map [where g = "\<lambda>i x. x + d ! i * step" and a = th and n = n]
  by (simp add: theta_loop_def)

lemma loops_eq_jt_step:
  assumes "length th = 5" "length d0 = 5"
  shows "theta_loop 5 (dtheta_loop 5 (jac_loop 5 ee ps (replicate 5 0)) (tgt - ee) d0) th =
         jt_step tgt ee ps th"
  using assms
  by (simp add: theta_loop_eq_map dtheta_loop_eq_map jac_loop_eq_map jt_step_def
      del: upt_Suc replicate.simps)

lemma theta_ik_update:
  assumes "length (theta s) = 5" "length d0 = 5"
  shows "theta (ik_update 5 d0 s) =
         (if glm_length (endEffect s - target s) > threshold
          then jt_step (target s) (endEffect s) (positions s) (theta s) else theta s)"
  using assms by (simp add: ik_update_def Let_def loops_eq_jt_step)

subsection \<open>Frame lemmas\<close>

lemma ik_update_sel [simp, ik_frame]:
  "positions (ik_update n d0 s) = positions s" "endEffect (ik_update n d0 s) = endEffect s"
  "Model (ik_update n d0 s) = Model s" "MVP (ik_update n d0 s) = MVP s"
  "targetSet (ik_update n d0 s) = targetSet s"
  "targetX (ik_update n d0 s) = targetX s" "targetY (ik_update n d0 s) = targetY s"
  "worldTargetX (ik_update n d0 s) = worldTargetX s"
  "worldTargetY (ik_update n d0 s) = worldTargetY s"
  "scale (ik_update n d0 s) = scale s" "rot (ik_update n d0 s) = rot s"
  "trans_m (ik_update n d0 s) = trans_m s"
  "drawn (ik_update n d0 s) = drawn s" "printed (ik_update n d0 s) = printed s"
  "length (theta (ik_update n d0 s)) = length (theta s)"
  by (simp_all add: ik_update_def Let_def)

lemma wf_state_ik_update [simp, ik_wf]: "wf_state (ik_update n d0 s) = wf_state s"
  by (simp add: wf_state_def)

lemma target_ik_update [simp]: "target (ik_update n d0 s) = target s"
  by (simp add: target_def)

subsection \<open>The Jacobian column\<close>

lemma jacobian_col_eq: "jacobian_col ee p = Vec3 (- (vy ee - vy p)) (vx ee - vx p) 0"
  by (simp add: jacobian_col_def rotAxis_def vec3_eq_iff)

lemma jacobian_col_orthogonal [simp]: "glm_dot (jacobian_col ee p) (ee - p) = 0"
  by (simp add: jacobian_col_def)

lemma jacobian_col_degenerate [simp]: "jacobian_col p p = 0"
  by (simp add: jacobian_col_def)

lemma jacobian_col_length:
  "vz ee = vz p \<Longrightarrow> glm_length (jacobian_col ee p) = glm_length (ee - p)"
  by (simp add: jacobian_col_eq glm_length_def glm_dot_def algebra_simps)

text \<open>
  The torque form of the update: \<open>dtheta[i]\<close> is the z component of the cross product
  of the lever arm and the error.
\<close>

lemma dtheta_eq_torque: "glm_dot (jacobian_col ee p) V = vz (glm_cross (ee - p) V)"
  by (simp add: jacobian_col_eq glm_dot_def algebra_simps)

lemma dtheta_parallel:
  "glm_cross (ee - p) V = 0 \<Longrightarrow> glm_dot (jacobian_col ee p) V = 0"
  by (simp add: dtheta_eq_torque)

subsection \<open>The reference update\<close>

lemma length_jt_step [simp]: "length (jt_step tgt ee ps th) = length th"
  by (simp add: jt_step_def)

lemma nth_jt_step:
  "i < length th \<Longrightarrow>
   jt_step tgt ee ps th ! i = th ! i + glm_dot (jacobian_col ee (ps ! i)) (tgt - ee) * step"
  by (simp add: jt_step_def)

lemma jt_step_fixed:
  assumes "\<And>i. i < length th \<Longrightarrow> glm_cross (ee - ps ! i) (tgt - ee) = 0"
  shows "jt_step tgt ee ps th = th"
  using assms by (simp add: list_eq_iff_nth_eq nth_jt_step dtheta_parallel)

lemma ik_update_converged:
  "glm_length (endEffect s - target s) \<le> threshold \<Longrightarrow> ik_update n d0 s = s"
  by (simp add: ik_update_def)

lemma ik_update_theta_only: "ik_update n d0 s = s\<lparr>theta := theta (ik_update n d0 s)\<rparr>"
  by (simp add: ik_update_def Let_def)

subsection \<open>Properties of the solver step\<close>

text \<open>
  A state for the examples: the rest pose after forward kinematics, aiming at the
  target \<open>(0, 60)\<close>, which a click on the middle of the window's top edge gives.
\<close>

definition rest_aim :: ik_state where
  "rest_aim = init_state
     \<lparr>worldTargetY := 60,
      positions := [Vec3 0 0 0, Vec3 7 0 0, Vec3 (41 / 2) 0 0, Vec3 (63 / 2) 0 0, Vec3 35 0 0],
      endEffect := Vec3 39 0 0\<rparr>"

lemma rest_aim_sel [simp]:
  "theta rest_aim = [0, 0, 0, 0, 0]" "endEffect rest_aim = Vec3 39 0 0"
  "positions rest_aim = [Vec3 0 0 0, Vec3 7 0 0, Vec3 (41 / 2) 0 0, Vec3 (63 / 2) 0 0, Vec3 35 0 0]"
  "target rest_aim = Vec3 0 60 0"
  by (simp_all add: rest_aim_def init_state_def target_def)

lemma rest_aim_far: "threshold < glm_length (endEffect rest_aim - target rest_aim)"
  by (simp add: threshold_less_iff glm_dot_def)

lemma jt_step_rest_aim:
  "jt_step (Vec3 0 60 0) (Vec3 39 0 0)
     [Vec3 0 0 0, Vec3 7 0 0, Vec3 (41 / 2) 0 0, Vec3 (63 / 2) 0 0, Vec3 35 0 0] [0, 0, 0, 0, 0] =
   [117 / 5000, 12 / 625, 111 / 10000, 9 / 2000, 3 / 1250]"
  by (simp add: jt_step_def upt_5 jacobian_col_eq glm_dot_def step_def)

text \<open>
  C3. Equivalence. The three index loops of the solver compute the Jacobian-transpose
  update \<open>theta[i] + step * dot(cross(rotAxis, endEffect - positions[i]), target -
  endEffect)\<close> for every joint from the same geometry, and the result does not depend
  on what the uninitialised array \<open>dtheta\<close> held; within the threshold the angles are
  left as they are.
\<close>

theorem ik_update_computes_jt_step:
  assumes "length (theta s) = numBones" "length d0 = numBones"
  shows "theta (ik_update numBones d0 s) =
         (if glm_length (endEffect s - target s) > threshold
          then jt_step (target s) (endEffect s) (positions s) (theta s) else theta s)"
  using assms by (simp add: numBones_def theta_ik_update)

theorem ik_update_computes_jt_step_witness:
  "length (theta rest_aim) = numBones \<and> length [1, 2, 3, 4, 5 :: float] = numBones \<and>
   theta (ik_update numBones [1, 2, 3, 4, 5] rest_aim) =
     [117 / 5000, 12 / 625, 111 / 10000, 9 / 2000, 3 / 1250]"
  using ik_update_computes_jt_step [of rest_aim "[1, 2, 3, 4, 5]"] rest_aim_far
  by (simp add: numBones_def jt_step_rest_aim)

text \<open>
  C23. Jacobian sanity. Every column the Jacobian loop writes is orthogonal to the lever
  arm from its joint to the end effector.
\<close>

theorem jac_loop_orthogonal:
  assumes "i < n" "length jac = n"
  shows "glm_dot (jac_loop n ee ps jac ! i) (ee - ps ! i) = 0"
  using assms by (simp add: jac_loop_eq_map)

theorem jac_loop_orthogonal_witness:
  "(1::nat) < 5 \<and> length (replicate 5 (0::vec3)) = 5 \<and>
   glm_dot (jac_loop 5 (endEffect rest_aim) (positions rest_aim) (replicate 5 0) ! 1)
     (endEffect rest_aim - positions rest_aim ! 1) = 0"
  using jac_loop_orthogonal [of 1 5 "replicate 5 0" "endEffect rest_aim" "positions rest_aim"]
  by simp

text \<open>
  C24. Degenerate lever arm. If the end effector coincides with joint \<open>i\<close>, the
  \<open>i\<close>-th Jacobian column is the zero vector and the \<open>i\<close>-th angle increment is
  exactly zero, with no error raised.
\<close>

theorem degenerate_lever_arm:
  assumes "i < n" "length jac = n" "length d = n" "ps ! i = ee"
  shows "jac_loop n ee ps jac ! i = 0 \<and> dtheta_loop n (jac_loop n ee ps jac) V d ! i = 0"
  using assms by (simp add: jac_loop_eq_map dtheta_loop_eq_map)

theorem degenerate_lever_arm_witness:
  "(4::nat) < 5 \<and> length (replicate 5 (0::vec3)) = 5 \<and> length [1, 2, 3, 4, 5 :: float] = 5 \<and>
   [Vec3 0 0 0, Vec3 7 0 0, Vec3 (41 / 2) 0 0, Vec3 (63 / 2) 0 0, Vec3 35 0 0] ! 4 = Vec3 35 0 0 \<and>
   jac_loop 5 (Vec3 35 0 0)
     [Vec3 0 0 0, Vec3 7 0 0, Vec3 (41 / 2) 0 0, Vec3 (63 / 2) 0 0, Vec3 35 0 0] (replicate 5 0) ! 4 = 0 \<and>
   dtheta_loop 5 (jac_loop 5 (Vec3 35 0 0)
     [Vec3 0 0 0, Vec3 7 0 0, Vec3 (41 / 2) 0 0, Vec3 (63 / 2) 0 0, Vec3 35 0 0] (replicate 5 0))
     (Vec3 1 1 0) [1, 2, 3, 4, 5] ! 4 = 0"
  using degenerate_lever_arm [of 4 5 "replicate 5 0" "[1, 2, 3, 4, 5]"
      "[Vec3 0 0 0, Vec3 7 0 0, Vec3 (41 / 2) 0 0, Vec3 (63 / 2) 0 0, Vec3 35 0 0]"
      "Vec3 35 0 0" "Vec3 1 1 0"]
  by simp

end
