(* ===== verification/Frame.thy ===== *)
theory Frame
  imports Input IK_Step
begin

text \<open>
  One iteration of the frame loop of \<open>src/IKTest.cpp\<close> (lines 158-360) and the loop
  itself.

  \<^item> \<open>frame inp\<close>: the statements of the loop body in the order of the source:
    \<open>clear_screen\<close>, \<open>poll_target\<close>, \<open>frame_locals\<close>, \<open>draw_target\<close>,
    \<open>forward_kinematics\<close>, \<open>ik_update\<close>, each at the program's constants
    \<open>lengths\<close> and \<open>numBones\<close>. \<open>glfwSwapBuffers\<close> and \<open>glfwPollEvents\<close> change
    nothing the program reads other than the next frame's input;
  \<^item> \<open>keep_running inp\<close>: the condition of the \<open>do \<dots> while\<close> (lines 359-360);
  \<^item> \<open>run inps\<close>: the loop over a finite sequence of inputs; the body runs before the
    condition is tested, and the loop ends with the first input that fails it. A
    sequence that is used up with the condition still true stands for a run that is
    observed only that far;
  \<^item> \<open>reachable\<close>: the states the program can be in at the start of a frame.

  \<open>frame_spec\<close> is what a frame promises for the joint angles, in the terms of
  \<open>Planar_Chain\<close> and \<open>IK_Step\<close>. The lemmas: the frame implements \<open>frame_spec\<close> and
  does not depend on the uninitialised array nor on what the frame's scratch variables
  held; well-formedness is an invariant of the reachable states.
\<close>

subsection \<open>The frame and the loop\<close>

definition frame :: "frame_input \<Rightarrow> ik_state \<Rightarrow> ik_state" where
  "frame inp s =
     (let s1 = clear_screen s;
          s2 = poll_target inp s1;
          s3 = frame_locals s2;
          s4 = draw_target s3;
          s5 = forward_kinematics lengths numBones s4
      in ik_update numBones (dtheta_init inp) s5)"

definition keep_running :: "frame_input \<Rightarrow> bool" where
  "keep_running inp \<longleftrightarrow> \<not> esc_pressed inp \<and> \<not> window_should_close inp"

fun run :: "frame_input list \<Rightarrow> ik_state \<Rightarrow> ik_state" where
  "run [] s = s"
| "run (inp # inps) s = (if keep_running inp then run inps (frame inp s) else frame inp s)"

inductive reachable :: "ik_state \<Rightarrow> bool" where
  reach_init: "reachable init_state"
| reach_frame: "reachable s \<Longrightarrow> wf_input inp \<Longrightarrow> reachable (frame inp s)"

lemmas [ik_defs] = frame_def keep_running_def

subsection \<open>What a frame promises\<close>

definition frame_target :: "frame_input \<Rightarrow> ik_state \<Rightarrow> vec3" where
  "frame_target inp s =
     (if mouse_pressed inp then Vec3 (world_x (cursor_x inp)) (world_y (cursor_y inp)) 0
      else target s)"

definition frame_spec :: "float list \<Rightarrow> vec3 \<Rightarrow> float list \<Rightarrow> float list" where
  "frame_spec ls tgt th =
     (let ee = joint_pos ls th 5 in
      if glm_length (ee - tgt) > threshold
      then jt_step tgt ee (map (joint_pos ls th) [0..<5]) th
      else th)"

subsection \<open>Frame lemmas\<close>

lemma target_poll_target [simp]: "target (poll_target inp s) = frame_target inp s"
  by (simp add: target_def frame_target_def poll_target_def Let_def)

lemma target_frame_steps [simp]:
  "target (clear_screen s) = target s" "target (frame_locals s) = target s"
  "target (draw_target s) = target s" "target (forward_kinematics ls n s) = target s"
  by (simp_all add: target_def)

lemma vz_frame_target [simp]: "vz (frame_target inp s) = 0"
  by (simp add: frame_target_def)

lemma frame_target_idle [simp]: "\<not> mouse_pressed inp \<Longrightarrow> frame_target inp s = target s"
  by (simp add: frame_target_def)

lemma frame_target_click [simp]:
  "mouse_pressed inp \<Longrightarrow>
   frame_target inp s = Vec3 (world_x (cursor_x inp)) (world_y (cursor_y inp)) 0"
  by (simp add: frame_target_def)

lemma frame_target_clear_screen [simp]: "frame_target inp (clear_screen s) = frame_target inp s"
  by (simp add: frame_target_def)

lemma frame_sel [simp, ik_frame]:
  "targetSet (frame inp s) \<longleftrightarrow> mouse_pressed inp \<or> targetSet s"
  "target (frame inp s) = frame_target inp s"
  "length (theta (frame inp s)) = length (theta s)"
  "length (positions (frame inp s)) = length (positions s)"
  by (simp_all add: frame_def Let_def targetSet_poll_target)

lemma frame_target_fields [simp, ik_frame]:
  "targetX (frame inp s) = (if mouse_pressed inp then cursor_x inp else targetX s)"
  "targetY (frame inp s) = (if mouse_pressed inp then cursor_y inp else targetY s)"
  "worldTargetX (frame inp s) = (if mouse_pressed inp then world_x (cursor_x inp) else worldTargetX s)"
  "worldTargetY (frame inp s) = (if mouse_pressed inp then world_y (cursor_y inp) else worldTargetY s)"
  by (simp_all add: frame_def Let_def poll_target_def)

lemma wf_state_frame [simp, ik_wf]: "wf_state (frame inp s) = wf_state s"
  by (simp add: wf_state_def)

lemma wf_state_run [simp, ik_wf]: "wf_state (run inps s) = wf_state s"
  by (induction inps arbitrary: s) simp_all

lemma reachable_wf_state: "reachable s \<Longrightarrow> wf_state s"
  by (induction rule: reachable.induct) simp_all

subsection \<open>The frame implements its specification\<close>

lemma frame_fk:
  assumes "wf_state s"
  shows "positions (forward_kinematics lengths numBones
            (draw_target (frame_locals (poll_target inp (clear_screen s))))) =
           map (joint_pos lengths (theta s)) [0..<5]"
    and "endEffect (forward_kinematics lengths numBones
            (draw_target (frame_locals (poll_target inp (clear_screen s))))) =
           joint_pos lengths (theta s) 5"
  using assms
  by (simp_all add: numBones_def forward_kinematics_positions forward_kinematics_endEffect
      del: upt_Suc)

lemma theta_frame:
  assumes "wf_state s" "wf_input inp"
  shows "theta (frame inp s) = frame_spec lengths (frame_target inp s) (theta s)"
  using assms frame_fk [OF assms(1), of inp]
  by (simp add: frame_def Let_def numBones_def theta_ik_update wf_stateD wf_input_def
      frame_spec_def del: upt_Suc)

lemma positions_frame:
  "wf_state s \<Longrightarrow> positions (frame inp s) = map (joint_pos lengths (theta s)) [0..<5]"
  using frame_fk(1) [of s inp] by (simp add: frame_def Let_def del: upt_Suc)

lemma endEffect_frame:
  "wf_state s \<Longrightarrow> endEffect (frame inp s) = joint_pos lengths (theta s) 5"
  using frame_fk(2) [of s inp] by (simp add: frame_def Let_def)

lemma drawn_frame:
  assumes "wf_state s"
  shows "drawn (frame inp s) =
         (if mouse_pressed inp \<or> targetSet s
          then [Projection * View *
                  (glm_translate 1 (Vec3 (vx (frame_target inp s) - 1 / 2) (vy (frame_target inp s)) 0) *
                   glm_scale 1 (Vec3 1 (10 / 6) 1))]
          else []) @
         map (\<lambda>k. Projection * View * bone_frame lengths (theta s) k) [0..<5]"
  using assms
  by (simp add: frame_def Let_def numBones_def forward_kinematics_drawn drawn_draw_target
      targetSet_poll_target flip: target_sel del: upt_Suc)

subsection \<open>Runs\<close>

lemma run_append:
  "list_all keep_running inps \<Longrightarrow> run (inps @ inps') s = run inps' (run inps s)"
  by (induction inps arbitrary: s) simp_all

lemma run_snoc:
  "list_all keep_running inps \<Longrightarrow> run (inps @ [inp]) s = frame inp (run inps s)"
  by (simp add: run_append)

text \<open>A property every frame keeps is kept by every run.\<close>

lemma run_invariant:
  assumes "P s" and "\<And>inp t. inp \<in> set inps \<Longrightarrow> P t \<Longrightarrow> P (frame inp t)"
  shows "P (run inps s)"
  using assms by (induction inps arbitrary: s) simp_all

lemma reachable_run:
  "reachable s \<Longrightarrow> list_all wf_input inps \<Longrightarrow> reachable (run inps s)"
  by (induction inps arbitrary: s) (auto intro: reachable.intros)

subsection \<open>Fixed points of the frame\<close>

text \<open>
  In the straight pose every lever arm lies on the x axis; if the target does too, the
  error is parallel to all of them and the update is zero.
\<close>

lemma frame_spec_straight:
  assumes "length ls = 5" "vy tgt = 0" "vz tgt = 0"
  shows "frame_spec ls tgt (replicate 5 0) = replicate 5 0"
proof -
  have "glm_cross (joint_pos ls (replicate 5 0) 5 - joint_pos ls (replicate 5 0) i)
          (tgt - joint_pos ls (replicate 5 0) 5) = 0" if "i < 5" for i
    using that assms by (simp add: joint_pos_rest vec3_eq_iff del: joint_pos.simps replicate.simps)
  then have "jt_step tgt (joint_pos ls (replicate 5 0) 5)
               (map (joint_pos ls (replicate 5 0)) [0..<5]) (replicate 5 0) = replicate 5 0"
    by (intro jt_step_fixed) (simp del: joint_pos.simps replicate.simps upt_Suc)
  then show ?thesis
    by (simp add: frame_spec_def Let_def del: joint_pos.simps replicate.simps upt_Suc)
qed

lemma frame_straight:
  assumes "wf_state s" "wf_input inp" "theta s = replicate 5 0"
    "vy (frame_target inp s) = 0"
  shows "theta (frame inp s) = replicate 5 0"
  using assms
  by (simp add: theta_frame frame_spec_straight wf_lengths_length del: replicate.simps)

text \<open>Within the threshold, a frame without a click leaves the angles as they are.\<close>

lemma frame_converged:
  assumes "wf_state s" "wf_input inp" "\<not> mouse_pressed inp"
    "glm_length (joint_pos lengths (theta s) 5 - target s) \<le> threshold"
  shows "theta (frame inp s) = theta s"
  using assms by (simp add: theta_frame frame_spec_def frame_target_def Let_def del: joint_pos.simps)

lemma target_frame_idle: "\<not> mouse_pressed inp \<Longrightarrow> target (frame inp s) = target s"
  by (simp add: frame_target_def)

text \<open>The first frame after a click at the middle of the top edge, evaluated.\<close>

lemma frame_spec_first_click:
  "frame_spec lengths (Vec3 0 60 0) [0, 0, 0, 0, 0] =
     [117 / 5000, 12 / 625, 111 / 10000, 9 / 2000, 3 / 1250]"
  by (simp add: frame_spec_def Let_def joint_pos_init_state jt_step_rest_aim threshold_less_iff
      glm_dot_def del: joint_pos.simps upt_Suc)


end
