(* ===== verification/Gradient.thy ===== *)
theory Gradient
  imports Frame
begin

text \<open>
  The calculus behind the solver step of \<open>src/IKTest.cpp\<close> (lines 332-351).

  \<^item> \<open>turn\<close>: rotation of a vector about the z axis; \<open>joint_pos_update\<close> shows that
    changing the angle of joint \<open>i\<close> rotates the rest of the chain rigidly about joint
    \<open>i\<close>.
  \<^item> \<open>vec3_deriv\<close>: the derivative of a curve of vectors, component by component;
    \<open>vec3_deriv_joint_pos\<close> shows that \<open>jacobian_col\<close>, the cross product the program
    computes, is the partial derivative of a joint position with respect to a joint
    angle.
  \<^item> \<open>half_sq_error\<close>, \<open>partial_error\<close>, \<open>descent_dir\<close>: half the squared distance
    between target and end effector as a function of the pose, its partial derivatives
    and the direction of steepest descent; \<open>move th d h\<close> is the pose \<open>th + h * d\<close>.
  \<^item> \<open>joint_vel\<close>: the velocity of a joint when all angles move at once, equal to the
    Jacobian applied to the angle velocities (\<open>joint_vel_eq_jacobian\<close>).
  \<^item> the properties: the Jacobian loop computes derivatives of forward kinematics, the
    frame is one step of gradient descent with step size \<open>step\<close>, and the direction it
    moves in is a descent direction of the error.

  None of the definitions of this theory is code; they are the mathematics the code is
  compared with.
\<close>

subsection \<open>Turning one joint\<close>

definition turn :: "float \<Rightarrow> vec3 \<Rightarrow> vec3" where
  "turn a v = Vec3 (cos a * vx v - sin a * vy v) (sin a * vx v + cos a * vy v) (vz v)"

definition tip :: "float list \<Rightarrow> float list \<Rightarrow> vec3" where
  "tip ls th = joint_pos ls th (length th)"

definition half_sq_error :: "float list \<Rightarrow> vec3 \<Rightarrow> float list \<Rightarrow> float" where
  "half_sq_error ls tgt th = glm_dot (tgt - tip ls th) (tgt - tip ls th) / 2"

lemma turn_sel [simp]:
  "vx (turn a v) = cos a * vx v - sin a * vy v"
  "vy (turn a v) = sin a * vx v + cos a * vy v"
  "vz (turn a v) = vz v"
  by (simp_all add: turn_def)

lemma turn_0 [simp]: "turn 0 v = v"
  by (simp add: vec3_eq_iff)

lemma turn_zero [simp]: "turn a 0 = 0"
  by (simp add: vec3_eq_iff)

lemma turn_add: "turn a (u + v) = turn a u + turn a v"
  by (simp add: vec3_eq_iff algebra_simps)

lemma turn_scale: "turn a (k *\<^sub>R v) = k *\<^sub>R turn a v"
  by (simp add: vec3_eq_iff algebra_simps)

lemma turn_bone_dir: "turn a (bone_dir h) = bone_dir (h + a)"
  by (simp add: vec3_eq_iff cos_add sin_add algebra_simps)

lemma turn_turn: "turn a (turn b v) = turn (a + b) v"
  by (simp add: vec3_eq_iff cos_add sin_add algebra_simps)

lemma glm_dot_turn [simp]: "glm_dot (turn a u) (turn a v) = glm_dot u v"
proof -
  have "(c * x - s * y) * (c * x' - s * y') + (s * x + c * y) * (s * x' + c * y')
      = (c * c + s * s) * (x * x' + y * y')" for c s x y x' y' :: real
    by (simp add: algebra_simps)
  from this [of "cos a" "vx u" "sin a" "vy u" "vx v" "vy v"] show ?thesis
    by (simp add: glm_dot_def)
qed

lemma glm_length_turn [simp]: "glm_length (turn a v) = glm_length v"
  by (simp add: glm_length_def)

lemma sum_list_update_real:
  fixes xs :: "real list"
  shows "k < length xs \<Longrightarrow> sum_list (xs[k := x]) = sum_list xs + x - xs ! k"
  by (induction xs arbitrary: k) (auto split: nat.splits)

lemma heading_update:
  assumes "i < length th"
  shows "heading (th[i := t]) k = (if i \<le> k then heading th k + (t - th ! i) else heading th k)"
proof (cases "i \<le> k")
  case True
  with assms have "i < length (take (Suc k) th)" by simp
  then show ?thesis
    using True by (simp add: heading_def take_update_swap sum_list_update_real del: take_Suc_Cons)
next
  case False
  then show ?thesis
    by (simp add: heading_def take_update_cancel)
qed

text \<open>
  Turning joint \<open>i\<close> leaves the joints up to \<open>i\<close> where they are and rotates the rest of
  the chain rigidly about joint \<open>i\<close>.
\<close>

lemma joint_pos_update_below:
  "i < length th \<Longrightarrow> n \<le> i \<Longrightarrow> joint_pos ls (th[i := t]) n = joint_pos ls th n"
  by (induction n) (simp_all add: heading_update)

lemma joint_pos_update:
  "i < length th \<Longrightarrow> i \<le> n \<Longrightarrow>
   joint_pos ls (th[i := t]) n =
     joint_pos ls th i + turn (t - th ! i) (joint_pos ls th n - joint_pos ls th i)"
proof (induction n)
  case 0
  then show ?case by simp
next
  case (Suc n)
  show ?case
  proof (cases "i = Suc n")
    case True
    with Suc.prems show ?thesis by (simp add: joint_pos_update_below del: joint_pos.simps)
  next
    case False
    let ?a = "t - th ! i"
    let ?p = "joint_pos ls th"
    from False Suc.prems have le: "i \<le> n" by simp
    have "joint_pos ls (th[i := t]) (Suc n) =
        joint_pos ls (th[i := t]) n + ls ! n *\<^sub>R bone_dir (heading th n + ?a)"
      using le Suc.prems by (simp add: heading_update)
    also have "\<dots> = ?p i + (turn ?a (?p n - ?p i) + turn ?a (ls ! n *\<^sub>R bone_dir (heading th n)))"
      using le Suc by (simp add: turn_scale turn_bone_dir)
    also have "\<dots> = ?p i + turn ?a ((?p n - ?p i) + ls ! n *\<^sub>R bone_dir (heading th n))"
      by (simp only: turn_add)
    also have "(?p n - ?p i) + ls ! n *\<^sub>R bone_dir (heading th n) = ?p (Suc n) - ?p i"
      by simp
    finally show ?thesis .
  qed
qed

subsection \<open>The Jacobian columns are partial derivatives\<close>

definition vec3_deriv :: "(real \<Rightarrow> vec3) \<Rightarrow> real \<Rightarrow> vec3 \<Rightarrow> bool" where
  "vec3_deriv f t v \<longleftrightarrow>
     ((\<lambda>x. vx (f x)) has_real_derivative vx v) (at t) \<and>
     ((\<lambda>x. vy (f x)) has_real_derivative vy v) (at t) \<and>
     ((\<lambda>x. vz (f x)) has_real_derivative vz v) (at t)"

definition partial_error :: "float list \<Rightarrow> vec3 \<Rightarrow> float list \<Rightarrow> nat \<Rightarrow> float" where
  "partial_error ls tgt th i =
     - glm_dot (jacobian_col (tip ls th) (joint_pos ls th i)) (tgt - tip ls th)"

lemma vec3_deriv_turn: "vec3_deriv (\<lambda>t. p + turn (t - a) v) a (jacobian_col (p + v) p)"
  by (auto simp: vec3_deriv_def jacobian_col_eq intro!: derivative_eq_intros)

lemma vec3_deriv_joint_pos:
  assumes "i < length th" "i \<le> n"
  shows "vec3_deriv (\<lambda>t. joint_pos ls (th[i := t]) n) (th ! i)
           (jacobian_col (joint_pos ls th n) (joint_pos ls th i))"
  using assms vec3_deriv_turn [of "joint_pos ls th i" "th ! i" "joint_pos ls th n - joint_pos ls th i"]
  by (simp add: joint_pos_update)

lemma DERIV_half_sq:
  assumes "vec3_deriv f t v"
  shows "((\<lambda>x. glm_dot (c - f x) (c - f x) / 2) has_real_derivative - glm_dot v (c - f t)) (at t)"
  using assms unfolding vec3_deriv_def glm_dot_def
  by (auto intro!: derivative_eq_intros simp: field_simps)

lemma DERIV_half_sq_error:
  assumes "i < length th"
  shows "((\<lambda>t. half_sq_error ls tgt (th[i := t])) has_real_derivative partial_error ls tgt th i)
           (at (th ! i))"
  using DERIV_half_sq [OF vec3_deriv_joint_pos [OF assms, of "length th" ls], of tgt] assms
  by (simp add: half_sq_error_def tip_def partial_error_def)

subsection \<open>Moving all joints at once\<close>

definition move :: "float list \<Rightarrow> float list \<Rightarrow> float \<Rightarrow> float list" where
  "move th d h = map (\<lambda>i. th ! i + h * d ! i) [0..<length th]"

primrec joint_vel :: "float list \<Rightarrow> float list \<Rightarrow> float list \<Rightarrow> nat \<Rightarrow> vec3" where
  "joint_vel ls th d 0 = 0"
| "joint_vel ls th d (Suc k) =
     joint_vel ls th d k + (ls ! k * heading d k) *\<^sub>R glm_cross rotAxis (bone_dir (heading th k))"

definition descent_dir :: "float list \<Rightarrow> vec3 \<Rightarrow> float list \<Rightarrow> float list" where
  "descent_dir ls tgt th = map (\<lambda>i. - partial_error ls tgt th i) [0..<length th]"

lemma length_move [simp]: "length (move th d h) = length th"
  by (simp add: move_def)

lemma nth_move [simp]: "i < length th \<Longrightarrow> move th d h ! i = th ! i + h * d ! i"
  by (simp add: move_def)

lemma move_0 [simp]: "move th d 0 = th"
  by (simp add: move_def map_nth)

lemma length_descent_dir [simp]: "length (descent_dir ls tgt th) = length th"
  by (simp add: descent_dir_def)

lemma nth_descent_dir [simp]:
  "i < length th \<Longrightarrow> descent_dir ls tgt th ! i = - partial_error ls tgt th i"
  by (simp add: descent_dir_def)

lemma heading_move:
  "length d = length th \<Longrightarrow> k < length th \<Longrightarrow>
   heading (move th d h) k = heading th k + h * heading d k"
proof (induction k)
  case 0
  then show ?case by (cases th; cases d) (simp_all add: heading_def move_def upt_rec)
next
  case (Suc k)
  then show ?case by (simp add: heading_Suc algebra_simps)
qed

lemma heading_eq_sum: "k < length d \<Longrightarrow> heading d k = (\<Sum>i<Suc k. d ! i)"
proof (induction k)
  case 0
  then show ?case by (simp add: heading_0)
next
  case (Suc k)
  then show ?case by (simp add: heading_Suc)
qed

lemma jacobian_col_add: "jacobian_col (p + w) q = jacobian_col p q + glm_cross rotAxis w"
  by (simp add: jacobian_col_eq vec3_eq_iff glm_cross_def rotAxis_def)

text \<open>The velocity of joint \<open>n\<close> is the Jacobian applied to the joint velocities.\<close>

lemma joint_vel_eq_jacobian:
  "n \<le> length d \<Longrightarrow>
   joint_vel ls th d n = (\<Sum>i<n. d ! i *\<^sub>R jacobian_col (joint_pos ls th n) (joint_pos ls th i))"
proof (induction n)
  case 0
  then show ?case by simp
next
  case (Suc n)
  let ?w = "ls ! n *\<^sub>R bone_dir (heading th n)"
  have "(\<Sum>i<Suc n. d ! i *\<^sub>R jacobian_col (joint_pos ls th (Suc n)) (joint_pos ls th i))
      = (\<Sum>i<Suc n. d ! i *\<^sub>R jacobian_col (joint_pos ls th n) (joint_pos ls th i)
                      + d ! i *\<^sub>R glm_cross rotAxis ?w)"
    by (simp add: jacobian_col_add scaleR_add_right del: sum.lessThan_Suc)
  also have "\<dots> = (\<Sum>i<n. d ! i *\<^sub>R jacobian_col (joint_pos ls th n) (joint_pos ls th i))
      + (\<Sum>i<Suc n. d ! i) *\<^sub>R glm_cross rotAxis ?w"
    by (simp add: sum.distrib scaleR_sum_left scaleR_add_left del: joint_pos.simps)
  also have "\<dots> = joint_vel ls th d n + heading d n *\<^sub>R glm_cross rotAxis ?w"
    using Suc by (simp add: heading_eq_sum)
  also have "glm_cross rotAxis ?w = ls ! n *\<^sub>R glm_cross rotAxis (bone_dir (heading th n))"
    by (simp add: vec3_eq_iff glm_cross_def rotAxis_def)
  finally show ?case by (simp add: mult.commute)
qed

lemma vec3_deriv_joint_pos_move:
  assumes "length d = length th" "n \<le> length th"
  shows "vec3_deriv (\<lambda>h. joint_pos ls (move th d h) n) 0 (joint_vel ls th d n)"
  using assms(2)
proof (induction n)
  case 0
  then show ?case by (simp add: vec3_deriv_def zero_vec3_def)
next
  case (Suc n)
  then have "vec3_deriv (\<lambda>h. joint_pos ls (move th d h) n) 0 (joint_vel ls th d n)"
    by simp
  then show ?case
    using Suc.prems assms(1) unfolding vec3_deriv_def
    by (auto simp: heading_move glm_cross_def rotAxis_def intro!: derivative_eq_intros)
qed

subsection \<open>The error along a line of poses\<close>

lemma glm_dot_sum_left: "glm_dot (\<Sum>i\<in>A. f i) v = (\<Sum>i\<in>A. glm_dot (f i) v)"
  by (induction A rule: infinite_finite_induct) (simp_all add: glm_dot_add_left)

lemma DERIV_half_sq_error_move:
  assumes "length d = length th"
  shows "((\<lambda>h. half_sq_error ls tgt (move th d h)) has_real_derivative
            (\<Sum>i<length th. d ! i * partial_error ls tgt th i)) (at 0)"
proof -
  have "glm_dot (joint_vel ls th d (length th)) (tgt - tip ls th) =
        (\<Sum>i<length th. d ! i * - partial_error ls tgt th i)"
    using assms by (simp add: joint_vel_eq_jacobian glm_dot_sum_left partial_error_def tip_def)
  then show ?thesis
    using DERIV_half_sq [OF vec3_deriv_joint_pos_move [OF assms, of "length th" ls], of tgt]
    by (simp add: half_sq_error_def tip_def sum_negf)
qed

lemma DERIV_half_sq_error_descent:
  "((\<lambda>h. half_sq_error ls tgt (move th (descent_dir ls tgt th) h)) has_real_derivative
      - (\<Sum>i<length th. (partial_error ls tgt th i)\<^sup>2)) (at 0)"
  using DERIV_half_sq_error_move [of "descent_dir ls tgt th" th ls tgt]
  by (simp add: power2_eq_square sum_negf)

subsection \<open>The solver step is a gradient step\<close>

lemma jt_step_eq_move:
  "jt_step tgt (tip ls th) (map (joint_pos ls th) [0..<length th]) th =
   move th (descent_dir ls tgt th) step"
  by (rule nth_equalityI) (simp_all add: nth_jt_step partial_error_def)

lemma frame_spec_eq_move:
  "length th = 5 \<Longrightarrow>
   frame_spec ls tgt th =
     (if threshold < glm_length (tip ls th - tgt) then move th (descent_dir ls tgt th) step else th)"
  using jt_step_eq_move [of tgt ls th]
  by (simp add: frame_spec_def Let_def tip_def del: upt_Suc)

lemma wf_state_theta_update [simp, ik_wf]:
  "wf_state (s\<lparr>theta := (theta s)[i := t]\<rparr>) = wf_state s"
  by (simp add: wf_state_def)

lemma fk_tip: "wf_lengths ls \<Longrightarrow> wf_state s \<Longrightarrow>
  endEffect (forward_kinematics ls 5 s) = tip ls (theta s)"
  by (simp add: forward_kinematics_endEffect tip_def wf_stateD)

lemma fk_position:
  "wf_lengths ls \<Longrightarrow> wf_state s \<Longrightarrow> i < 5 \<Longrightarrow>
   positions (forward_kinematics ls 5 s) ! i = joint_pos ls (theta s) i"
  by (simp add: forward_kinematics_positions del: upt_Suc)

subsection \<open>Properties\<close>

text \<open>
  C21. Turning one joint rotates the rest of the chain rigidly about it. If the angle of
  joint \<open>i\<close> is changed by \<open>a\<close>, the end effector that forward kinematics computes is
  the old end effector rotated by \<open>a\<close> about the recorded position of joint \<open>i\<close>, and the
  positions of the joints up to \<open>i\<close> are as before.
\<close>

theorem turning_joint_rotates_tip:
  assumes "wf_lengths ls" "wf_state s" "i < numBones" "k \<le> i"
  shows "endEffect (forward_kinematics ls numBones (s\<lparr>theta := (theta s)[i := theta s ! i + a]\<rparr>)) =
           positions (forward_kinematics ls numBones s) ! i +
           turn a (endEffect (forward_kinematics ls numBones s) -
                   positions (forward_kinematics ls numBones s) ! i) \<and>
         positions (forward_kinematics ls numBones (s\<lparr>theta := (theta s)[i := theta s ! i + a]\<rparr>)) ! k =
           positions (forward_kinematics ls numBones s) ! k"
  using assms
  by (simp add: numBones_def forward_kinematics_endEffect fk_position joint_pos_update
      joint_pos_update_below wf_stateD)

theorem turning_joint_rotates_tip_witness:
  "wf_lengths lengths \<and> wf_state init_state \<and> (1::nat) < numBones \<and> (0::nat) \<le> 1 \<and>
   endEffect (forward_kinematics lengths numBones (init_state\<lparr>theta := [0, pi / 2, 0, 0, 0]\<rparr>)) =
     Vec3 7 32 0"
  using turning_joint_rotates_tip [of lengths init_state 1 0 "pi / 2"] fk_init_state
  by (simp add: numBones_def vec3_eq_iff)

text \<open>
  C7. The Jacobian is the derivative of forward kinematics. The column that the
  Jacobian loop writes for joint \<open>i\<close>, from the end effector and the joint positions that
  forward kinematics recorded, is the derivative of the end effector that forward
  kinematics computes with respect to the angle of joint \<open>i\<close>, at the current pose.
\<close>

theorem jacobian_is_derivative:
  assumes "wf_lengths ls" "wf_state s" "i < numBones" "length jac = numBones"
  shows "vec3_deriv
           (\<lambda>t. endEffect (forward_kinematics ls numBones (s\<lparr>theta := (theta s)[i := t]\<rparr>)))
           (theta s ! i)
           (jac_loop numBones (endEffect (forward_kinematics ls numBones s))
              (positions (forward_kinematics ls numBones s)) jac ! i)"
  using assms vec3_deriv_joint_pos [of i "theta s" 5 ls]
  by (simp add: numBones_def forward_kinematics_endEffect fk_position jac_loop_eq_map wf_stateD
      del: upt_Suc)

theorem jacobian_is_derivative_witness:
  "wf_lengths lengths \<and> wf_state init_state \<and> (0::nat) < numBones \<and>
   length (replicate 5 (0::vec3)) = numBones \<and>
   vec3_deriv (\<lambda>t. endEffect (forward_kinematics lengths numBones (init_state\<lparr>theta := [t, 0, 0, 0, 0]\<rparr>)))
     0 (Vec3 0 39 0)"
  using jacobian_is_derivative [of lengths init_state 0 "replicate 5 0"] fk_init_state
  by (simp add: numBones_def jac_loop_eq_map jacobian_col_eq del: upt_Suc replicate.simps)

text \<open>
  At the rest pose the gradient is proportional to the height of the target above the
  axis of the chain: it vanishes for every target on the axis.
\<close>

lemma partial_error_rest:
  assumes "length ls = n" "i \<le> n"
  shows "partial_error ls tgt (replicate n 0) i = - ((sum_list ls - sum_list (take i ls)) * vy tgt)"
  using assms by (simp add: partial_error_def tip_def joint_pos_rest jacobian_col_eq glm_dot_def)

lemma zeros_5: "[0, 0, 0, 0, 0] = replicate 5 (0::real)"
  by (simp add: eval_nat_numeral)

lemma partial_error_first_click:
  "partial_error lengths (Vec3 0 60 0) [0, 0, 0, 0, 0] 0 = - 2340"
  "partial_error lengths (Vec3 0 60 0) [0, 0, 0, 0, 0] 1 = - 1920"
  "partial_error lengths (Vec3 0 60 0) [0, 0, 0, 0, 0] 2 = - 1110"
  "partial_error lengths (Vec3 0 60 0) [0, 0, 0, 0, 0] 3 = - 450"
  "partial_error lengths (Vec3 0 60 0) [0, 0, 0, 0, 0] 4 = - 240"
  unfolding zeros_5 by (simp_all add: partial_error_rest lengths_def)

lemma descent_dir_first_click:
  "descent_dir lengths (Vec3 0 60 0) [0, 0, 0, 0, 0] = [2340, 1920, 1110, 450, 240]"
  using partial_error_first_click by (simp add: descent_dir_def eval_nat_numeral)

text \<open>
  C4. The solver step is a gradient step. In a frame, each joint angle moves by
  \<open>step\<close> times the negative partial derivative of half the squared distance between
  the target and the end effector, taken with respect to that angle at the pose
  before the frame; within the threshold the angle stays.
\<close>

theorem frame_is_gradient_step:
  assumes "wf_state s" "wf_input inp" "i < numBones"
  shows "theta (frame inp s) ! i =
           (if threshold < glm_length (endEffect (frame inp s) - target (frame inp s))
            then theta s ! i - step * partial_error lengths (target (frame inp s)) (theta s) i
            else theta s ! i) \<and>
         ((\<lambda>t. half_sq_error lengths (target (frame inp s)) ((theta s)[i := t]))
            has_real_derivative partial_error lengths (target (frame inp s)) (theta s) i)
           (at (theta s ! i))"
  using assms DERIV_half_sq_error [of i "theta s" lengths "frame_target inp s"]
  by (simp add: numBones_def theta_frame endEffect_frame frame_spec_eq_move wf_stateD tip_def)

theorem frame_is_gradient_step_witness:
  "wf_state init_state \<and> wf_input (click 512 0) \<and> (0::nat) < numBones \<and>
   theta (frame (click 512 0) init_state) ! 0 = 117 / 5000 \<and>
   ((\<lambda>t. half_sq_error lengths (Vec3 0 60 0) [t, 0, 0, 0, 0]) has_real_derivative - 2340) (at 0)"
  using frame_is_gradient_step [of init_state "click 512 0" 0]
  by (simp add: numBones_def theta_frame frame_spec_first_click partial_error_first_click)

text \<open>
  C20. The solver steps downhill. When the end effector is farther from the target than
  the threshold, a frame moves the pose by \<open>step\<close> along the direction of steepest
  descent of half the squared distance to the target, and along that direction the
  error decreases at the rate given by the sum of the squares of the angle increments
  divided by \<open>step\<close>: the error cannot increase to first order, and decreases unless no
  angle changes.
\<close>

theorem frame_moves_downhill:
  assumes "wf_state s" "wf_input inp"
    and "threshold < glm_length (endEffect (frame inp s) - target (frame inp s))"
  shows "theta (frame inp s) =
           move (theta s) (descent_dir lengths (target (frame inp s)) (theta s)) step \<and>
         ((\<lambda>h. half_sq_error lengths (target (frame inp s))
                 (move (theta s) (descent_dir lengths (target (frame inp s)) (theta s)) h))
            has_real_derivative
              - (\<Sum>i<numBones. ((theta (frame inp s) ! i - theta s ! i) / step)\<^sup>2)) (at 0)"
proof -
  let ?tgt = "target (frame inp s)"
  have len: "length (theta s) = 5"
    using assms(1) by (rule wf_stateD)
  have eq: "theta (frame inp s) = move (theta s) (descent_dir lengths ?tgt (theta s)) step"
    using assms by (simp add: theta_frame endEffect_frame frame_spec_eq_move len tip_def)
  have "(\<Sum>i<numBones. ((theta (frame inp s) ! i - theta s ! i) / step)\<^sup>2) =
        (\<Sum>i<length (theta s). (partial_error lengths ?tgt (theta s) i)\<^sup>2)"
    unfolding eq by (rule sum.cong) (simp_all add: len numBones_def step_def)
  with eq DERIV_half_sq_error_descent [of lengths ?tgt "theta s"] show ?thesis
    by simp
qed

lemma first_click_far:
  "threshold < glm_length (endEffect (frame (click 512 0) init_state) -
                           target (frame (click 512 0) init_state))"
  by (simp add: endEffect_frame joint_pos_init_state threshold_less_iff glm_dot_def
      del: joint_pos.simps)

theorem frame_moves_downhill_witness:
  "wf_state init_state \<and> wf_input (click 512 0) \<and>
   threshold < glm_length (endEffect (frame (click 512 0) init_state) -
                           target (frame (click 512 0) init_state)) \<and>
   theta (frame (click 512 0) init_state) = move [0, 0, 0, 0, 0] [2340, 1920, 1110, 450, 240] step \<and>
   ((\<lambda>h. half_sq_error lengths (Vec3 0 60 0) (move [0, 0, 0, 0, 0] [2340, 1920, 1110, 450, 240] h))
      has_real_derivative - 10654200) (at 0)"
  using frame_moves_downhill [OF _ _ first_click_far] first_click_far
  by (simp add: numBones_def theta_frame frame_spec_first_click descent_dir_first_click
      step_def move_def eval_nat_numeral)

end
