(* ===== verification/Descent.thy ===== *)
theory Descent
  imports Gradient
begin

text \<open>
  The step size of \<open>src/IKTest.cpp\<close> (line 317) is small enough for its chain
  (line 149): a frame never increases the distance between end effector and target.

  The argument is the descent lemma of gradient methods, carried out for the planar
  chain. Along the line of poses \<open>move th d h\<close> the error \<open>line_error\<close> has the first
  derivative \<open>line_error'\<close> and the second derivative \<open>line_error''\<close>
  (\<open>joint_vel\<close> and \<open>joint_acc\<close> are the velocity and the acceleration of the end
  effector along the line). The second derivative is bounded, uniformly in the pose,
  by \<open>curvature_bound ls T n\<close> times the squared length of \<open>d\<close>, where \<open>T\<close> bounds the
  distance of the target from the base (\<open>line_error''_le\<close>). With the second-order
  expansion of the error (\<open>line_error_taylor\<close>) this gives \<open>descent_step\<close>: a step
  \<open>s\<close> along the negative gradient with \<open>s * curvature_bound ls T n \<le> 1\<close> decreases the
  error by at least \<open>s / 2\<close> times the squared length of the gradient.

  For the program's lengths and targets within 85 units of the base (the window shows
  the points within \<open>60 * sqrt 2 < 85\<close>) the bound is \<open>34103 / 2\<close>, and
  \<open>step * 34103 / 2 < 1\<close>.
\<close>

subsection \<open>Derivatives of curves of vectors\<close>

lemma vec3_deriv_const [simp]: "vec3_deriv (\<lambda>x. c) t 0"
  by (simp add: vec3_deriv_def zero_vec3_def)

lemma vec3_deriv_diff:
  "vec3_deriv f t u \<Longrightarrow> vec3_deriv g t v \<Longrightarrow> vec3_deriv (\<lambda>x. f x - g x) t (u - v)"
  by (auto simp: vec3_deriv_def intro!: derivative_eq_intros)

lemma vec3_deriv_dot:
  assumes "vec3_deriv f t u" "vec3_deriv g t v"
  shows "((\<lambda>x. glm_dot (f x) (g x)) has_real_derivative glm_dot u (g t) + glm_dot (f t) v) (at t)"
  using assms unfolding vec3_deriv_def glm_dot_def
  by (auto intro!: derivative_eq_intros simp: algebra_simps)

subsection \<open>First and second derivative along a line of poses\<close>

primrec joint_acc :: "float list \<Rightarrow> float list \<Rightarrow> float list \<Rightarrow> nat \<Rightarrow> vec3" where
  "joint_acc ls th d 0 = 0"
| "joint_acc ls th d (Suc k) =
     joint_acc ls th d k - (ls ! k * (heading d k)\<^sup>2) *\<^sub>R bone_dir (heading th k)"

lemma vec3_deriv_joint_pos_line:
  assumes "length d = length th" "n \<le> length th"
  shows "vec3_deriv (\<lambda>h. joint_pos ls (move th d h) n) h (joint_vel ls (move th d h) d n)"
  using assms(2)
proof (induction n)
  case 0
  then show ?case by (simp add: vec3_deriv_def zero_vec3_def)
next
  case (Suc n)
  then have "vec3_deriv (\<lambda>h. joint_pos ls (move th d h) n) h (joint_vel ls (move th d h) d n)"
    by simp
  then show ?case
    using Suc.prems assms(1) unfolding vec3_deriv_def
    by (auto simp: heading_move glm_cross_def rotAxis_def intro!: derivative_eq_intros)
qed

lemma vec3_deriv_joint_vel_line:
  assumes "length d = length th" "n \<le> length th"
  shows "vec3_deriv (\<lambda>h. joint_vel ls (move th d h) d n) h (joint_acc ls (move th d h) d n)"
  using assms(2)
proof (induction n)
  case 0
  then show ?case by (simp add: vec3_deriv_def zero_vec3_def)
next
  case (Suc n)
  then have "vec3_deriv (\<lambda>h. joint_vel ls (move th d h) d n) h (joint_acc ls (move th d h) d n)"
    by simp
  then show ?case
    using Suc.prems assms(1) unfolding vec3_deriv_def
    by (auto simp: heading_move glm_cross_def rotAxis_def power2_eq_square
        intro!: derivative_eq_intros)
qed

definition line_error :: "float list \<Rightarrow> vec3 \<Rightarrow> float list \<Rightarrow> float list \<Rightarrow> float \<Rightarrow> float" where
  "line_error ls tgt th d h = half_sq_error ls tgt (move th d h)"

definition line_error' :: "float list \<Rightarrow> vec3 \<Rightarrow> float list \<Rightarrow> float list \<Rightarrow> float \<Rightarrow> float" where
  "line_error' ls tgt th d h =
     - glm_dot (joint_vel ls (move th d h) d (length th)) (tgt - tip ls (move th d h))"

definition line_error'' :: "float list \<Rightarrow> vec3 \<Rightarrow> float list \<Rightarrow> float list \<Rightarrow> float \<Rightarrow> float" where
  "line_error'' ls tgt th d h =
     glm_dot (joint_vel ls (move th d h) d (length th)) (joint_vel ls (move th d h) d (length th))
     - glm_dot (joint_acc ls (move th d h) d (length th)) (tgt - tip ls (move th d h))"

lemma DERIV_line_error:
  assumes "length d = length th"
  shows "(line_error ls tgt th d has_real_derivative line_error' ls tgt th d h) (at h)"
  using DERIV_half_sq [OF vec3_deriv_joint_pos_line [OF assms, of "length th" ls h], of tgt]
  by (simp add: line_error_def [abs_def] line_error'_def half_sq_error_def tip_def)

lemma DERIV_line_error':
  assumes "length d = length th"
  shows "(line_error' ls tgt th d has_real_derivative line_error'' ls tgt th d h) (at h)"
proof -
  let ?n = "length th"
  have v: "vec3_deriv (\<lambda>h. joint_vel ls (move th d h) d ?n) h (joint_acc ls (move th d h) d ?n)"
    using assms by (intro vec3_deriv_joint_vel_line) simp_all
  have "vec3_deriv (\<lambda>h. tgt - joint_pos ls (move th d h) ?n) h (0 - joint_vel ls (move th d h) d ?n)"
    using assms by (intro vec3_deriv_diff vec3_deriv_joint_pos_line) simp_all
  from DERIV_minus [OF vec3_deriv_dot [OF v this]]
  have "(line_error' ls tgt th d has_real_derivative
          - (glm_dot (joint_acc ls (move th d h) d ?n) (tgt - joint_pos ls (move th d h) ?n) +
             glm_dot (joint_vel ls (move th d h) d ?n) (0 - joint_vel ls (move th d h) d ?n)))
          (at h)"
    unfolding line_error'_def [abs_def] tip_def by simp
  also have "- (glm_dot (joint_acc ls (move th d h) d ?n) (tgt - joint_pos ls (move th d h) ?n) +
             glm_dot (joint_vel ls (move th d h) d ?n) (0 - joint_vel ls (move th d h) d ?n))
        = line_error'' ls tgt th d h"
    by (simp add: line_error''_def tip_def glm_dot_diff_right)
  finally show ?thesis .
qed

text \<open>Second-order expansion of the error along a line.\<close>

lemma line_error_taylor:
  assumes "length d = length th" "0 < s"
  shows "\<exists>t. 0 < t \<and> t < s \<and>
           line_error ls tgt th d s =
             line_error ls tgt th d 0 + line_error' ls tgt th d 0 * s +
             line_error'' ls tgt th d t / 2 * s\<^sup>2"
proof -
  define diff where "diff m =
    (case m of 0 \<Rightarrow> line_error ls tgt th d | Suc 0 \<Rightarrow> line_error' ls tgt th d
     | Suc (Suc k) \<Rightarrow> line_error'' ls tgt th d)" for m :: nat
  have d0: "diff 0 = line_error ls tgt th d" and d1: "diff (Suc 0) = line_error' ls tgt th d"
    and d2: "diff (Suc (Suc 0)) = line_error'' ls tgt th d"
    by (simp_all add: diff_def)
  have "\<forall>m t. m < 2 \<and> 0 \<le> t \<and> t \<le> s \<longrightarrow> DERIV (diff m) t :> diff (Suc m) t"
    using DERIV_line_error [OF assms(1)] DERIV_line_error' [OF assms(1)]
    by (auto simp: less_Suc_eq numeral_2_eq_2 diff_def)
  from Maclaurin [OF assms(2) _ d0 this]
  obtain t where "0 < t" "t < s"
    and "line_error ls tgt th d s = (\<Sum>m<2. diff m 0 / fact m * s ^ m) + diff 2 t / fact 2 * s ^ 2"
    by auto
  then show ?thesis
    by (auto simp: d0 d1 d2 numeral_2_eq_2 intro!: exI [of _ t])
qed

subsection \<open>Bounds on the derivatives\<close>

lemma two_sum_mult_le:
  fixes f :: "nat \<Rightarrow> real"
  shows "2 * (\<Sum>i<m. f i) * x \<le> (\<Sum>i<m. (f i)\<^sup>2) + real m * x\<^sup>2"
proof (induction m)
  case 0
  then show ?case by simp
next
  case (Suc m)
  have "2 * f m * x \<le> (f m)\<^sup>2 + x\<^sup>2"
    using sum_squares_bound [of "f m" x] by (simp add: mult.assoc)
  with Suc show ?case by (simp add: algebra_simps)
qed

text \<open>The square of a sum of \<open>m\<close> numbers is at most \<open>m\<close> times the sum of their squares.\<close>

lemma sum_power2_le:
  fixes f :: "nat \<Rightarrow> real"
  shows "(\<Sum>i<m. f i)\<^sup>2 \<le> real m * (\<Sum>i<m. (f i)\<^sup>2)"
proof (induction m)
  case 0
  then show ?case by simp
next
  case (Suc m)
  have "(\<Sum>i<Suc m. f i)\<^sup>2 = (\<Sum>i<m. f i)\<^sup>2 + 2 * (\<Sum>i<m. f i) * f m + (f m)\<^sup>2"
    by (simp add: power2_sum)
  also have "\<dots> \<le> real m * (\<Sum>i<m. (f i)\<^sup>2) + ((\<Sum>i<m. (f i)\<^sup>2) + real m * (f m)\<^sup>2) + (f m)\<^sup>2"
    using Suc two_sum_mult_le [of f m "f m"] by simp
  also have "\<dots> = real (Suc m) * (\<Sum>i<Suc m. (f i)\<^sup>2)"
    by (simp add: algebra_simps)
  finally show ?case .
qed

lemma heading_sq_le:
  assumes "k < length d"
  shows "(heading d k)\<^sup>2 \<le> real (Suc k) * (\<Sum>i<length d. (d ! i)\<^sup>2)"
proof -
  have "(heading d k)\<^sup>2 \<le> real (Suc k) * (\<Sum>i<Suc k. (d ! i)\<^sup>2)"
    using assms sum_power2_le [of "\<lambda>i. d ! i" "Suc k"] by (simp add: heading_eq_sum)
  also have "(\<Sum>i<Suc k. (d ! i)\<^sup>2) \<le> (\<Sum>i<length d. (d ! i)\<^sup>2)"
    using assms by (intro sum_mono2) auto
  finally show ?thesis
    by (simp add: mult_left_mono)
qed

lemma glm_length_cross_bone_dir [simp]: "glm_length (glm_cross rotAxis (bone_dir a)) = 1"
  by (simp add: glm_length_def glm_dot_def glm_cross_def rotAxis_def flip: power2_eq_square)

lemma glm_length_uminus [simp]: "glm_length (- v) = glm_length v"
  using glm_length_scale [of "- 1" v] by simp

lemma glm_length_triangle_diff: "glm_length (a - b) \<le> glm_length a + glm_length b"
  using glm_length_triangle [of a "- b"] by simp

lemma glm_length_joint_vel:
  "glm_length (joint_vel ls th d n) \<le> (\<Sum>k<n. \<bar>ls ! k\<bar> * \<bar>heading d k\<bar>)"
proof (induction n)
  case 0
  then show ?case by simp
next
  case (Suc n)
  have "glm_length (joint_vel ls th d (Suc n)) \<le> glm_length (joint_vel ls th d n) +
      glm_length ((ls ! n * heading d n) *\<^sub>R glm_cross rotAxis (bone_dir (heading th n)))"
    by (simp add: glm_length_triangle)
  with Suc show ?case
    by (simp add: glm_length_scale abs_mult)
qed

lemma glm_length_joint_acc:
  "glm_length (joint_acc ls th d n) \<le> (\<Sum>k<n. \<bar>ls ! k\<bar> * (heading d k)\<^sup>2)"
proof (induction n)
  case 0
  then show ?case by simp
next
  case (Suc n)
  have "glm_length (joint_acc ls th d (Suc n)) \<le> glm_length (joint_acc ls th d n) +
      glm_length ((ls ! n * (heading d n)\<^sup>2) *\<^sub>R bone_dir (heading th n))"
    by (simp add: glm_length_triangle_diff)
  with Suc show ?case
    by (simp add: glm_length_scale abs_mult)
qed

definition sq_norm :: "float list \<Rightarrow> float" where
  "sq_norm d = (\<Sum>i<length d. (d ! i)\<^sup>2)"

definition stiffness :: "float list \<Rightarrow> nat \<Rightarrow> float" where
  "stiffness ls n = real n * (\<Sum>k<n. (ls ! k)\<^sup>2 * real (Suc k))"

definition bend :: "float list \<Rightarrow> nat \<Rightarrow> float" where
  "bend ls n = (\<Sum>k<n. \<bar>ls ! k\<bar> * real (Suc k))"

definition curvature_bound :: "float list \<Rightarrow> float \<Rightarrow> nat \<Rightarrow> float" where
  "curvature_bound ls T n = stiffness ls n + (T + reach ls n) * bend ls n"

lemma sq_norm_nonneg [simp]: "0 \<le> sq_norm d"
  by (simp add: sq_norm_def sum_nonneg)

lemma bend_nonneg [simp]: "0 \<le> bend ls n"
  by (simp add: bend_def sum_nonneg)

lemma stiffness_nonneg [simp]: "0 \<le> stiffness ls n"
  by (simp add: stiffness_def sum_nonneg)

lemma joint_vel_sq_le:
  assumes "n \<le> length d"
  shows "glm_dot (joint_vel ls th d n) (joint_vel ls th d n) \<le> stiffness ls n * sq_norm d"
proof -
  have "glm_dot (joint_vel ls th d n) (joint_vel ls th d n) = (glm_length (joint_vel ls th d n))\<^sup>2"
    by (simp add: glm_length_sq)
  also have "\<dots> \<le> (\<Sum>k<n. \<bar>ls ! k\<bar> * \<bar>heading d k\<bar>)\<^sup>2"
    by (intro power_mono glm_length_joint_vel) simp
  also have "\<dots> \<le> real n * (\<Sum>k<n. (\<bar>ls ! k\<bar> * \<bar>heading d k\<bar>)\<^sup>2)"
    by (rule sum_power2_le)
  also have "(\<Sum>k<n. (\<bar>ls ! k\<bar> * \<bar>heading d k\<bar>)\<^sup>2) \<le>
             (\<Sum>k<n. (ls ! k)\<^sup>2 * (real (Suc k) * sq_norm d))"
  proof (intro sum_mono)
    fix k assume "k \<in> {..<n}"
    with assms heading_sq_le [of k d] show
      "(\<bar>ls ! k\<bar> * \<bar>heading d k\<bar>)\<^sup>2 \<le> (ls ! k)\<^sup>2 * (real (Suc k) * sq_norm d)"
      by (simp add: power_mult_distrib mult_left_mono sq_norm_def)
  qed
  finally show ?thesis
    by (simp add: stiffness_def sum_distrib_right mult_left_mono mult.assoc)
qed

lemma joint_acc_le:
  assumes "n \<le> length d"
  shows "glm_length (joint_acc ls th d n) \<le> bend ls n * sq_norm d"
proof -
  have "glm_length (joint_acc ls th d n) \<le> (\<Sum>k<n. \<bar>ls ! k\<bar> * (heading d k)\<^sup>2)"
    by (rule glm_length_joint_acc)
  also have "\<dots> \<le> (\<Sum>k<n. \<bar>ls ! k\<bar> * (real (Suc k) * sq_norm d))"
  proof (intro sum_mono mult_left_mono)
    fix k assume "k \<in> {..<n}"
    with assms heading_sq_le [of k d] show "(heading d k)\<^sup>2 \<le> real (Suc k) * sq_norm d"
      by (simp add: sq_norm_def)
  qed simp
  finally show ?thesis
    by (simp add: bend_def sum_distrib_right mult.assoc)
qed

lemma error_vector_le:
  assumes "length th \<le> length ls" "glm_length tgt \<le> T"
  shows "glm_length (tgt - tip ls th) \<le> T + reach ls (length th)"
  using glm_length_triangle_diff [of tgt "tip ls th"] assms
    joint_pos_within_reach [of "length th" ls th]
  by (simp add: tip_def)

lemma line_error''_le:
  assumes "length d = length th" "length th \<le> length ls" "glm_length tgt \<le> T"
  shows "line_error'' ls tgt th d h \<le> curvature_bound ls T (length th) * sq_norm d"
proof -
  let ?n = "length th"
  let ?p = "move th d h"
  have 1: "glm_dot (joint_vel ls ?p d ?n) (joint_vel ls ?p d ?n) \<le> stiffness ls ?n * sq_norm d"
    using assms(1) by (intro joint_vel_sq_le) simp
  have "- glm_dot (joint_acc ls ?p d ?n) (tgt - tip ls ?p) =
        glm_dot (- joint_acc ls ?p d ?n) (tgt - tip ls ?p)"
    by simp
  also have "\<dots> \<le> glm_length (joint_acc ls ?p d ?n) * glm_length (tgt - tip ls ?p)"
    using glm_dot_le_length [of "- joint_acc ls ?p d ?n" "tgt - tip ls ?p"] by simp
  also have "\<dots> \<le> (bend ls ?n * sq_norm d) * (T + reach ls ?n)"
    using assms error_vector_le [of ?p ls tgt T]
    by (intro mult_mono joint_acc_le) simp_all
  finally have 2: "- glm_dot (joint_acc ls ?p d ?n) (tgt - tip ls ?p) \<le>
      (bend ls ?n * sq_norm d) * (T + reach ls ?n)" .
  from 1 2 show ?thesis
    by (simp add: line_error''_def curvature_bound_def algebra_simps)
qed

subsection \<open>A step along the negative gradient decreases the error\<close>

lemma line_error_0 [simp]: "line_error ls tgt th d 0 = half_sq_error ls tgt th"
  by (simp add: line_error_def)

lemma line_error'_0:
  "length d = length th \<Longrightarrow>
   line_error' ls tgt th d 0 = (\<Sum>i<length th. d ! i * partial_error ls tgt th i)"
  by (simp add: line_error'_def joint_vel_eq_jacobian glm_dot_sum_left partial_error_def tip_def
      sum_negf)

lemma line_error'_descent:
  "line_error' ls tgt th (descent_dir ls tgt th) 0 = - sq_norm (descent_dir ls tgt th)"
  by (simp add: line_error'_0 sq_norm_def power2_eq_square sum_negf)

lemma descent_step:
  assumes "length th \<le> length ls" "glm_length tgt \<le> T" "0 \<le> s"
    and "s * curvature_bound ls T (length th) \<le> 1"
  shows "half_sq_error ls tgt (move th (descent_dir ls tgt th) s) \<le>
         half_sq_error ls tgt th - s / 2 * sq_norm (descent_dir ls tgt th)"
proof (cases "s = 0")
  case True
  then show ?thesis by simp
next
  case False
  let ?g = "descent_dir ls tgt th"
  let ?G = "sq_norm ?g"
  let ?L = "curvature_bound ls T (length th)"
  from False assms(3) have "0 < s" by simp
  from line_error_taylor [OF _ this, of ?g th ls tgt]
  obtain t where t: "line_error ls tgt th ?g s =
      half_sq_error ls tgt th - ?G * s + line_error'' ls tgt th ?g t / 2 * s\<^sup>2"
    by (auto simp: line_error'_descent)
  have "line_error'' ls tgt th ?g t \<le> ?L * ?G"
    using assms(1,2) by (intro line_error''_le) simp_all
  then have "line_error'' ls tgt th ?g t / 2 * s\<^sup>2 \<le> ?L * ?G / 2 * s\<^sup>2"
    by (intro mult_right_mono divide_right_mono) simp_all
  also have "\<dots> = (s * ?L) * (?G * s / 2)"
    by (simp add: power2_eq_square)
  also have "\<dots> \<le> 1 * (?G * s / 2)"
    using assms(3,4) by (intro mult_right_mono) simp_all
  finally have "line_error'' ls tgt th ?g t / 2 * s\<^sup>2 \<le> s / 2 * ?G"
    by (simp add: mult.commute)
  moreover from t have "half_sq_error ls tgt (move th ?g s) =
      half_sq_error ls tgt th - 2 * (s / 2 * ?G) + line_error'' ls tgt th ?g t / 2 * s\<^sup>2"
    by (simp add: line_error_def mult.commute)
  ultimately show ?thesis by linarith
qed

subsection \<open>The program's chain and step size\<close>

lemma curvature_bound_lengths: "curvature_bound lengths 85 5 = 34103 / 2"
  by (simp add: curvature_bound_def stiffness_def bend_def reach_def lengths_def eval_nat_numeral)

lemma step_small_enough: "step * curvature_bound lengths 85 5 \<le> 1"
  by (simp add: curvature_bound_lengths step_def)

lemma frame_step_sq_norm:
  assumes "length (theta s) = 5"
    and "theta (frame inp s) = move (theta s) g step" "length g = 5"
  shows "(\<Sum>i<numBones. ((theta (frame inp s) ! i - theta s ! i) / step)\<^sup>2) = sq_norm g"
  unfolding assms(2) sq_norm_def
  by (rule sum.cong) (simp_all add: assms(1,3) numBones_def step_def)

lemma frame_error_step:
  assumes "wf_state s" "wf_input inp" "glm_length (frame_target inp s) \<le> 85"
  shows "half_sq_error lengths (frame_target inp s) (theta (frame inp s)) \<le>
         half_sq_error lengths (frame_target inp s) (theta s) -
         step / 2 * (\<Sum>i<numBones. ((theta (frame inp s) ! i - theta s ! i) / step)\<^sup>2)"
proof (cases "threshold < glm_length (tip lengths (theta s) - frame_target inp s)")
  case True
  let ?g = "descent_dir lengths (frame_target inp s) (theta s)"
  have len: "length (theta s) = 5" using assms(1) by (rule wf_stateD)
  from True assms have eq: "theta (frame inp s) = move (theta s) ?g step"
    by (simp add: theta_frame frame_spec_eq_move len)
  have "half_sq_error lengths (frame_target inp s) (move (theta s) ?g step) \<le>
        half_sq_error lengths (frame_target inp s) (theta s) - step / 2 * sq_norm ?g"
    using assms(3) step_small_enough
    by (intro descent_step) (simp_all add: len wf_lengths_length step_pos less_imp_le)
  then show ?thesis
    using frame_step_sq_norm [OF len eq] by (simp add: len flip: eq)
next
  case False
  with assms have "theta (frame inp s) = theta s"
    by (simp add: theta_frame frame_spec_eq_move wf_stateD)
  then show ?thesis by simp
qed

lemma frame_error_le:
  assumes "wf_state s" "wf_input inp" "glm_length (frame_target inp s) \<le> 85"
  shows "half_sq_error lengths (frame_target inp s) (theta (frame inp s)) \<le>
         half_sq_error lengths (frame_target inp s) (theta s)"
proof -
  have "0 \<le> step / 2 * (\<Sum>i<numBones. ((theta (frame inp s) ! i - theta s ! i) / step)\<^sup>2)"
    by (intro mult_nonneg_nonneg sum_nonneg) (simp_all add: step_def)
  with frame_error_step [OF assms] show ?thesis by linarith
qed

lemma run_error_le:
  assumes "wf_state s" "list_all (\<lambda>inp. wf_input inp \<and> \<not> mouse_pressed inp) inps"
    and "glm_length (target s) \<le> 85"
  shows "target (run inps s) = target s \<and>
         half_sq_error lengths (target s) (theta (run inps s)) \<le>
         half_sq_error lengths (target s) (theta s)"
  using assms
proof (induction inps arbitrary: s)
  case Nil
  then show ?case by simp
next
  case (Cons inp inps)
  then have step: "half_sq_error lengths (target s) (theta (frame inp s)) \<le>
      half_sq_error lengths (target s) (theta s)"
    using frame_error_le [of s inp] by simp
  show ?case
  proof (cases "keep_running inp")
    case True
    with Cons.prems Cons.IH [of "frame inp s"] step show ?thesis by simp
  next
    case False
    with Cons.prems step show ?thesis by simp
  qed
qed

lemma half_sq_error_eq: "half_sq_error ls tgt th = (glm_length (tip ls th - tgt))\<^sup>2 / 2"
  by (simp add: half_sq_error_def glm_length_sq glm_length_minus [of "tip ls th" tgt])

lemma glm_length_le_iff_half_sq:
  "glm_length (tip ls th - tgt) \<le> glm_length (tip ls th' - tgt) \<longleftrightarrow>
   half_sq_error ls tgt th \<le> half_sq_error ls tgt th'"
  by (simp add: half_sq_error_eq)

text \<open>The first frame after a click at the middle of the top edge, evaluated.\<close>

lemma first_click_near: "glm_length (target (frame (click 512 0) init_state)) \<le> 85"
  by (simp add: glm_length_le_iff glm_dot_def)

lemma half_sq_error_first_click:
  "half_sq_error lengths (Vec3 0 60 0) [0, 0, 0, 0, 0] = 5121 / 2"
  using joint_pos_init_state(2)
  by (simp add: half_sq_error_def tip_def glm_dot_def eval_nat_numeral del: joint_pos.simps)

lemma first_click_increments:
  "(\<Sum>i<numBones. ((theta (frame (click 512 0) init_state) ! i - theta init_state ! i) / step)\<^sup>2) =
   10654200"
  by (simp add: theta_frame frame_spec_first_click numBones_def step_def eval_nat_numeral)

subsection \<open>Properties\<close>

text \<open>
  C5. A frame never increases the error. For a target within 85 units of the base of
  the chain, which covers every point the window shows, the half squared distance
  between target and end effector at the angles after the frame is at most its value
  at the angles before the frame, less \<open>step / 2\<close> times the sum of the squares of the
  angle increments divided by \<open>step\<close>. The step size of the program is small enough
  for its chain: the decrease is guaranteed, not only first-order.
\<close>

theorem frame_decreases_error:
  assumes "wf_state s" "wf_input inp" "glm_length (target (frame inp s)) \<le> 85"
  shows "half_sq_error lengths (target (frame inp s)) (theta (frame inp s)) \<le>
         half_sq_error lengths (target (frame inp s)) (theta s) -
         step / 2 * (\<Sum>i<numBones. ((theta (frame inp s) ! i - theta s ! i) / step)\<^sup>2)"
  using assms frame_error_step [of s inp] by simp

theorem frame_decreases_error_witness:
  "wf_state init_state \<and> wf_input (click 512 0) \<and>
   glm_length (target (frame (click 512 0) init_state)) \<le> 85 \<and>
   half_sq_error lengths (Vec3 0 60 0) [117 / 5000, 12 / 625, 111 / 10000, 9 / 2000, 3 / 1250] \<le>
     5121 / 2 - 53271 / 1000"
  using frame_decreases_error [OF _ _ first_click_near, unfolded first_click_increments]
    first_click_near
  by (simp add: half_sq_error_first_click theta_frame frame_spec_first_click step_def)

text \<open>
  C18. The distance to the target never grows from one frame to the next. If the target
  is within 85 units of the base and the next frame has no click, the distance between
  the end effector and the target that the next frame computes is at most the distance
  this frame computed.
\<close>

theorem distance_never_increases:
  assumes "wf_state s" "wf_input inp" "wf_input inp'" "\<not> mouse_pressed inp'"
    and "glm_length (target (frame inp s)) \<le> 85"
  shows "glm_length (endEffect (frame inp' (frame inp s)) - target (frame inp' (frame inp s))) \<le>
         glm_length (endEffect (frame inp s) - target (frame inp s))"
  using assms frame_error_le [of s inp]
  by (simp add: endEffect_frame wf_stateD half_sq_error_eq tip_def)

theorem distance_never_increases_witness:
  "wf_state init_state \<and> wf_input (click 512 0) \<and> wf_input idle \<and> \<not> mouse_pressed idle \<and>
   glm_length (target (frame (click 512 0) init_state)) \<le> 85 \<and>
   glm_length (endEffect (frame idle (frame (click 512 0) init_state)) - Vec3 0 60 0) \<le>
     glm_length (Vec3 39 0 0 - Vec3 0 60 0)"
  using distance_never_increases [OF _ _ _ _ first_click_near, of idle] first_click_near
  by (simp add: endEffect_frame joint_pos_init_state del: joint_pos.simps)

text \<open>
  C19. The solver does not diverge. From any well-formed state with a target within 85
  units of the base, reachable or not, after any number of frames without a click the
  target is unchanged and the error is at most what it was at the start.
\<close>

theorem error_never_increases:
  assumes "wf_state s" "list_all (\<lambda>inp. wf_input inp \<and> \<not> mouse_pressed inp) inps"
    and "glm_length (target s) \<le> 85"
  shows "target (run inps s) = target s \<and>
         half_sq_error lengths (target s) (theta (run inps s)) \<le>
         half_sq_error lengths (target s) (theta s)"
  using assms by (rule run_error_le)

theorem error_never_increases_witness:
  "wf_state (frame (click 512 0) init_state) \<and>
   list_all (\<lambda>inp. wf_input inp \<and> \<not> mouse_pressed inp) [idle, idle, idle] \<and>
   glm_length (target (frame (click 512 0) init_state)) \<le> 85 \<and>
   half_sq_error lengths (Vec3 0 60 0)
     (theta (frame idle (frame idle (frame idle (frame (click 512 0) init_state))))) \<le>
   half_sq_error lengths (Vec3 0 60 0) [117 / 5000, 12 / 625, 111 / 10000, 9 / 2000, 3 / 1250]"
  using error_never_increases [OF _ _ first_click_near, of "[idle, idle, idle]"] first_click_near
  by (simp add: theta_frame frame_spec_first_click keep_running_def)

end
