(* ===== verification/Convergence.thy ===== *)
theory Convergence
  imports Descent
begin

text \<open>
  What repeated frames achieve, for \<open>src/IKTest.cpp\<close> with a target that stays where it
  is.

  \<^item> \<open>step_sq inp s\<close> is the squared length of the gradient the frame uses, read off the
    angles before and after the frame.
  \<^item> A frame leaves the angles unchanged exactly when the end effector is within the
    threshold of the target or the pose is a stationary point of the error: every
    lever arm is parallel to the error vector.
  \<^item> Otherwise it strictly decreases the error.
  \<^item> Over any \<open>N\<close> frames the squared gradients add up to at most \<open>2 / step\<close> times the
    initial error, so among them is a frame whose squared gradient is at most
    \<open>2 * error / (step * N)\<close>: the poses approach a stationary point, at the rate of
    gradient descent. Whether that stationary point is the target depends on the
    start; theory \<open>Spec2Isabelle\<close> has an example where it is not.
\<close>

definition step_sq :: "frame_input \<Rightarrow> ik_state \<Rightarrow> float" where
  "step_sq inp s = (\<Sum>i<numBones. ((theta (frame inp s) ! i - theta s ! i) / step)\<^sup>2)"

definition frames :: "nat \<Rightarrow> frame_input \<Rightarrow> ik_state \<Rightarrow> ik_state" where
  "frames k inp s = ((frame inp) ^^ k) s"

lemma frames_0 [simp]: "frames 0 inp s = s"
  by (simp add: frames_def)

lemma frames_Suc [simp]: "frames (Suc k) inp s = frame inp (frames k inp s)"
  by (simp add: frames_def)

lemma frames_eq_run: "keep_running inp \<Longrightarrow> frames k inp s = run (replicate k inp) s"
proof (induction k arbitrary: s)
  case 0
  then show ?case by simp
next
  case (Suc k)
  have "run (replicate (Suc k) inp) s = run (replicate k inp @ [inp]) s"
    by (simp add: replicate_append_same)
  also have "\<dots> = frame inp (run (replicate k inp) s)"
    using Suc.prems by (simp add: run_snoc list_all_length)
  finally show ?case
    using Suc by simp
qed

lemma wf_state_frames [simp, ik_wf]: "wf_state (frames k inp s) = wf_state s"
  by (induction k) simp_all

lemma target_frames [simp]: "\<not> mouse_pressed inp \<Longrightarrow> target (frames k inp s) = target s"
  by (induction k) simp_all

lemma step_sq_nonneg [simp]: "0 \<le> step_sq inp s"
  by (simp add: step_sq_def sum_nonneg)

lemma half_sq_error_nonneg [simp]: "0 \<le> half_sq_error ls tgt th"
  by (simp add: half_sq_error_def)

lemma step_sq_eq_0_iff:
  assumes "wf_state s"
  shows "step_sq inp s = 0 \<longleftrightarrow> theta (frame inp s) = theta s"
proof -
  have "step_sq inp s = 0 \<longleftrightarrow> (\<forall>i<numBones. theta (frame inp s) ! i = theta s ! i)"
    by (auto simp: step_sq_def sum_nonneg_eq_0_iff step_def)
  also have "\<dots> \<longleftrightarrow> theta (frame inp s) = theta s"
    using assms by (simp add: list_eq_iff_nth_eq wf_stateD numBones_def)
  finally show ?thesis .
qed

text \<open>The errors before and after \<open>N\<close> frames and the squared gradients in between.\<close>

lemma frames_error_sum:
  assumes "wf_state s" "wf_input inp" "\<not> mouse_pressed inp" "glm_length (target s) \<le> 85"
  shows "half_sq_error lengths (target s) (theta (frames N inp s)) +
           step / 2 * (\<Sum>k<N. step_sq inp (frames k inp s)) \<le>
         half_sq_error lengths (target s) (theta s)"
proof (induction N)
  case 0
  then show ?case by simp
next
  case (Suc N)
  have "half_sq_error lengths (target s) (theta (frames (Suc N) inp s)) \<le>
        half_sq_error lengths (target s) (theta (frames N inp s)) -
        step / 2 * step_sq inp (frames N inp s)"
    using assms frame_error_step [of "frames N inp s" inp] by (simp add: step_sq_def)
  with Suc show ?case
    by (simp add: algebra_simps)
qed

lemma planar_cross_eq_0_iff:
  "vz a = 0 \<Longrightarrow> vz b = 0 \<Longrightarrow> glm_cross a b = 0 \<longleftrightarrow> vz (glm_cross a b) = 0"
  by (simp add: vec3_eq_iff glm_cross_def zero_vec3_def)

lemma frame_spec_fixed_iff:
  assumes "length th = 5" "vz tgt = 0"
  shows "frame_spec ls tgt th = th \<longleftrightarrow>
         glm_length (joint_pos ls th 5 - tgt) \<le> threshold \<or>
         (\<forall>i<5. glm_cross (joint_pos ls th 5 - joint_pos ls th i) (tgt - joint_pos ls th 5) = 0)"
proof (cases "glm_length (joint_pos ls th 5 - tgt) \<le> threshold")
  case True
  then show ?thesis by (simp add: frame_spec_def)
next
  case False
  have "jt_step tgt (joint_pos ls th 5) (map (joint_pos ls th) [0..<5]) th = th \<longleftrightarrow>
        (\<forall>i<5. glm_dot (jacobian_col (joint_pos ls th 5) (joint_pos ls th i))
                   (tgt - joint_pos ls th 5) = 0)"
    using assms(1) by (simp add: list_eq_iff_nth_eq nth_jt_step step_def del: upt_Suc)
  also have "\<dots> \<longleftrightarrow>
        (\<forall>i<5. glm_cross (joint_pos ls th 5 - joint_pos ls th i) (tgt - joint_pos ls th 5) = 0)"
    using assms(2) by (simp add: dtheta_eq_torque planar_cross_eq_0_iff)
  finally show ?thesis
    using False by (simp add: frame_spec_def Let_def del: upt_Suc)
qed

text \<open>The state \<open>rest_aim\<close>: the rest pose aimed at \<open>(0, 60)\<close>, evaluated.\<close>

lemma wf_state_rest_aim [simp]: "wf_state rest_aim"
  by (simp add: wf_state_def numBones_def)

lemma rest_aim_near: "glm_length (target rest_aim) \<le> 85"
  by (simp add: glm_length_le_iff glm_dot_def)

lemma step_sq_rest_aim: "step_sq idle rest_aim = 10654200"
  by (simp add: step_sq_def theta_frame frame_spec_first_click numBones_def step_def
      eval_nat_numeral)

subsection \<open>Properties\<close>

text \<open>
  C16. Fixed points of the frame. A frame leaves the joint angles as they are exactly when
  the end effector is within the threshold of the target, or every lever arm, from a
  joint to the end effector, is parallel to the error vector from the end effector to
  the target.
\<close>

theorem frame_fixed_iff:
  assumes "wf_state s" "wf_input inp"
  shows "theta (frame inp s) = theta s \<longleftrightarrow>
         glm_length (endEffect (frame inp s) - target (frame inp s)) \<le> threshold \<or>
         (\<forall>i<numBones. glm_cross (endEffect (frame inp s) - positions (frame inp s) ! i)
                            (target (frame inp s) - endEffect (frame inp s)) = 0)"
  using assms frame_spec_fixed_iff [of "theta s" "frame_target inp s" lengths]
  by (simp add: theta_frame endEffect_frame positions_frame wf_stateD numBones_def del: upt_Suc)

theorem frame_fixed_iff_witness:
  "wf_state init_state \<and> wf_input (click 768 384) \<and>
   theta (frame (click 768 384) init_state) = theta init_state \<and>
   \<not> glm_length (endEffect (frame (click 768 384) init_state) -
                   target (frame (click 768 384) init_state)) \<le> threshold \<and>
   glm_cross (endEffect (frame (click 768 384) init_state) -
              positions (frame (click 768 384) init_state) ! 1)
             (target (frame (click 768 384) init_state) -
              endEffect (frame (click 768 384) init_state)) = 0"
  using frame_fixed_iff [of init_state "click 768 384"] joint_pos_init_state
  by (simp add: endEffect_frame positions_frame numBones_def threshold_ge_iff glm_dot_def
      glm_cross_def zero_vec3_def less_Suc_eq eval_nat_numeral del: joint_pos.simps)

text \<open>
  C17. A frame that moves the chain brings the end effector closer. For a target within
  85 units of the base, if a frame changes any joint angle then the error at the new
  angles is strictly smaller than at the old ones.
\<close>

theorem frame_strictly_decreases:
  assumes "wf_state s" "wf_input inp" "glm_length (target (frame inp s)) \<le> 85"
    and "theta (frame inp s) \<noteq> theta s"
  shows "half_sq_error lengths (target (frame inp s)) (theta (frame inp s)) <
         half_sq_error lengths (target (frame inp s)) (theta s)"
proof -
  have "0 < step_sq inp s"
    using assms(1,4) step_sq_eq_0_iff [of s inp] step_sq_nonneg [of inp s] by linarith
  then have "0 < step / 2 * step_sq inp s"
    by (simp add: step_def)
  with frame_error_step [of s inp] assms(1-3) show ?thesis
    by (simp add: step_sq_def)
qed

theorem frame_strictly_decreases_witness:
  "wf_state init_state \<and> wf_input (click 512 0) \<and>
   glm_length (target (frame (click 512 0) init_state)) \<le> 85 \<and>
   theta (frame (click 512 0) init_state) \<noteq> theta init_state \<and>
   half_sq_error lengths (Vec3 0 60 0) [117 / 5000, 12 / 625, 111 / 10000, 9 / 2000, 3 / 1250] <
     5121 / 2"
  using frame_strictly_decreases [OF _ _ first_click_near] first_click_near
  by (simp add: half_sq_error_first_click theta_frame frame_spec_first_click)

text \<open>
  C6. Repeated frames approach a stationary pose. With the target fixed within 85 units
  of the base, over any \<open>N\<close> frames without a click the squared gradients the frames
  use add up to at most \<open>2 / step\<close> times the error at the start; so among any
  \<open>N > 0\<close> frames there is one whose squared gradient is at most
  \<open>2 * error / (step * N)\<close>.
\<close>

theorem frames_approach_stationary:
  assumes "wf_state s" "wf_input inp" "\<not> mouse_pressed inp" "glm_length (target s) \<le> 85"
  shows "(\<Sum>k<N. step_sq inp (frames k inp s)) \<le>
           2 / step * half_sq_error lengths (target s) (theta s) \<and>
         (0 < N \<longrightarrow> (\<exists>k<N. step_sq inp (frames k inp s) \<le>
           2 * half_sq_error lengths (target s) (theta s) / (step * real N)))"
proof -
  let ?E = "half_sq_error lengths (target s) (theta s)"
  let ?S = "\<Sum>k<N. step_sq inp (frames k inp s)"
  have "step / 2 * ?S \<le> ?E"
    using frames_error_sum [OF assms, of N]
      half_sq_error_nonneg [of lengths "target s" "theta (frames N inp s)"] by linarith
  then have sum: "?S \<le> 2 / step * ?E"
    by (simp add: step_def field_simps)
  have "\<exists>k<N. step_sq inp (frames k inp s) \<le> 2 * ?E / (step * real N)" if "0 < N"
  proof (rule ccontr)
    assume "\<not> ?thesis"
    then have "\<And>k. k < N \<Longrightarrow> 2 * ?E / (step * real N) < step_sq inp (frames k inp s)"
      by (simp add: not_le)
    then have "(\<Sum>k<N. 2 * ?E / (step * real N)) < ?S"
      using that by (intro sum_strict_mono) auto
    with sum that show False
      by (simp add: step_def field_simps)
  qed
  with sum show ?thesis by simp
qed

theorem frames_approach_stationary_witness:
  "wf_state rest_aim \<and> wf_input idle \<and> \<not> mouse_pressed idle \<and>
   glm_length (target rest_aim) \<le> 85 \<and>
   step_sq idle (frames 0 idle rest_aim) = 10654200 \<and>
   (\<Sum>k<1. step_sq idle (frames k idle rest_aim)) \<le> 2 / step * (5121 / 2)"
  using frames_approach_stationary [OF _ _ _ rest_aim_near, of idle 1] rest_aim_near
  by (simp add: step_sq_rest_aim half_sq_error_first_click)

end
