(* ===== verification/Program.thy ===== *)
theory Program
  imports Frame "HOL-Library.Stream"
begin

text \<open>
  The function \<open>main\<close> of \<open>src/IKTest.cpp\<close> as a whole: initialisation with its three
  failure exits (lines 25-55), the do-while loop over an unbounded stream of per-frame
  inputs (lines 158-360), and the exit after the loop (lines 362-371).

  \<^item> \<open>platform\<close> records whether \<open>glfwInit\<close>, \<open>glfwCreateWindow\<close> and \<open>glewInit\<close>
    succeed; \<open>initialise\<close> returns the first failure as an \<open>init_error\<close>, and
    \<open>init_failure\<close> is what \<open>main\<close> does then: the message on \<open>stderr\<close>,
    \<open>glfwTerminate\<close> unless GLFW itself failed, and the return value -1. The
    \<open>getchar\<close> that waits for a key before returning is not modelled.
  \<^item> \<open>main_loop\<close> is the do-while loop as a partial function on streams: it returns
    \<open>None\<close> when the loop never ends. \<open>first_stop inps n\<close> says that frame \<open>n\<close> is the first
    in which the escape key or the close flag is seen; \<open>main_loop_first_stop\<close> relates
    the loop to \<open>run\<close> on the first \<open>n + 1\<close> inputs.
  \<^item> \<open>main\<close> composes the two; its result is an \<open>outcome\<close> (exit code, message,
    whether GLFW was shut down, final state), or \<open>None\<close> if it does not return.
\<close>

subsection \<open>Initialisation\<close>

datatype init_error = Glfw_Init_Failed | Window_Open_Failed | Glew_Init_Failed

record platform =
  glfw_init_ok :: bool
  window_opened :: bool
  glew_init_ok :: bool

record outcome =
  exit_code :: int
  init_message :: "string option"
  glfw_terminated :: bool
  final_state :: "ik_state option"

definition initialise :: "platform \<Rightarrow> init_error + unit" where
  "initialise p =
     (if \<not> glfw_init_ok p then Inl Glfw_Init_Failed
      else if \<not> window_opened p then Inl Window_Open_Failed
      else if \<not> glew_init_ok p then Inl Glew_Init_Failed
      else Inr ())"

fun error_message :: "init_error \<Rightarrow> string" where
  "error_message Glfw_Init_Failed = ''Failed to initialize GLFW\<newline>''"
| "error_message Window_Open_Failed =
     ''Failed to open GLFW window. If you have an Intel GPU, they are not 3.3 compatible. Try the 2.1 version of the tutorials.\<newline>''"
| "error_message Glew_Init_Failed = ''Failed to initialize GLEW\<newline>''"

definition init_failure :: "init_error \<Rightarrow> outcome" where
  "init_failure e =
     \<lparr>exit_code = - 1, init_message = Some (error_message e),
      glfw_terminated = (e \<noteq> Glfw_Init_Failed), final_state = None\<rparr>"

subsection \<open>The frame loop over an unbounded stream of inputs\<close>

partial_function (option) main_loop :: "frame_input stream \<Rightarrow> ik_state \<Rightarrow> ik_state option" where
  "main_loop inps s =
     (if keep_running (shd inps) then main_loop (stl inps) (frame (shd inps) s)
      else Some (frame (shd inps) s))"

definition normal_exit :: "ik_state \<Rightarrow> outcome" where
  "normal_exit s =
     \<lparr>exit_code = 0, init_message = None, glfw_terminated = True, final_state = Some s\<rparr>"

definition main :: "platform \<Rightarrow> frame_input stream \<Rightarrow> outcome option" where
  "main p inps =
     (case initialise p of
        Inl e \<Rightarrow> Some (init_failure e)
      | Inr _ \<Rightarrow> map_option normal_exit (main_loop inps init_state))"

definition first_stop :: "frame_input stream \<Rightarrow> nat \<Rightarrow> bool" where
  "first_stop inps n \<longleftrightarrow> \<not> keep_running (inps !! n) \<and> (\<forall>k<n. keep_running (inps !! k))"

lemma first_stop_0 [simp]: "first_stop inps 0 \<longleftrightarrow> \<not> keep_running (shd inps)"
  by (simp add: first_stop_def)

lemma first_stop_Suc:
  "first_stop inps (Suc n) \<longleftrightarrow> keep_running (shd inps) \<and> first_stop (stl inps) n"
  by (auto simp: first_stop_def less_Suc_eq_0_disj)

lemma first_stop_unique: "first_stop inps m \<Longrightarrow> first_stop inps n \<Longrightarrow> m = n"
  by (metis first_stop_def linorder_neqE_nat)

lemma ex_first_stop: "\<not> keep_running (inps !! n) \<Longrightarrow> \<exists>m\<le>n. first_stop inps m"
proof (induction n rule: less_induct)
  case (less n)
  show ?case
  proof (cases "\<forall>k<n. keep_running (inps !! k)")
    case True
    with less.prems show ?thesis by (auto simp: first_stop_def)
  next
    case False
    then obtain k where "k < n" "\<not> keep_running (inps !! k)" by auto
    with less.IH [of k] show ?thesis by (meson le_trans less_imp_le)
  qed
qed

text \<open>The loop over a stream that stops first at frame \<open>n\<close> is the loop over its first
  \<open>n + 1\<close> inputs.\<close>

lemma main_loop_first_stop:
  "first_stop inps n \<Longrightarrow> main_loop inps s = Some (run (stake (Suc n) inps) s)"
proof (induction n arbitrary: inps s)
  case 0
  then show ?case by (subst main_loop.simps) simp
next
  case (Suc n)
  then have "keep_running (shd inps)" "first_stop (stl inps) n"
    by (simp_all add: first_stop_Suc)
  with Suc.IH [of "stl inps" "frame (shd inps) s"] show ?case
    by (subst main_loop.simps) simp
qed

lemma main_loop_SomeD:
  assumes "main_loop inps s = Some t"
  shows "\<exists>n. first_stop inps n"
proof (rule main_loop.raw_induct [where P = "\<lambda>inps s t. \<exists>n. first_stop inps n", OF _ assms])
  fix loop inps s t
  assume IH: "\<And>inps s t. loop inps s = Some t \<Longrightarrow> \<exists>n. first_stop inps n"
    and unfolded: "(if keep_running (shd inps) then loop (stl inps) (frame (shd inps) s)
                    else Some (frame (shd inps) s)) = Some t"
  show "\<exists>n. first_stop inps n"
  proof (cases "keep_running (shd inps)")
    case True
    with unfolded have "loop (stl inps) (frame (shd inps) s) = Some t" by simp
    from IH [OF this] obtain n where "first_stop (stl inps) n" ..
    with True have "first_stop inps (Suc n)" by (simp add: first_stop_Suc)
    then show ?thesis ..
  next
    case False
    then have "first_stop inps 0" by simp
    then show ?thesis ..
  qed
qed

lemma main_loop_None_iff: "main_loop inps s = None \<longleftrightarrow> (\<forall>n. keep_running (inps !! n))"
proof
  assume "main_loop inps s = None"
  show "\<forall>n. keep_running (inps !! n)"
  proof (rule ccontr)
    assume "\<not> (\<forall>n. keep_running (inps !! n))"
    then obtain n where "\<not> keep_running (inps !! n)" by auto
    then obtain m where "first_stop inps m" using ex_first_stop by blast
    with \<open>main_loop inps s = None\<close> show False by (simp add: main_loop_first_stop)
  qed
next
  assume all: "\<forall>n. keep_running (inps !! n)"
  show "main_loop inps s = None"
  proof (cases "main_loop inps s")
    case (Some t)
    then obtain n where "first_stop inps n" using main_loop_SomeD by blast
    with all show ?thesis by (simp add: first_stop_def)
  qed simp
qed

lemma list_all_stake: "(\<And>n. P (inps !! n)) \<Longrightarrow> list_all P (stake k inps)"
proof (induction k arbitrary: inps)
  case 0
  then show ?case by simp
next
  case (Suc k)
  have "P (shd inps)" using Suc.prems [of 0] by simp
  moreover have "list_all P (stake k (stl inps))"
    using Suc.prems [of "Suc _"] by (intro Suc.IH) simp
  ultimately show ?case by simp
qed

lemma main_loop_reachable:
  assumes "reachable s" "\<And>n. wf_input (inps !! n)" "main_loop inps s = Some t"
  shows "reachable t"
proof -
  from assms(3) obtain n where "first_stop inps n"
    using main_loop_SomeD by blast
  with assms(3) have "t = run (stake (Suc n) inps) s"
    by (simp add: main_loop_first_stop)
  with assms(1,2) show ?thesis
    using reachable_run [OF assms(1) list_all_stake [of wf_input inps "Suc n"]] by simp
qed

lemma initialise_Inr_iff [simp]:
  "initialise p = Inr u \<longleftrightarrow> glfw_init_ok p \<and> window_opened p \<and> glew_init_ok p"
  by (simp add: initialise_def)

lemma initialise_Inl_iff:
  "initialise p = Inl e \<longleftrightarrow>
     (e = Glfw_Init_Failed \<and> \<not> glfw_init_ok p) \<or>
     (e = Window_Open_Failed \<and> glfw_init_ok p \<and> \<not> window_opened p) \<or>
     (e = Glew_Init_Failed \<and> glfw_init_ok p \<and> window_opened p \<and> \<not> glew_init_ok p)"
  by (auto simp: initialise_def)

lemma main_initialised:
  "glfw_init_ok p \<Longrightarrow> window_opened p \<Longrightarrow> glew_init_ok p \<Longrightarrow>
   main p inps = map_option normal_exit (main_loop inps init_state)"
  by (simp add: main_def initialise_def)

lemma init_failure_sel [simp]:
  "exit_code (init_failure e) = - 1" "init_message (init_failure e) = Some (error_message e)"
  "glfw_terminated (init_failure e) \<longleftrightarrow> e \<noteq> Glfw_Init_Failed"
  "final_state (init_failure e) = None"
  by (simp_all add: init_failure_def)

lemma normal_exit_sel [simp]:
  "exit_code (normal_exit s) = 0" "init_message (normal_exit s) = None"
  "glfw_terminated (normal_exit s)" "final_state (normal_exit s) = Some s"
  by (simp_all add: normal_exit_def)

subsection \<open>A session for the examples\<close>

definition quit :: frame_input where
  "quit = idle\<lparr>esc_pressed := True\<rparr>"

definition session :: "frame_input stream" where
  "session = click 512 0 ## idle ## sconst quit"

definition working_platform :: platform where
  "working_platform = \<lparr>glfw_init_ok = True, window_opened = True, glew_init_ok = True\<rparr>"

definition no_window :: platform where
  "no_window = \<lparr>glfw_init_ok = True, window_opened = False, glew_init_ok = True\<rparr>"

lemma quit_sel [simp]: "\<not> keep_running quit" "wf_input quit" "\<not> mouse_pressed quit"
  by (simp_all add: quit_def keep_running_def wf_input_def idle_def)

lemma keep_running_idle_click [simp]: "keep_running idle" "keep_running (click x y)"
  by (simp_all add: keep_running_def idle_def click_def)

lemma session_snth:
  "session !! n = (case n of 0 \<Rightarrow> click 512 0 | Suc 0 \<Rightarrow> idle | Suc (Suc k) \<Rightarrow> quit)"
  by (simp add: session_def split: nat.splits)

lemma keep_running_session [simp]: "keep_running (session !! n) \<longleftrightarrow> n < 2"
  by (auto simp: session_snth split: nat.splits)

lemma first_stop_session: "first_stop session m \<longleftrightarrow> m = 2"
proof -
  have "first_stop session 2" by (simp add: first_stop_def)
  then show ?thesis by (auto dest: first_stop_unique)
qed

lemma wf_input_session: "wf_input (session !! n)"
  by (simp add: session_snth split: nat.splits)

lemma session_sel: "shd session = click 512 0" "stl session = idle ## sconst quit"
  by (simp_all add: session_def)

subsection \<open>Properties of the program\<close>

text \<open>
  C12. Termination of the frame loop. If the escape key or the close flag is seen in
  some frame, the loop ends at the first such frame, and its result is the run over the
  inputs up to and including that frame.
\<close>

theorem main_loop_terminates:
  assumes "\<not> keep_running (inps !! n)"
  shows "\<exists>m\<le>n. first_stop inps m \<and> main_loop inps s = Some (run (stake (Suc m) inps) s)"
  using ex_first_stop [OF assms] main_loop_first_stop by blast

theorem main_loop_terminates_witness:
  "\<not> keep_running (session !! 5) \<and>
   main_loop session init_state = Some (run [click 512 0, idle, quit] init_state)"
  using main_loop_terminates [of session 5 init_state]
  by (simp add: first_stop_session session_sel numeral_2_eq_2)

text \<open>
  C13. The frame loop runs for ever exactly when neither the escape key nor the close
  flag is ever seen.
\<close>

theorem main_loop_diverges_iff:
  "main_loop inps s = None \<longleftrightarrow> (\<forall>n. keep_running (inps !! n))"
  by (rule main_loop_None_iff)

text \<open>
  C14. Initialisation errors. If GLFW, the window or GLEW fails to initialise, \<open>main\<close>
  returns -1 with the message of the first step that failed, whatever the inputs are;
  no frame is run, and GLFW is shut down unless it was GLFW itself that failed.
\<close>

theorem main_fails_fast:
  assumes "\<not> glfw_init_ok p \<or> \<not> window_opened p \<or> \<not> glew_init_ok p"
  shows "\<exists>out e. main p inps = Some out \<and> initialise p = Inl e \<and>
           exit_code out = - 1 \<and> init_message out = Some (error_message e) \<and>
           final_state out = None \<and> (glfw_terminated out \<longleftrightarrow> glfw_init_ok p)"
  using assms by (auto simp: main_def initialise_def)

theorem main_fails_fast_witness:
  "\<not> window_opened no_window \<and>
   main no_window session = Some (init_failure Window_Open_Failed) \<and>
   exit_code (init_failure Window_Open_Failed) = - 1 \<and>
   glfw_terminated (init_failure Window_Open_Failed)"
  using main_fails_fast [of no_window session]
  by (auto simp: no_window_def main_def initialise_def)

end
