(* ===== verification/Spec2Isabelle.thy ===== *)
theory Spec2Isabelle
  imports Convergence Program
begin

text \<open>
  \<^bold>\<open>A verification development for the planar inverse-kinematics demo
  \<open>src/IKTest.cpp\<close>.\<close>

  The program is one function, \<open>main\<close>: it opens a window, sets up a camera and one
  mesh, and then runs a frame loop. Each frame reads the mouse (a click sets the
  target), draws the target marker, walks the five-bone chain composing one model
  matrix per bone (forward kinematics, recording each joint's position and drawing the
  bone), computes the end effector, and applies one Jacobian-transpose step to the
  joint angles \<open>theta\<close>. The angles are the only state the solver carries from frame
  to frame.

  \<^bold>\<open>Theories, in import order.\<close>
  \<^item> \<open>IK_Prelude\<close>: the number type, counted loops (\<open>for_loop\<close>) and the array idioms,
    the fact collections.
  \<^item> \<open>Glm\<close>: the GLM primitives the program calls (\<open>vec3\<close>, \<open>vec4\<close>, \<open>mat4\<close>,
    \<open>glm_translate\<close>, \<open>glm_scale\<close>, \<open>glm_rotate\<close>, \<open>glm_ortho\<close>, \<open>glm_lookAt\<close>,
    \<open>glm_cross\<close>, \<open>glm_dot\<close>, \<open>glm_length\<close>), modelled from GLM's documented
    semantics since GLM is not part of the repository.
  \<^item> \<open>Scene\<close>: \<open>Projection\<close>, \<open>View\<close>, the mesh data (lines 84-128).
  \<^item> \<open>Skeleton\<close>: the chain's constants, the record \<open>ik_state\<close> of \<open>main\<close>'s
    variables, \<open>init_state\<close> (lines 60-61, 141-156), well-formedness.
  \<^item> \<open>Render\<close>: \<open>draw_mesh\<close>, \<open>clear_screen\<close>, \<open>frame_locals\<close>, \<open>draw_target\<close>
    (lines 161, 186-243).
  \<^item> \<open>Input\<close>: \<open>frame_input\<close>, \<open>poll_target\<close> (lines 167-182).
  \<^item> \<open>Planar_Chain\<close>: the abstract specification of the chain (\<open>joint_pos\<close>,
    \<open>heading\<close>, \<open>rigid\<close>).
  \<^item> \<open>Forward_Kinematics\<close>: \<open>bone_body\<close>, \<open>bone_loop\<close>, \<open>end_effector\<close>
    (lines 246-331) and their refinement of \<open>Planar_Chain\<close>.
  \<^item> \<open>IK_Step\<close>: \<open>jac_loop\<close>, \<open>dtheta_loop\<close>, \<open>theta_loop\<close>, \<open>ik_update\<close>
    (lines 332-351) and the reference update \<open>jt_step\<close>.
  \<^item> \<open>Frame\<close>: \<open>frame\<close>, \<open>keep_running\<close>, \<open>run\<close>, \<open>reachable\<close> (lines 158-360).
  \<^item> \<open>Gradient\<close>: the derivatives of forward kinematics and of the squared error
    (\<open>vec3_deriv\<close>, \<open>half_sq_error\<close>, \<open>partial_error\<close>, \<open>descent_dir\<close>, \<open>move\<close>), and
    the solver step as a step of gradient descent.
  \<^item> \<open>Descent\<close>: the second derivative of the error along a line of poses, its bound
    \<open>curvature_bound\<close>, and the descent lemma for the program's chain and step size.
  \<^item> \<open>Convergence\<close>: the fixed points of the frame, strict decrease of the error away
    from them, and the bound on the sum of the squared gradients over any number of
    frames.
  \<^item> \<open>Program\<close>: \<open>initialise\<close>, \<open>main_loop\<close>, \<open>main\<close> (lines 22-58, 158-372): the
    failure exits, the loop over a stream of inputs, the normal exit.
  \<^item> this theory: the properties that span the components.

  \<^bold>\<open>How state and operations correspond to the code.\<close> \<open>main\<close>'s variables are the
  fields of \<open>ik_state\<close>; each group of statements of the loop body is one definition
  that takes the state and returns it updated, in the order of the source; the three
  counted loops over arrays are \<open>for_loop\<close>s over lists updated by index. The link
  lengths and the bone count are parameters of the kinematics definitions and are
  instantiated with the program's constants in \<open>frame\<close>; the end effector keeps the
  literal index 4 of the source. What a frame reads from outside is a \<open>frame_input\<close>.

  \<^bold>\<open>Numbers.\<close> \<open>float\<close> and \<open>double\<close> are the real numbers: the theorems are about the
  exact arithmetic that the program approximates, not about rounding, overflow or NaN.
  In particular the guard \<open>length(endEffect - target) > 0.00001f\<close> is the exact
  comparison with \<open>1 / 100000\<close>.

  \<^bold>\<open>Bounds.\<close> All arrays have five cells (\<open>wf_state\<close>, \<open>wf_lengths\<close>, \<open>wf_input\<close>);
  under these every index the frame uses is in range, which is what the program's
  constants give. No fuel is used: every loop of a frame is a counted loop, \<open>run\<close>
  recurses on the finite list of inputs it is given, and the frame loop over an
  unbounded stream of inputs is the partial function \<open>main_loop\<close>, whose value \<open>None\<close>
  stands for a loop that never ends; that it returns when a stop is signalled is a
  theorem of theory \<open>Program\<close>, as is that it does not otherwise.

  \<^bold>\<open>What the lemmas show.\<close> Forward kinematics refines the planar chain (joint
  positions, end effector, rigid links, reach, bones drawn joint to joint); the solver
  loops compute the Jacobian-transpose update independently of uninitialised memory;
  a frame implements \<open>frame_spec\<close>; the reachable states are well formed; before the
  first click the chain holds its rest pose; the marker is drawn under the cursor.
  The Jacobian columns are the partial derivatives of the end effector that forward
  kinematics computes, the solver step is a step of size \<open>step\<close> along the negative
  gradient of half the squared distance to the target, and that direction is a descent
  direction. For targets within 85 units of the base, which includes all the window
  shows, the step size is small enough that no frame increases the distance to the
  target, so the solver cannot diverge; a frame leaves the angles unchanged exactly at
  the stationary poses of the error or within the threshold, strictly decreases the
  error otherwise, and over \<open>N\<close> frames the squared gradients sum to at most
  \<open>2 / step\<close> times the initial error. \<open>main\<close> returns -1 exactly on an initialisation failure, and 0 after the
  frame in which a stop is first signalled, in a state that satisfies the invariants.
  Each frame prints the position of joint 4 and of the end effector of the planar
  chain. Theorems also record behaviour the specification does not describe: the
  solver step is not guarded by \<open>targetSet\<close>, and no target on the axis of the straight
  chain is ever approached.

  \<^bold>\<open>Not modelled.\<close> Shader loading, vertex array and buffer objects and their
  cleanup, the OpenGL state changes other than the matrices a draw call is given, the
  \<open>getchar\<close> before a failure exit, and floating-point rounding. The error is
  proved not to increase; that it tends to zero is not a theorem, and is false for
  some targets (a target on the axis of the straight chain).
\<close>

section \<open>The frame refines its specification\<close>

text \<open>
  C1. Refinement of a whole frame. From any well-formed state, one frame records the
  joint positions and the end effector of the planar chain at the current angles, reads
  the target the click gives (or keeps the old one), and replaces the angles by one
  Jacobian-transpose step towards it, or leaves them when within the threshold.
\<close>

theorem frame_implements_spec:
  assumes "wf_state s" "wf_input inp"
  shows "theta (frame inp s) = frame_spec lengths (frame_target inp s) (theta s) \<and>
         positions (frame inp s) = map (joint_pos lengths (theta s)) [0..<numBones] \<and>
         endEffect (frame inp s) = joint_pos lengths (theta s) numBones \<and>
         target (frame inp s) = frame_target inp s"
  using assms by (simp add: theta_frame positions_frame endEffect_frame numBones_def del: upt_Suc)

theorem frame_implements_spec_witness:
  "wf_state init_state \<and> wf_input (click 512 0) \<and>
   theta (frame (click 512 0) init_state) =
     [117 / 5000, 12 / 625, 111 / 10000, 9 / 2000, 3 / 1250] \<and>
   endEffect (frame (click 512 0) init_state) = Vec3 39 0 0 \<and>
   target (frame (click 512 0) init_state) = Vec3 0 60 0"
  using frame_implements_spec [of init_state "click 512 0"]
  by (simp add: frame_target_def frame_spec_first_click numBones_def joint_pos_init_state
      del: joint_pos.simps upt_Suc)

text \<open>
  C25. A frame reads no uninitialised or stale data. Its results depend only on the
  joint angles, the target and the mouse: neither the content of the uninitialised
  array \<open>dtheta\<close> nor what \<open>positions\<close>, the matrices and the end effector held
  before the frame makes a difference.
\<close>

theorem frame_ignores_scratch:
  assumes "wf_state s" "wf_state s'" "wf_input inp" "wf_input inp'"
    and "theta s' = theta s" "target s' = target s"
    and "mouse_pressed inp' = mouse_pressed inp"
    and "cursor_x inp' = cursor_x inp" "cursor_y inp' = cursor_y inp"
  shows "theta (frame inp' s') = theta (frame inp s) \<and>
         positions (frame inp' s') = positions (frame inp s) \<and>
         endEffect (frame inp' s') = endEffect (frame inp s)"
  using assms by (simp add: theta_frame positions_frame endEffect_frame frame_target_def)

theorem frame_ignores_scratch_witness:
  "wf_state init_state \<and> wf_state rest_aim \<and> wf_input idle \<and>
   wf_input (idle\<lparr>dtheta_init := [9, 8, 7, 6, 5]\<rparr>) \<and>
   theta rest_aim = theta init_state \<and>
   target (rest_aim\<lparr>worldTargetY := 0\<rparr>) = target init_state \<and>
   theta (frame (idle\<lparr>dtheta_init := [9, 8, 7, 6, 5]\<rparr>) (rest_aim\<lparr>worldTargetY := 0\<rparr>)) =
     theta (frame idle init_state) \<and>
   positions (frame (idle\<lparr>dtheta_init := [9, 8, 7, 6, 5]\<rparr>) (rest_aim\<lparr>worldTargetY := 0\<rparr>)) =
     positions (frame idle init_state)"
  using frame_ignores_scratch [of init_state "rest_aim\<lparr>worldTargetY := 0\<rparr>" idle
      "idle\<lparr>dtheta_init := [9, 8, 7, 6, 5]\<rparr>"]
  by (simp add: wf_state_def wf_input_def numBones_def target_def rest_aim_def init_state_def
      idle_def)

section \<open>Invariants of the reachable states\<close>

definition target_consistent :: "ik_state \<Rightarrow> bool" where
  "target_consistent s \<longleftrightarrow>
     (if targetSet s
      then worldTargetX s = world_x (targetX s) \<and> worldTargetY s = world_y (targetY s)
      else theta s = replicate numBones 0 \<and> worldTargetX s = 0 \<and> worldTargetY s = 0)"

lemma target_consistent_init: "target_consistent init_state"
  by (simp add: target_consistent_def numBones_def eval_nat_numeral)

lemma target_consistent_frame:
  assumes "wf_state s" "wf_input inp" "target_consistent s"
  shows "target_consistent (frame inp s)"
proof (cases "mouse_pressed inp \<or> targetSet s")
  case True
  with assms(3) show ?thesis
    by (auto simp: target_consistent_def)
next
  case False
  with assms have "theta (frame inp s) = replicate 5 0"
    by (intro frame_straight) (simp_all add: target_consistent_def numBones_def frame_target_def)
  with False assms(3) show ?thesis
    by (simp add: target_consistent_def numBones_def)
qed

lemma reachable_target_consistent: "reachable s \<Longrightarrow> target_consistent s"
proof (induction rule: reachable.induct)
  case reach_init
  show ?case by (rule target_consistent_init)
next
  case (reach_frame s inp)
  then show ?case by (simp add: target_consistent_frame reachable_wf_state)
qed

text \<open>
  C9. Invariant of the frame loop. In every state the program reaches, the arrays
  \<open>theta\<close> and \<open>positions\<close> have \<open>numBones\<close> cells; once a target is set the world
  target is the image of the stored cursor position; and as long as no target is set
  the chain is still in its rest pose.
\<close>

theorem reachable_invariant:
  assumes "reachable s"
  shows "wf_state s \<and> target_consistent s"
  using assms by (simp add: reachable_wf_state reachable_target_consistent)

theorem reachable_invariant_witness:
  "reachable (frame (click 512 0) (frame idle init_state)) \<and>
   wf_state (frame (click 512 0) (frame idle init_state)) \<and>
   target_consistent (frame (click 512 0) (frame idle init_state))"
proof -
  have "reachable (frame (click 512 0) (frame idle init_state))"
    by (intro reachable.intros) simp_all
  with reachable_invariant [of "frame (click 512 0) (frame idle init_state)"] show ?thesis
    by simp
qed

text \<open>
  C8. No-op before a target is set. From the initial state, any number of frames
  without a click leaves every joint angle at zero and the target unset.
\<close>

theorem rest_pose_until_first_click:
  assumes "list_all (\<lambda>inp. wf_input inp \<and> \<not> mouse_pressed inp) inps"
  shows "theta (run inps init_state) = replicate numBones 0 \<and> \<not> targetSet (run inps init_state)"
proof -
  let ?P = "\<lambda>s. wf_state s \<and> target_consistent s \<and> \<not> targetSet s"
  have "?P (run inps init_state)"
  proof (rule run_invariant)
    show "?P init_state" by (simp add: target_consistent_init)
  next
    fix inp t
    assume "inp \<in> set inps" "?P t"
    with assms show "?P (frame inp t)"
      by (simp add: target_consistent_frame list_all_iff)
  qed
  then show ?thesis
    by (simp add: target_consistent_def)
qed

theorem rest_pose_until_first_click_witness:
  "list_all (\<lambda>inp. wf_input inp \<and> \<not> mouse_pressed inp) [idle, idle, idle] \<and>
   theta (run [idle, idle, idle] init_state) = [0, 0, 0, 0, 0] \<and>
   \<not> targetSet (run [idle, idle, idle] init_state)"
  using rest_pose_until_first_click [of "[idle, idle, idle]"]
  by (simp add: numBones_def eval_nat_numeral)

text \<open>
  C22. Stabilisation. Once the end effector is within the threshold of the target,
  frames without a click leave the joint angles unchanged, for any number of frames.
\<close>

theorem converged_stays:
  assumes "wf_state s"
    and "list_all (\<lambda>inp. wf_input inp \<and> \<not> mouse_pressed inp) inps"
    and "glm_length (joint_pos lengths (theta s) numBones - target s) \<le> threshold"
  shows "theta (run inps s) = theta s"
proof -
  let ?P = "\<lambda>t. wf_state t \<and> theta t = theta s \<and> target t = target s"
  have "?P (run inps s)"
  proof (rule run_invariant)
    show "?P s" using assms(1) by simp
  next
    fix inp t
    assume "inp \<in> set inps" "?P t"
    with assms(2,3) show "?P (frame inp t)"
      by (simp add: frame_converged target_frame_idle list_all_iff numBones_def
          del: joint_pos.simps)
  qed
  then show ?thesis by simp
qed

theorem converged_stays_witness:
  "wf_state (init_state\<lparr>worldTargetX := 39\<rparr>) \<and>
   list_all (\<lambda>inp. wf_input inp \<and> \<not> mouse_pressed inp) [idle, idle] \<and>
   glm_length (joint_pos lengths (theta (init_state\<lparr>worldTargetX := 39\<rparr>)) numBones -
               target (init_state\<lparr>worldTargetX := 39\<rparr>)) \<le> threshold \<and>
   theta (run [idle, idle] (init_state\<lparr>worldTargetX := 39\<rparr>)) = [0, 0, 0, 0, 0]"
  using converged_stays [of "init_state\<lparr>worldTargetX := 39\<rparr>" "[idle, idle]"]
  by (simp add: wf_state_def numBones_def init_state_def target_def joint_pos_init_state
      del: joint_pos.simps)

section \<open>Behaviour the specification does not describe\<close>

text \<open>
  C10. A target on the axis of the straight chain is never approached. After a click at
  window position \<open>(768, 384)\<close>, which is the world point \<open>(30, 0)\<close>, 9 units from
  the end effector and well within the chain's reach of 39, the joint angles stay
  zero for any number of further frames.
\<close>

theorem straight_chain_is_stuck:
  "theta (run (click 768 384 # replicate n idle) init_state) = replicate numBones 0 \<and>
   target (run (click 768 384 # replicate n idle) init_state) = Vec3 30 0 0 \<and>
   glm_length (joint_pos lengths (replicate numBones 0) numBones - Vec3 30 0 0) = 9 \<and>
   threshold < 9"
proof -
  let ?P = "\<lambda>t. wf_state t \<and> theta t = replicate 5 0 \<and> target t = Vec3 30 0 0"
  have first: "?P (frame (click 768 384) init_state)"
    by (simp add: frame_straight frame_target_def eval_nat_numeral)
  have "?P (run (replicate n idle) (frame (click 768 384) init_state))"
  proof (rule run_invariant)
    show "?P (frame (click 768 384) init_state)" by (rule first)
  next
    fix inp t
    assume "inp \<in> set (replicate n idle)" "?P t"
    then show "?P (frame inp t)"
      by (auto simp: frame_straight frame_target_def simp del: replicate.simps)
  qed
  moreover have "joint_pos lengths (replicate 5 0) 5 = Vec3 39 0 0"
    by (simp add: joint_pos_rest lengths_def del: joint_pos.simps replicate.simps)
  moreover have "glm_length (Vec3 9 0 0) = 9"
    by (simp add: glm_length_def glm_dot_def)
  ultimately show ?thesis
    by (simp add: keep_running_def numBones_def threshold_def del: replicate.simps)
qed

section \<open>The marker is drawn under the cursor\<close>

text \<open>
  C31. In a frame with a click, the first thing drawn is the target marker, and the
  middle of its axis appears at the cursor: at the normalised device coordinates
  \<open>(2 x / width - 1, 1 - 2 y / height)\<close> of the cursor position \<open>(x, y)\<close>.
\<close>

theorem marker_drawn_at_cursor:
  assumes "wf_state s" "mouse_pressed inp"
  shows "ndc (hd (drawn (frame inp s))) (Vec3 (1 / 2) 0 0) =
         Vec3 (2 * cursor_x inp / window_width - 1) (1 - 2 * cursor_y inp / window_height) (2 / 3)"
proof -
  let ?wx = "world_x (cursor_x inp)" and ?wy = "world_y (cursor_y inp)"
  have "hd (drawn (frame inp s)) =
        Projection * View *
          (glm_translate 1 (Vec3 (?wx - 1 / 2) ?wy 0) * glm_scale 1 (Vec3 1 (10 / 6) 1))"
    using assms by (simp add: drawn_frame del: upt_Suc)
  moreover have "ndc (Projection * View *
              (glm_translate 1 (Vec3 (?wx - 1 / 2) ?wy 0) * glm_scale 1 (Vec3 1 (10 / 6) 1)))
            (Vec3 (1 / 2) 0 0) = Vec3 (?wx / 60) (?wy / 60) (2 / 3)"
    by (simp add: ndc_camera_model ndc_camera mat_vec_mult)
  moreover have "?wx / 60 = 2 * cursor_x inp / window_width - 1"
    "?wy / 60 = 1 - 2 * cursor_y inp / window_height"
    by (simp_all add: world_x_def world_y_def window_width_def window_height_def field_simps)
  ultimately show ?thesis
    by simp
qed

theorem marker_drawn_at_cursor_witness:
  "wf_state init_state \<and> mouse_pressed (click 768 384) \<and>
   ndc (hd (drawn (frame (click 768 384) init_state))) (Vec3 (1 / 2) 0 0) = Vec3 (1 / 2) 0 (2 / 3)"
  using marker_drawn_at_cursor [of init_state "click 768 384"]
  by (simp add: window_width_def window_height_def)

text \<open>
  C33. A frame draws every bone once, after the marker if there is one: \<open>numBones\<close>
  draw calls, and one more once a target has been set.
\<close>

theorem frame_draw_count:
  assumes "wf_state s"
  shows "length (drawn (frame inp s)) = numBones + (if mouse_pressed inp \<or> targetSet s then 1 else 0)"
  using assms by (simp add: drawn_frame numBones_def del: upt_Suc)

theorem frame_draw_count_witness:
  "wf_state init_state \<and> length (drawn (frame idle init_state)) = 5 \<and>
   length (drawn (frame (click 1 2) init_state)) = 6"
  using frame_draw_count [of init_state idle] frame_draw_count [of init_state "click 1 2"]
  by (simp add: numBones_def)

section \<open>What the program prints\<close>

lemma printed_poll_target:
  "printed (poll_target inp s) = printed s @
     (if mouse_pressed inp then [Print_W (world_x (cursor_x inp)) (world_y (cursor_y inp))] else [])"
  by (simp add: poll_target_def Let_def)

lemma printed_forward_kinematics:
  assumes "wf_lengths ls" "wf_state s"
  shows "printed (forward_kinematics ls 5 s) = printed s @
     [Print_P4 (vx (joint_pos ls (theta s) 4)) (vy (joint_pos ls (theta s) 4)),
      Print_EE (vx (joint_pos ls (theta s) 5)) (vy (joint_pos ls (theta s) 5))]"
proof -
  have "positions (bone_loop ls 5 (bone_reset s)) ! 4 = joint_pos ls (theta s) 4"
    using assms by (simp add: bone_loop_positions del: upt_Suc)
  moreover have "endEffect (end_effector ls (bone_loop ls 5 (bone_reset s))) = joint_pos ls (theta s) 5"
    using forward_kinematics_endEffect [OF assms] by (simp add: forward_kinematics_def)
  ultimately show ?thesis
    by (simp add: forward_kinematics_def printed_end_effector)
qed

text \<open>
  C30. What a frame prints. A frame appends to the output the world target if there was
  a click, then the position of joint 4 and the position of the end effector of the
  planar chain at the angles before the frame, and nothing else.
\<close>

theorem frame_prints:
  assumes "wf_state s"
  shows "printed (frame inp s) = printed s @
     (if mouse_pressed inp then [Print_W (world_x (cursor_x inp)) (world_y (cursor_y inp))] else []) @
     [Print_P4 (vx (joint_pos lengths (theta s) 4)) (vy (joint_pos lengths (theta s) 4)),
      Print_EE (vx (joint_pos lengths (theta s) numBones)) (vy (joint_pos lengths (theta s) numBones))]"
  using assms
  by (simp add: frame_def Let_def numBones_def printed_forward_kinematics printed_poll_target
      del: joint_pos.simps)

lemma printed_init_state [simp]: "printed init_state = []"
  by (simp add: init_state_def)

theorem frame_prints_witness:
  "wf_state init_state \<and>
   printed (frame (click 512 0) init_state) = [Print_W 0 60, Print_P4 35 0, Print_EE 39 0]"
  using frame_prints [of init_state "click 512 0"] joint_pos_init_state
  by (simp add: numBones_def eval_nat_numeral del: joint_pos.simps)

section \<open>Targets on the axis\<close>

text \<open>
  C15. No target on the axis of the straight chain is ever approached. If every click is
  at the height of the middle of the window, the world target is on the x axis, and the
  chain stays in its rest pose for ever, wherever on the axis the targets are.
\<close>

theorem axis_targets_never_approached:
  assumes "list_all (\<lambda>inp. wf_input inp \<and> (mouse_pressed inp \<longrightarrow> cursor_y inp = 384)) inps"
  shows "theta (run inps init_state) = replicate numBones 0 \<and> vy (target (run inps init_state)) = 0"
proof -
  let ?P = "\<lambda>t. wf_state t \<and> theta t = replicate 5 0 \<and> vy (target t) = 0"
  have "?P (run inps init_state)"
  proof (rule run_invariant)
    show "?P init_state"
      by (simp add: target_def eval_nat_numeral)
  next
    fix inp t
    assume "inp \<in> set inps" and t: "?P t"
    with assms have inp: "wf_input inp" "mouse_pressed inp \<longrightarrow> cursor_y inp = 384"
      by (auto simp: list_all_iff)
    then have vy: "vy (frame_target inp t) = 0"
      using t by (auto simp: frame_target_def)
    with t inp(1) have "theta (frame inp t) = replicate 5 0"
      by (intro frame_straight) simp_all
    with t vy show "?P (frame inp t)" by simp
  qed
  then show ?thesis by (simp add: numBones_def)
qed

theorem axis_targets_never_approached_witness:
  "theta (run [click 768 384, idle, click 100 384, idle] init_state) = [0, 0, 0, 0, 0] \<and>
   target (run [click 768 384, idle, click 100 384, idle] init_state) = Vec3 (- (1545 / 32)) 0 0"
  using axis_targets_never_approached [of "[click 768 384, idle, click 100 384, idle]"]
  by (simp add: numBones_def eval_nat_numeral keep_running_def vec3_eq_iff world_x_def)

section \<open>The whole program\<close>

text \<open>
  C11. Normal exit. If GLFW, the window and GLEW initialise and the escape key or the
  close flag is first seen in frame \<open>n\<close>, \<open>main\<close> returns 0 after exactly \<open>n + 1\<close>
  frames, having shut GLFW down; the state it ends in is the run over the inputs of
  those frames from the initial state, and it satisfies the invariants of the frame
  loop.
\<close>

theorem main_normal_exit:
  assumes "glfw_init_ok p" "window_opened p" "glew_init_ok p"
    and "\<And>k. wf_input (inps !! k)" and "first_stop inps n"
  shows "main p inps = Some (normal_exit (run (stake (Suc n) inps) init_state)) \<and>
         exit_code (normal_exit (run (stake (Suc n) inps) init_state)) = 0 \<and>
         glfw_terminated (normal_exit (run (stake (Suc n) inps) init_state)) \<and>
         reachable (run (stake (Suc n) inps) init_state) \<and>
         wf_state (run (stake (Suc n) inps) init_state) \<and>
         target_consistent (run (stake (Suc n) inps) init_state)"
proof -
  let ?t = "run (stake (Suc n) inps) init_state"
  have loop: "main_loop inps init_state = Some ?t"
    using assms(5) by (rule main_loop_first_stop)
  have "reachable ?t"
    using reach_init assms(4) loop by (rule main_loop_reachable)
  with loop assms(1-3) show ?thesis
    by (simp add: main_initialised reachable_target_consistent del: stake.simps)
qed

theorem main_normal_exit_witness:
  "glfw_init_ok working_platform \<and> window_opened working_platform \<and>
   glew_init_ok working_platform \<and> (\<forall>k. wf_input (session !! k)) \<and>
   \<not> keep_running (session !! 2) \<and>
   main working_platform session = Some (normal_exit (run [click 512 0, idle, quit] init_state)) \<and>
   targetSet (run [click 512 0, idle, quit] init_state) \<and>
   target (run [click 512 0, idle, quit] init_state) = Vec3 0 60 0"
  using main_normal_exit [of working_platform session 2]
  by (simp add: working_platform_def wf_input_session first_stop_session session_sel
      numeral_2_eq_2)

end
